theory Spec2Isabelle
  imports Complex_Main "HOL-Library.Stream"
begin

section \<open>Data model\<close>

text \<open>
  The repository holds three variants of one Go program (\<^verbatim>\<open>main.go\<close> and two further
  \<^verbatim>\<open>package main\<close> files). They share the types and the functions
  \<^verbatim>\<open>calculateFitness\<close>, \<^verbatim>\<open>TournamentSelection\<close>, \<^verbatim>\<open>CreateNewGeneration\<close>,
  \<^verbatim>\<open>crossover\<close> and \<^verbatim>\<open>mutate\<close> word for word, except for the two penalty constants
  of \<^verbatim>\<open>calculateFitness\<close> and for the driver loop in \<^verbatim>\<open>main\<close>.

  Go structs are records. \<^verbatim>\<open>time.Weekday\<close> is an enumeration; a \<^verbatim>\<open>time.Time\<close> is
  only ever compared with \<^verbatim>\<open>Before\<close>, so an instant is an integer and \<^verbatim>\<open>Before\<close> is
  \<open><\<close>. Go's \<^verbatim>\<open>int\<close> is modelled by \<open>int\<close>: the only arithmetic is the penalty
  counter, which would need several hundred million genes to leave 64 bits.
\<close>

datatype Weekday = Sunday | Monday | Tuesday | Wednesday | Thursday | Friday | Saturday

record Teacher =
  ID :: string
  Name :: string
  Subjects :: "string list"
  Available :: "Weekday list"

record Room =
  ID :: string
  Capacity :: int

record TimeSlot =
  Day :: Weekday
  Start :: int
  End :: int

text \<open>
  A \<^verbatim>\<open>*Teacher\<close>, \<^verbatim>\<open>*Room\<close> or \<^verbatim>\<open>*TimeSlot\<close> is never written through and never
  compared by address in the functions modelled here, so such a pointer is the value it
  points to, or \<open>None\<close> for \<^verbatim>\<open>nil\<close>.
\<close>

record Class =
  Subject :: string
  Teacher :: "Teacher option"
  Room :: "Room option"
  TimeSlot :: "TimeSlot option"
  Capacity :: int

text \<open>
  A \<^verbatim>\<open>*Class\<close> is different: \<^verbatim>\<open>mutate\<close> writes through it. Class objects therefore live
  in an explicit heap, a list of cells addressed by position; \<^verbatim>\<open>&Class{...}\<close> appends a
  cell. A \<^verbatim>\<open>*Class\<close> is \<open>None\<close> (\<^verbatim>\<open>nil\<close>) or \<open>Some a\<close>. An address beyond the
  allocated cells cannot arise in Go; reading or writing it is treated like \<^verbatim>\<open>nil\<close>.
\<close>

type_synonym ClassPtr = "nat option"

type_synonym Heap = "Class list"

record Gene =
  ClassAssignment :: ClassPtr

record Chromosome =
  Genes :: "Gene list"

record Population =
  Timetables :: "Chromosome list"

section \<open>Run-time panics\<close>

datatype panic = NilDereference | IndexOutOfRange | InvalidIntnArgument | CapOutOfRange

definition andThen :: "panic + 'a \<Rightarrow> ('a \<Rightarrow> panic + 'b) \<Rightarrow> panic + 'b" where
  "andThen m f = (case m of Inl e \<Rightarrow> Inl e | Inr x \<Rightarrow> f x)"

definition deref :: "'a option \<Rightarrow> panic + 'a" where
  "deref p = (case p of None \<Rightarrow> Inl NilDereference | Some x \<Rightarrow> Inr x)"

definition load :: "Heap \<Rightarrow> ClassPtr \<Rightarrow> panic + Class" where
  "load h p =
     (case p of
        None \<Rightarrow> Inl NilDereference
      | Some a \<Rightarrow> if a < length h then Inr (h ! a) else Inl NilDereference)"

definition store :: "Heap \<Rightarrow> ClassPtr \<Rightarrow> (Class \<Rightarrow> Class) \<Rightarrow> panic + Heap" where
  "store h p f =
     (case p of
        None \<Rightarrow> Inl NilDereference
      | Some a \<Rightarrow> if a < length h then Inr (h[a := f (h ! a)]) else Inl NilDereference)"

definition index :: "'a list \<Rightarrow> int \<Rightarrow> panic + 'a" where
  "index xs i = (if 0 \<le> i \<and> i < int (length xs) then Inr (xs ! nat i) else Inl IndexOutOfRange)"

section \<open>The constraint predicates\<close>

text \<open>
  The predicates that \<^verbatim>\<open>calculateFitness\<close> calls. \<^verbatim>\<open>checkRoomAvailability\<close> is never
  called by any function of the program and is left out, as are \<^verbatim>\<open>PrintTimetable\<close> and
  the other output routines, which only read the timetable they are given.
\<close>

definition timeSlotsOverlap :: "TimeSlot option \<Rightarrow> TimeSlot option \<Rightarrow> panic + bool" where
  "timeSlotsOverlap slot1 slot2 =
     andThen (deref slot1) (\<lambda>s1.
     andThen (deref slot2) (\<lambda>s2.
       Inr (Day s1 = Day s2 \<and> Start s1 < End s2 \<and> Start s2 < End s1)))"

fun availableLoop :: "Weekday list \<Rightarrow> TimeSlot option \<Rightarrow> panic + bool" where
  "availableLoop [] timeSlot = Inr False"
| "availableLoop (availableDay # rest) timeSlot =
     andThen (deref timeSlot) (\<lambda>s.
       if availableDay = Day s then Inr True else availableLoop rest timeSlot)"

definition checkTeacherAvailability :: "Teacher option \<Rightarrow> TimeSlot option \<Rightarrow> panic + bool" where
  "checkTeacherAvailability teacher timeSlot =
     andThen (deref teacher) (\<lambda>t. availableLoop (Available t) timeSlot)"

definition checkRoomCapacity :: "Heap \<Rightarrow> ClassPtr \<Rightarrow> Room option \<Rightarrow> panic + bool" where
  "checkRoomCapacity h class room =
     andThen (load h class) (\<lambda>c.
     andThen (deref room) (\<lambda>r.
       Inr (Class.Capacity c \<le> Room.Capacity r)))"

fun subjectsLoop :: "string list \<Rightarrow> string \<Rightarrow> bool" where
  "subjectsLoop [] subject = False"
| "subjectsLoop (subj # rest) subject = (if subj = subject then True else subjectsLoop rest subject)"

definition checkTeacherQualification :: "Teacher option \<Rightarrow> string \<Rightarrow> panic + bool" where
  "checkTeacherQualification teacher subject =
     andThen (deref teacher) (\<lambda>t. Inr (subjectsLoop (Subjects t) subject))"

section \<open>The fitness function\<close>

text \<open>
  \<^verbatim>\<open>calculateFitness\<close> subtracts 10 for a teacher conflict and 1 for a room conflict in
  \<^verbatim>\<open>main.go\<close> and in the grid-printing variant, and 20 for either in the variant that
  writes \<^verbatim>\<open>table.html\<close>. The two constants are the only difference, so they are a
  parameter here and each file is an instance.
\<close>

record Weights =
  teacherConflict :: int
  roomConflict :: int

definition weightsMain :: Weights where
  "weightsMain = \<lparr>teacherConflict = 10, roomConflict = 1\<rparr>"

definition weightsHtml :: Weights where
  "weightsHtml = \<lparr>teacherConflict = 20, roomConflict = 20\<rparr>"

text \<open>The body of the inner loop for one pair with \<^verbatim>\<open>i != j\<close>.\<close>

definition pairStep :: "Weights \<Rightarrow> Heap \<Rightarrow> Gene \<Rightarrow> Gene \<Rightarrow> int \<Rightarrow> panic + int" where
  "pairStep w h gene1 gene2 fitness =
     andThen (load h (ClassAssignment gene1)) (\<lambda>c1.
     andThen (load h (ClassAssignment gene2)) (\<lambda>c2.
     andThen (timeSlotsOverlap (TimeSlot c1) (TimeSlot c2)) (\<lambda>overlap.
       if overlap then
         andThen (deref (Teacher c1)) (\<lambda>t1.
         andThen (deref (Teacher c2)) (\<lambda>t2.
           let fitness1 = (if Teacher.ID t1 = Teacher.ID t2
                           then fitness - teacherConflict w else fitness)
           in
         andThen (deref (Room c1)) (\<lambda>r1.
         andThen (deref (Room c2)) (\<lambda>r2.
           Inr (if Room.ID r1 = Room.ID r2 then fitness1 - roomConflict w else fitness1)))))
       else Inr fitness)))"

fun innerLoop :: "Weights \<Rightarrow> Heap \<Rightarrow> nat \<Rightarrow> Gene \<Rightarrow> nat \<Rightarrow> Gene list \<Rightarrow> int \<Rightarrow> panic + int" where
  "innerLoop w h i gene1 j [] fitness = Inr fitness"
| "innerLoop w h i gene1 j (gene2 # rest) fitness =
     (if i \<noteq> j
      then andThen (pairStep w h gene1 gene2 fitness) (innerLoop w h i gene1 (Suc j) rest)
      else innerLoop w h i gene1 (Suc j) rest fitness)"

text \<open>The three per-gene checks that follow the inner loop.\<close>

definition geneStep :: "Heap \<Rightarrow> Gene \<Rightarrow> int \<Rightarrow> panic + int" where
  "geneStep h gene1 fitness =
     andThen (load h (ClassAssignment gene1)) (\<lambda>c1.
     andThen (checkTeacherQualification (Teacher c1) (Subject c1)) (\<lambda>qualified.
       let fitness1 = (if \<not> qualified then fitness - 1 else fitness) in
     andThen (checkRoomCapacity h (ClassAssignment gene1) (Room c1)) (\<lambda>fits.
       let fitness2 = (if \<not> fits then fitness1 - 1 else fitness1) in
     andThen (checkTeacherAvailability (Teacher c1) (TimeSlot c1)) (\<lambda>available.
       Inr (if \<not> available then fitness2 - 1 else fitness2)))))"

fun outerLoop :: "Weights \<Rightarrow> Heap \<Rightarrow> Gene list \<Rightarrow> nat \<Rightarrow> Gene list \<Rightarrow> int \<Rightarrow> panic + int" where
  "outerLoop w h genes i [] fitness = Inr fitness"
| "outerLoop w h genes i (gene1 # rest) fitness =
     andThen (innerLoop w h i gene1 0 genes fitness) (\<lambda>fitness1.
     andThen (geneStep h gene1 fitness1) (outerLoop w h genes (Suc i) rest))"

definition calculateFitness :: "Weights \<Rightarrow> Heap \<Rightarrow> Chromosome \<Rightarrow> ClassPtr list \<Rightarrow> panic + int" where
  "calculateFitness w h chromosome classes =
     outerLoop w h (Genes chromosome) 0 (Genes chromosome) 0"

section \<open>Randomness\<close>

text \<open>
  \<^verbatim>\<open>math/rand\<close> is Go's library, not code of this repository. Its contract:
  \<^verbatim>\<open>rand.Intn(n)\<close> panics when \<^verbatim>\<open>n <= 0\<close> and otherwise returns a number in
  \<^verbatim>\<open>[0,n)\<close>; \<^verbatim>\<open>rand.Float64()\<close> returns a number in \<^verbatim>\<open>[0.0,1.0)\<close> (a multiple of
  \<open>2\<^sup>-\<^sup>5\<^sup>3\<close>). The shared generator is a stream of raw draws, one consumed per call;
  each value the contract allows is the answer to some draw. Two \<^verbatim>\<open>float64\<close> that are
  numbers compare as the reals they denote, so \<^verbatim>\<open>mutationRate\<close> is a real.
\<close>

type_synonym Rand = "nat stream"

definition Intn :: "int \<Rightarrow> Rand \<Rightarrow> panic + (int \<times> Rand)" where
  "Intn n r = (if n \<le> 0 then Inl InvalidIntnArgument else Inr (int (shd r) mod n, stl r))"

definition Float64 :: "Rand \<Rightarrow> real \<times> Rand" where
  "Float64 r = (real (shd r mod 2 ^ 53) / 2 ^ 53, stl r)"

text \<open>The mutable world of the program: the Class objects and the generator.\<close>

record State =
  heap :: Heap
  rand :: Rand

section \<open>Initialisation\<close>

fun initializeLoop ::
  "ClassPtr list \<Rightarrow> Teacher option list \<Rightarrow> Room option list \<Rightarrow> TimeSlot option list \<Rightarrow>
   Chromosome \<Rightarrow> State \<Rightarrow> panic + (Chromosome \<times> State)" where
  "initializeLoop [] teachers rooms timeSlots timetable s = Inr (timetable, s)"
| "initializeLoop (class # rest) teachers rooms timeSlots timetable s =
     andThen (Intn (int (length teachers)) (rand s)) (\<lambda>(k1, r1).
     andThen (index teachers k1) (\<lambda>assignedTeacher.
     andThen (Intn (int (length rooms)) r1) (\<lambda>(k2, r2).
     andThen (index rooms k2) (\<lambda>assignedRoom.
     andThen (Intn (int (length timeSlots)) r2) (\<lambda>(k3, r3).
     andThen (index timeSlots k3) (\<lambda>assignedTimeSlot.
     andThen (load (heap s) class) (\<lambda>c.
       let cell = \<lparr>Subject = Subject c, Teacher = assignedTeacher, Room = assignedRoom,
                   TimeSlot = assignedTimeSlot, Capacity = Class.Capacity c\<rparr>;
           gene = \<lparr>ClassAssignment = Some (length (heap s))\<rparr>
       in initializeLoop rest teachers rooms timeSlots
            (timetable\<lparr>Genes := Genes timetable @ [gene]\<rparr>)
            \<lparr>heap = heap s @ [cell], rand = r3\<rparr>)))))))"

definition initializeRandomTimetable ::
  "ClassPtr list \<Rightarrow> Teacher option list \<Rightarrow> Room option list \<Rightarrow> TimeSlot option list \<Rightarrow>
   State \<Rightarrow> panic + (Chromosome \<times> State)" where
  "initializeRandomTimetable classes teachers rooms timeSlots s =
     initializeLoop classes teachers rooms timeSlots \<lparr>Genes = []\<rparr> s"

section \<open>Tournament selection\<close>

function tournamentLoop ::
  "Weights \<Rightarrow> Heap \<Rightarrow> Population \<Rightarrow> int \<Rightarrow> ClassPtr list \<Rightarrow> int \<Rightarrow> int \<Rightarrow> int \<Rightarrow> Rand \<Rightarrow>
   panic + (int \<times> Rand)" where
  "tournamentLoop w h population tournamentSize classes i best bestFitness r =
     (if i < tournamentSize then
        andThen (Intn (int (length (Timetables population))) r) (\<lambda>(individualIndex, r1).
        andThen (index (Timetables population) individualIndex) (\<lambda>individual.
        andThen (calculateFitness w h individual classes) (\<lambda>currentFitness.
          if best = - 1 \<or> currentFitness > bestFitness
          then tournamentLoop w h population tournamentSize classes (i + 1)
                 individualIndex currentFitness r1
          else tournamentLoop w h population tournamentSize classes (i + 1)
                 best bestFitness r1)))
      else Inr (best, r))"
  by pat_completeness auto
termination
  by (relation "measure (\<lambda>(w, h, population, tournamentSize, classes, i, rest).
                  nat (tournamentSize - i))") auto

definition TournamentSelection ::
  "Weights \<Rightarrow> Population \<Rightarrow> int \<Rightarrow> ClassPtr list \<Rightarrow> State \<Rightarrow> panic + (Chromosome \<times> State)" where
  "TournamentSelection w population tournamentSize classes s =
     andThen (tournamentLoop w (heap s) population tournamentSize classes 0 (- 1) (- 1000) (rand s))
       (\<lambda>(best, r).
     andThen (index (Timetables population) best) (\<lambda>chosen.
       Inr (chosen, s\<lparr>rand := r\<rparr>)))"

section \<open>Crossover\<close>

function crossoverLoop ::
  "Chromosome \<Rightarrow> Chromosome \<Rightarrow> int \<Rightarrow> int \<Rightarrow> Gene list \<Rightarrow> panic + Gene list" where
  "crossoverLoop parent1 parent2 crossoverPoint i childGenes =
     (if i < int (length (Genes parent1)) then
        (if i < crossoverPoint
         then andThen (index (Genes parent1) i) (\<lambda>g.
                crossoverLoop parent1 parent2 crossoverPoint (i + 1) (childGenes @ [g]))
         else andThen (index (Genes parent2) i) (\<lambda>g.
                crossoverLoop parent1 parent2 crossoverPoint (i + 1) (childGenes @ [g])))
      else Inr childGenes)"
  by pat_completeness auto
termination
  by (relation "measure (\<lambda>(parent1, parent2, crossoverPoint, i, childGenes).
                  nat (int (length (Genes parent1)) - i))") auto

definition crossover :: "Chromosome \<Rightarrow> Chromosome \<Rightarrow> State \<Rightarrow> panic + (Chromosome \<times> State)" where
  "crossover parent1 parent2 s =
     andThen (Intn (int (length (Genes parent1))) (rand s)) (\<lambda>(crossoverPoint, r).
     andThen (crossoverLoop parent1 parent2 crossoverPoint 0 []) (\<lambda>childGenes.
       Inr (\<lparr>Genes = childGenes\<rparr>, s\<lparr>rand := r\<rparr>)))"

section \<open>Mutation\<close>

text \<open>
  One iteration of the loop of \<^verbatim>\<open>mutate\<close>. The assignment
  \<^verbatim>\<open>chromosome.Genes[i].ClassAssignment.Teacher = ...\<close> writes into the Class object the
  gene points to: a \<open>store\<close> into the heap. The slice of genes itself is not written.
\<close>

definition mutateGene ::
  "Chromosome \<Rightarrow> Teacher option list \<Rightarrow> Room option list \<Rightarrow> TimeSlot option list \<Rightarrow> real \<Rightarrow>
   int \<Rightarrow> State \<Rightarrow> panic + State" where
  "mutateGene chromosome teachers rooms timeSlots mutationRate i s =
     (let (u, r1) = Float64 (rand s) in
      if u < mutationRate then
        andThen (Intn 3 r1) (\<lambda>(mutationChoice, r2).
          if mutationChoice = 0 then
            andThen (Intn (int (length teachers)) r2) (\<lambda>(k, r3).
            andThen (index teachers k) (\<lambda>teacher.
            andThen (index (Genes chromosome) i) (\<lambda>gene.
            andThen (store (heap s) (ClassAssignment gene) (\<lambda>c. c\<lparr>Teacher := teacher\<rparr>)) (\<lambda>h.
              Inr \<lparr>heap = h, rand = r3\<rparr>))))
          else if mutationChoice = 1 then
            andThen (Intn (int (length rooms)) r2) (\<lambda>(k, r3).
            andThen (index rooms k) (\<lambda>room.
            andThen (index (Genes chromosome) i) (\<lambda>gene.
            andThen (store (heap s) (ClassAssignment gene) (\<lambda>c. c\<lparr>Room := room\<rparr>)) (\<lambda>h.
              Inr \<lparr>heap = h, rand = r3\<rparr>))))
          else if mutationChoice = 2 then
            andThen (Intn (int (length timeSlots)) r2) (\<lambda>(k, r3).
            andThen (index timeSlots k) (\<lambda>timeSlot.
            andThen (index (Genes chromosome) i) (\<lambda>gene.
            andThen (store (heap s) (ClassAssignment gene) (\<lambda>c. c\<lparr>TimeSlot := timeSlot\<rparr>)) (\<lambda>h.
              Inr \<lparr>heap = h, rand = r3\<rparr>))))
          else Inr (s\<lparr>rand := r2\<rparr>))
      else Inr (s\<lparr>rand := r1\<rparr>))"

function mutateLoop ::
  "Chromosome \<Rightarrow> Teacher option list \<Rightarrow> Room option list \<Rightarrow> TimeSlot option list \<Rightarrow> real \<Rightarrow>
   int \<Rightarrow> State \<Rightarrow> panic + State" where
  "mutateLoop chromosome teachers rooms timeSlots mutationRate i s =
     (if i < int (length (Genes chromosome)) then
        andThen (mutateGene chromosome teachers rooms timeSlots mutationRate i s)
          (mutateLoop chromosome teachers rooms timeSlots mutationRate (i + 1))
      else Inr s)"
  by pat_completeness auto
termination
  by (relation "measure (\<lambda>(chromosome, teachers, rooms, timeSlots, mutationRate, i, s).
                  nat (int (length (Genes chromosome)) - i))") auto

definition mutate ::
  "Chromosome \<Rightarrow> Teacher option list \<Rightarrow> Room option list \<Rightarrow> TimeSlot option list \<Rightarrow> real \<Rightarrow>
   State \<Rightarrow> panic + (Chromosome \<times> State)" where
  "mutate chromosome teachers rooms timeSlots mutationRate s =
     andThen (mutateLoop chromosome teachers rooms timeSlots mutationRate 0 s) (\<lambda>s1.
       Inr (chromosome, s1))"

section \<open>One generation\<close>

text \<open>
  The two \<^verbatim>\<open>append\<close>s at the end of the loop body: the first child always, the second
  only while the new generation is still short of \<^verbatim>\<open>populationSize\<close>.
\<close>

definition appendChildren :: "Population \<Rightarrow> int \<Rightarrow> Chromosome \<Rightarrow> Chromosome \<Rightarrow> Population" where
  "appendChildren newGeneration populationSize mutatedChild1 mutatedChild2 =
     (let newGeneration1 =
            newGeneration\<lparr>Timetables := Timetables newGeneration @ [mutatedChild1]\<rparr>
      in if int (length (Timetables newGeneration1)) < populationSize
         then newGeneration1\<lparr>Timetables := Timetables newGeneration1 @ [mutatedChild2]\<rparr>
         else newGeneration1)"

function generationLoop ::
  "Weights \<Rightarrow> Population \<Rightarrow> int \<Rightarrow> int \<Rightarrow> ClassPtr list \<Rightarrow> Teacher option list \<Rightarrow>
   Room option list \<Rightarrow> TimeSlot option list \<Rightarrow> real \<Rightarrow> int \<Rightarrow> Population \<Rightarrow> State \<Rightarrow>
   panic + (Population \<times> State)" where
  "generationLoop w population tournamentSize populationSize classes teachers rooms timeSlots
     mutationRate i newGeneration s =
     (if i < populationSize then
        andThen (TournamentSelection w population tournamentSize classes s) (\<lambda>(parent1, s1).
        andThen (TournamentSelection w population tournamentSize classes s1) (\<lambda>(parent2, s2).
        andThen (crossover parent1 parent2 s2) (\<lambda>(child1, s3).
        andThen (crossover parent2 parent1 s3) (\<lambda>(child2, s4).
        andThen (mutate child1 teachers rooms timeSlots mutationRate s4) (\<lambda>(mutatedChild1, s5).
        andThen (mutate child2 teachers rooms timeSlots mutationRate s5) (\<lambda>(mutatedChild2, s6).
          generationLoop w population tournamentSize populationSize classes teachers rooms
            timeSlots mutationRate (i + 2)
            (appendChildren newGeneration populationSize mutatedChild1 mutatedChild2) s6))))))
      else Inr (newGeneration, s))"
  by pat_completeness auto
termination
  by (relation "measure (\<lambda>(w, population, tournamentSize, populationSize, classes, teachers,
                            rooms, timeSlots, mutationRate, i, rest). nat (populationSize - i))") auto

definition CreateNewGeneration ::
  "Weights \<Rightarrow> Population \<Rightarrow> int \<Rightarrow> int \<Rightarrow> ClassPtr list \<Rightarrow> Teacher option list \<Rightarrow>
   Room option list \<Rightarrow> TimeSlot option list \<Rightarrow> real \<Rightarrow> State \<Rightarrow> panic + (Population \<times> State)" where
  "CreateNewGeneration w population tournamentSize populationSize classes teachers rooms timeSlots
     mutationRate s =
     generationLoop w population tournamentSize populationSize classes teachers rooms timeSlots
       mutationRate 0 \<lparr>Timetables = []\<rparr> s"

section \<open>The drivers\<close>

text \<open>
  \<^verbatim>\<open>main\<close> takes no input: catalogs and parameters are literals. The loops of \<^verbatim>\<open>main\<close>
  are modelled as functions of the variables they read. Printing is left out. To speak
  about the order of things, a driver keeps a trace: \<open>Produced g\<close> when
  \<^verbatim>\<open>CreateNewGeneration\<close> has returned generation \<open>g\<close>, and \<open>Evaluated g k score\<close> when
  the generation loop has called \<^verbatim>\<open>calculateFitness\<close> on the individual at index \<open>k\<close> of
  generation \<open>g\<close> and got \<open>score\<close>. The calls that \<^verbatim>\<open>TournamentSelection\<close> makes while
  the next generation is being produced, and those of the loop that displays the initial
  population, are no events. A run that panics ends with the panic and the trace up to
  there.
\<close>

datatype event = Produced int | Evaluated int nat int

definition orAbort ::
  "event list \<Rightarrow> panic + 'a \<Rightarrow> ('a \<Rightarrow> (panic \<times> event list) + 'b) \<Rightarrow> (panic \<times> event list) + 'b" where
  "orAbort t m f = (case m of Inl e \<Rightarrow> Inl (e, t) | Inr x \<Rightarrow> f x)"

text \<open>The loop that fills the initial population, and the loop that displays its scores.\<close>

function initialPopulationLoop ::
  "ClassPtr list \<Rightarrow> Teacher option list \<Rightarrow> Room option list \<Rightarrow> TimeSlot option list \<Rightarrow>
   int \<Rightarrow> int \<Rightarrow> Population \<Rightarrow> State \<Rightarrow> panic + (Population \<times> State)" where
  "initialPopulationLoop classes teachers rooms timeSlots populationSize i population s =
     (if i < populationSize then
        andThen (initializeRandomTimetable classes teachers rooms timeSlots s) (\<lambda>(timetable, s1).
          initialPopulationLoop classes teachers rooms timeSlots populationSize (i + 1)
            (population\<lparr>Timetables := Timetables population @ [timetable]\<rparr>) s1)
      else Inr (population, s))"
  by pat_completeness auto
termination
  by (relation "measure (\<lambda>(classes, teachers, rooms, timeSlots, populationSize, i, rest).
                  nat (populationSize - i))") auto

fun displayLoop :: "Weights \<Rightarrow> Heap \<Rightarrow> ClassPtr list \<Rightarrow> Chromosome list \<Rightarrow> panic + unit" where
  "displayLoop w h classes [] = Inr ()"
| "displayLoop w h classes (timetable # rest) =
     andThen (calculateFitness w h timetable classes) (\<lambda>fitness. displayLoop w h classes rest)"

text \<open>
  The generation loop of \<^verbatim>\<open>main.go\<close>: it evaluates the individual at index 1 of every
  new generation and prints its score.
\<close>

function evolveMain ::
  "int \<Rightarrow> int \<Rightarrow> ClassPtr list \<Rightarrow> Teacher option list \<Rightarrow> Room option list \<Rightarrow>
   TimeSlot option list \<Rightarrow> real \<Rightarrow> int \<Rightarrow> int \<Rightarrow> Population \<Rightarrow> event list \<Rightarrow> State \<Rightarrow>
   (panic \<times> event list) + (Population \<times> event list \<times> State)" where
  "evolveMain tournamentSize populationSize classes teachers rooms timeSlots mutationRate
     numGenerations generation population t s =
     (if generation < numGenerations then
        orAbort t (CreateNewGeneration weightsMain population tournamentSize populationSize
                     classes teachers rooms timeSlots mutationRate s) (\<lambda>(population1, s1).
        orAbort (t @ [Produced generation]) (index (Timetables population1) 1) (\<lambda>individual.
        orAbort (t @ [Produced generation])
                (calculateFitness weightsMain (heap s1) individual classes) (\<lambda>bestFitness.
          evolveMain tournamentSize populationSize classes teachers rooms timeSlots mutationRate
            numGenerations (generation + 1) population1
            (t @ [Produced generation, Evaluated generation 1 bestFitness]) s1)))
      else Inr (population, t, s))"
  by pat_completeness auto
termination
  by (relation "measure (\<lambda>(tournamentSize, populationSize, classes, teachers, rooms, timeSlots,
                            mutationRate, numGenerations, generation, rest).
                  nat (numGenerations - generation))") auto

text \<open>
  The generation loop of the variant that writes \<^verbatim>\<open>table.html\<close>, with its best-found
  record. The mutex is taken by the only goroutine there is, so locking does nothing.
\<close>

record BestTimetable =
  Timetable :: Chromosome
  FitnessScore :: int

record Progress =
  individuals :: Population
  bestFitnessAllGenerations :: int
  bestTimetable :: BestTimetable
  trace :: "event list"
  world :: State

fun evaluateLoop ::
  "ClassPtr list \<Rightarrow> int \<Rightarrow> nat \<Rightarrow> Chromosome list \<Rightarrow> int \<Rightarrow> Progress \<Rightarrow>
   (panic \<times> event list) + (int \<times> Progress)" where
  "evaluateLoop classes generation k [] bestFitnessInGeneration d =
     Inr (bestFitnessInGeneration, d)"
| "evaluateLoop classes generation k (timetable # rest) bestFitnessInGeneration d =
     orAbort (trace d) (calculateFitness weightsHtml (heap (world d)) timetable classes)
       (\<lambda>currentFitness.
       let d1 = d\<lparr>trace := trace d @ [Evaluated generation k currentFitness]\<rparr> in
       if currentFitness > bestFitnessInGeneration then
         if currentFitness > bestFitnessAllGenerations d1 then
           (let d2 = d1\<lparr>bestFitnessAllGenerations := currentFitness,
                        bestTimetable := \<lparr>Timetable = timetable, FitnessScore = currentFitness\<rparr>\<rparr>
            in if currentFitness = 0 then Inr (currentFitness, d2)
               else evaluateLoop classes generation (Suc k) rest currentFitness d2)
         else evaluateLoop classes generation (Suc k) rest currentFitness d1
       else evaluateLoop classes generation (Suc k) rest bestFitnessInGeneration d1)"

function evolveHtml ::
  "int \<Rightarrow> int \<Rightarrow> ClassPtr list \<Rightarrow> Teacher option list \<Rightarrow> Room option list \<Rightarrow>
   TimeSlot option list \<Rightarrow> real \<Rightarrow> int \<Rightarrow> int \<Rightarrow> Progress \<Rightarrow> (panic \<times> event list) + Progress" where
  "evolveHtml tournamentSize populationSize classes teachers rooms timeSlots mutationRate
     numGenerations generation d =
     (if generation < numGenerations then
        orAbort (trace d)
          (CreateNewGeneration weightsHtml (individuals d) tournamentSize populationSize classes
             teachers rooms timeSlots mutationRate (world d)) (\<lambda>(population1, s1).
          case evaluateLoop classes generation 0 (Timetables population1) (- 100000000)
                 (d\<lparr>individuals := population1, world := s1,
                    trace := trace d @ [Produced generation]\<rparr>) of
            Inl e \<Rightarrow> Inl e
          | Inr (bestFitnessInGeneration, d1) \<Rightarrow>
              if bestFitnessInGeneration = 0 then Inr d1
              else evolveHtml tournamentSize populationSize classes teachers rooms timeSlots
                     mutationRate numGenerations (generation + 1) d1)
      else Inr d)"
  by pat_completeness auto
termination
  by (relation "measure (\<lambda>(tournamentSize, populationSize, classes, teachers, rooms, timeSlots,
                            mutationRate, numGenerations, generation, d).
                  nat (numGenerations - generation))") auto

text \<open>
  This variant allocates the slice of the initial population beforehand:
  \<^verbatim>\<open>make([]Chromosome, 0, populationSize)\<close> panics with "makeslice: cap out of range" when
  the capacity is negative, and otherwise returns an empty slice. Memory is not bounded
  here, so a capacity too large for the machine is not told apart.
\<close>

definition makeTimetables :: "int \<Rightarrow> panic + Chromosome list" where
  "makeTimetables capacity = (if capacity < 0 then Inl CapOutOfRange else Inr [])"

definition mainHtml ::
  "ClassPtr list \<Rightarrow> Teacher option list \<Rightarrow> Room option list \<Rightarrow> TimeSlot option list \<Rightarrow>
   int \<Rightarrow> int \<Rightarrow> int \<Rightarrow> real \<Rightarrow> State \<Rightarrow> (panic \<times> event list) + Progress" where
  "mainHtml classes teachers rooms timeSlots populationSize numGenerations tournamentSize
     mutationRate s =
     orAbort [] (makeTimetables populationSize) (\<lambda>timetables.
     orAbort [] (initialPopulationLoop classes teachers rooms timeSlots populationSize 0
                   \<lparr>Timetables = timetables\<rparr> s) (\<lambda>(population, s1).
     orAbort [] (displayLoop weightsHtml (heap s1) classes (Timetables population)) (\<lambda>_.
       evolveHtml tournamentSize populationSize classes teachers rooms timeSlots mutationRate
         numGenerations 0
         \<lparr>individuals = population, bestFitnessAllGenerations = - 100000000,
          bestTimetable = \<lparr>Timetable = \<lparr>Genes = []\<rparr>, FitnessScore = 0\<rparr>,
          trace = [], world = s1\<rparr>)))"

text \<open>The trace of a run, however it ended, and the events that report a score of 0.\<close>

definition traceOf :: "(panic \<times> event list) + Progress \<Rightarrow> event list" where
  "traceOf outcome = (case outcome of Inl (e, t) \<Rightarrow> t | Inr d \<Rightarrow> trace d)"

fun scoredZero :: "event \<Rightarrow> bool" where
  "scoredZero (Evaluated g k score) = (score = 0)"
| "scoredZero (Produced g) = False"

section \<open>The score as the specification describes it\<close>

text \<open>
  A chromosome is structurally valid in a heap when every gene points to an allocated
  Class whose teacher, room and time slot are not \<^verbatim>\<open>nil\<close>.
\<close>

definition validGene :: "Heap \<Rightarrow> Gene \<Rightarrow> bool" where
  "validGene h g =
     (case ClassAssignment g of
        None \<Rightarrow> False
      | Some a \<Rightarrow> a < length h \<and> Teacher (h ! a) \<noteq> None \<and> Room (h ! a) \<noteq> None \<and>
                   TimeSlot (h ! a) \<noteq> None)"

definition structurallyValid :: "Heap \<Rightarrow> Chromosome \<Rightarrow> bool" where
  "structurallyValid h chromosome = list_all (validGene h) (Genes chromosome)"

definition classOf :: "Heap \<Rightarrow> Gene \<Rightarrow> Class" where
  "classOf h g = h ! the (ClassAssignment g)"

definition teacherOf :: "Heap \<Rightarrow> Gene \<Rightarrow> Teacher" where
  "teacherOf h g = the (Teacher (classOf h g))"

definition roomOf :: "Heap \<Rightarrow> Gene \<Rightarrow> Room" where
  "roomOf h g = the (Room (classOf h g))"

definition slotOf :: "Heap \<Rightarrow> Gene \<Rightarrow> TimeSlot" where
  "slotOf h g = the (TimeSlot (classOf h g))"

text \<open>Same weekday, and the intervals \<open>[Start, End)\<close> overlap.\<close>

definition overlapping :: "TimeSlot \<Rightarrow> TimeSlot \<Rightarrow> bool" where
  "overlapping s1 s2 \<longleftrightarrow> Day s1 = Day s2 \<and> Start s1 < End s2 \<and> Start s2 < End s1"

definition sameTeacher :: "Heap \<Rightarrow> Gene \<Rightarrow> Gene \<Rightarrow> bool" where
  "sameTeacher h g1 g2 \<longleftrightarrow> Teacher.ID (teacherOf h g1) = Teacher.ID (teacherOf h g2)"

definition sameRoom :: "Heap \<Rightarrow> Gene \<Rightarrow> Gene \<Rightarrow> bool" where
  "sameRoom h g1 g2 \<longleftrightarrow> Room.ID (roomOf h g1) = Room.ID (roomOf h g2)"

definition teacherQualified :: "Heap \<Rightarrow> Gene \<Rightarrow> bool" where
  "teacherQualified h g \<longleftrightarrow> Subject (classOf h g) \<in> set (Subjects (teacherOf h g))"

definition roomFits :: "Heap \<Rightarrow> Gene \<Rightarrow> bool" where
  "roomFits h g \<longleftrightarrow> Class.Capacity (classOf h g) \<le> Room.Capacity (roomOf h g)"

definition availableOnDay :: "Heap \<Rightarrow> Gene \<Rightarrow> bool" where
  "availableOnDay h g \<longleftrightarrow> Day (slotOf h g) \<in> set (Available (teacherOf h g))"

text \<open>What one ordered pair of genes costs, and what one gene costs on its own.\<close>

definition pairPenalty :: "Weights \<Rightarrow> Heap \<Rightarrow> Gene \<Rightarrow> Gene \<Rightarrow> int" where
  "pairPenalty w h g1 g2 =
     (if overlapping (slotOf h g1) (slotOf h g2)
      then (if sameTeacher h g1 g2 then teacherConflict w else 0) +
           (if sameRoom h g1 g2 then roomConflict w else 0)
      else 0)"

definition genePenalty :: "Heap \<Rightarrow> Gene \<Rightarrow> int" where
  "genePenalty h g =
     (if teacherQualified h g then 0 else 1) + (if roomFits h g then 0 else 1) +
     (if availableOnDay h g then 0 else 1)"

definition orderedPairSum :: "Weights \<Rightarrow> Heap \<Rightarrow> Gene list \<Rightarrow> int" where
  "orderedPairSum w h gs =
     (\<Sum>i<length gs. \<Sum>j<length gs. if i \<noteq> j then pairPenalty w h (gs ! i) (gs ! j) else 0)"

definition unorderedPairSum :: "Weights \<Rightarrow> Heap \<Rightarrow> Gene list \<Rightarrow> int" where
  "unorderedPairSum w h gs = (\<Sum>i<length gs. \<Sum>j<i. pairPenalty w h (gs ! i) (gs ! j))"

definition geneSum :: "Heap \<Rightarrow> Gene list \<Rightarrow> int" where
  "geneSum h gs = (\<Sum>i<length gs. genePenalty h (gs ! i))"

definition penaltySum :: "Weights \<Rightarrow> Heap \<Rightarrow> Gene list \<Rightarrow> int" where
  "penaltySum w h gs = orderedPairSum w h gs + geneSum h gs"

section \<open>A small timetable\<close>

text \<open>
  Teachers, rooms and slots of the sample data of \<^verbatim>\<open>main.go\<close>, times in minutes after
  midnight. Cells 0 and 1 put Mr. Smith into room R101 twice on Monday morning; cell 2 has
  him teach History on a Tuesday, when he is neither qualified nor available; cells 3 and
  4 are a timetable without defects.
\<close>

definition smith :: Teacher where
  "smith = \<lparr>Teacher.ID = ''T1'', Name = ''Mr. Smith'', Subjects = [''Mathematics'', ''Physics''],
            Available = [Monday, Wednesday, Friday]\<rparr>"

definition johnson :: Teacher where
  "johnson = \<lparr>Teacher.ID = ''T2'', Name = ''Ms. Johnson'', Subjects = [''History'', ''English''],
              Available = [Tuesday, Thursday]\<rparr>"

definition r101 :: Room where
  "r101 = \<lparr>Room.ID = ''R101'', Capacity = 30\<rparr>"

definition r102 :: Room where
  "r102 = \<lparr>Room.ID = ''R102'', Capacity = 30\<rparr>"

definition mondayMorning :: TimeSlot where
  "mondayMorning = \<lparr>Day = Monday, Start = 530, End = 750\<rparr>"

definition tuesdayAfternoon :: TimeSlot where
  "tuesdayAfternoon = \<lparr>Day = Tuesday, Start = 780, End = 870\<rparr>"

definition assigned :: "string \<Rightarrow> Teacher \<Rightarrow> Room \<Rightarrow> TimeSlot \<Rightarrow> Class" where
  "assigned subject t r sl =
     \<lparr>Subject = subject, Teacher = Some t, Room = Some r, TimeSlot = Some sl, Capacity = 0\<rparr>"

definition sampleHeap :: Heap where
  "sampleHeap =
     [assigned ''Mathematics'' smith r101 mondayMorning,
      assigned ''Physics'' smith r101 mondayMorning,
      assigned ''History'' smith r102 tuesdayAfternoon,
      assigned ''Mathematics'' smith r101 mondayMorning,
      assigned ''History'' johnson r102 tuesdayAfternoon]"

definition geneAt :: "nat \<Rightarrow> Gene" where
  "geneAt a = \<lparr>ClassAssignment = Some a\<rparr>"

definition clashing :: Chromosome where
  "clashing = \<lparr>Genes = [geneAt 0, geneAt 1, geneAt 2]\<rparr>"

definition clean :: Chromosome where
  "clean = \<lparr>Genes = [geneAt 3, geneAt 4]\<rparr>"

section \<open>Auxiliary notions for the evolution operators\<close>

text \<open>
  The index that the \<open>k\<close>-th call of \<^verbatim>\<open>rand.Intn(len(population.Timetables))\<close> returns
  when the generator is \<open>r\<close> at the first call.
\<close>

definition sampled :: "Population \<Rightarrow> Rand \<Rightarrow> nat \<Rightarrow> nat" where
  "sampled population r k = nat (int (r !! k) mod int (length (Timetables population)))"

text \<open>What one round of the tournament does to \<^verbatim>\<open>best\<close> and \<^verbatim>\<open>bestFitness\<close>.\<close>

definition tournamentStep :: "(nat \<Rightarrow> int) \<Rightarrow> int \<times> int \<Rightarrow> nat \<Rightarrow> int \<times> int" where
  "tournamentStep score acc k =
     (if fst acc = - 1 \<or> score k > snd acc then (int k, score k) else acc)"

definition shuffled :: Chromosome where
  "shuffled = \<lparr>Genes = [geneAt 3, geneAt 4, geneAt 4]\<rparr>"

definition sampleState :: "Rand \<Rightarrow> State" where
  "sampleState r = \<lparr>heap = sampleHeap, rand = r\<rparr>"

definition cleanToo :: Chromosome where
  "cleanToo = \<lparr>Genes = [geneAt 4, geneAt 3]\<rparr>"

definition samplePopulation :: Population where
  "samplePopulation = \<lparr>Timetables = [clean, clashing, cleanToo]\<rparr>"

definition sampleScore :: "nat \<Rightarrow> int" where
  "sampleScore k = (if k = 1 then - 24 else 0)"

text \<open>
  A Class object after a mutation step compared with before: nothing changed, or one of
  teacher, room and time slot was replaced by an entry of its catalog.
\<close>

definition oneFieldReplaced ::
  "Teacher option list \<Rightarrow> Room option list \<Rightarrow> TimeSlot option list \<Rightarrow> Class \<Rightarrow> Class \<Rightarrow> bool" where
  "oneFieldReplaced teachers rooms timeSlots c c' \<longleftrightarrow>
     c' = c \<or> (\<exists>t\<in>set teachers. c' = c\<lparr>Teacher := t\<rparr>) \<or> (\<exists>r\<in>set rooms. c' = c\<lparr>Room := r\<rparr>) \<or>
     (\<exists>sl\<in>set timeSlots. c' = c\<lparr>TimeSlot := sl\<rparr>)"

text \<open>Every gene of the chromosome points to an allocated Class.\<close>

definition allocated :: "Heap \<Rightarrow> Chromosome \<Rightarrow> bool" where
  "allocated h chromosome \<longleftrightarrow>
     (\<forall>g\<in>set (Genes chromosome). \<exists>a<length h. ClassAssignment g = Some a)"

definition sampleTeachers :: "Teacher option list" where
  "sampleTeachers = [Some smith, Some johnson]"

definition sampleRooms :: "Room option list" where
  "sampleRooms = [Some r101, Some r102]"

definition sampleSlots :: "TimeSlot option list" where
  "sampleSlots = [Some mondayMorning, Some tuesdayAfternoon]"

definition clashingPair :: Chromosome where
  "clashingPair = \<lparr>Genes = [geneAt 0, geneAt 1]\<rparr>"

definition mixedChild :: Chromosome where
  "mixedChild = \<lparr>Genes = [geneAt 0, geneAt 4]\<rparr>"

text \<open>
  A population the operators can work on: at least one chromosome, all chromosomes with
  the same non-zero number of genes, all structurally valid. Catalogs the operators can
  draw from: none empty, no \<^verbatim>\<open>nil\<close> entry.
\<close>

definition wellFormed :: "Heap \<Rightarrow> Population \<Rightarrow> nat \<Rightarrow> bool" where
  "wellFormed h population n \<longleftrightarrow>
     0 < n \<and> Timetables population \<noteq> [] \<and>
     (\<forall>c\<in>set (Timetables population). length (Genes c) = n \<and> structurallyValid h c)"

definition catalogsUsable ::
  "Teacher option list \<Rightarrow> Room option list \<Rightarrow> TimeSlot option list \<Rightarrow> bool" where
  "catalogsUsable teachers rooms timeSlots \<longleftrightarrow>
     teachers \<noteq> [] \<and> rooms \<noteq> [] \<and> timeSlots \<noteq> [] \<and>
     None \<notin> set teachers \<and> None \<notin> set rooms \<and> None \<notin> set timeSlots"

definition uniformPopulation :: Population where
  "uniformPopulation = \<lparr>Timetables = [clean, cleanToo]\<rparr>"

definition cleanTwice :: Population where
  "cleanTwice = \<lparr>Timetables = [clean, clean]\<rparr>"

text \<open>A generator whose every draw is \<open>2\<^sup>5\<^sup>2\<close>: \<^verbatim>\<open>Intn(2)\<close> gives 0 and \<^verbatim>\<open>Float64()\<close> gives 0.5.\<close>

definition halves :: Rand where
  "halves = sconst (2 ^ 52)"

text \<open>
  The smallest catalog: one class, and one teacher, one room and one slot that suit it.
  Object 0 of the heap is the class to be scheduled.
\<close>

definition mathTemplate :: Class where
  "mathTemplate =
     \<lparr>Subject = ''Math'', Teacher = None, Room = None, TimeSlot = None, Capacity = 25\<rparr>"

definition onlyTeacher :: Teacher where
  "onlyTeacher = \<lparr>Teacher.ID = ''T1'', Name = ''Mr. Smith'', Subjects = [''Math''],
                  Available = [Monday, Tuesday, Wednesday, Thursday, Friday]\<rparr>"

definition onlyRoom :: Room where
  "onlyRoom = \<lparr>Room.ID = ''R101'', Capacity = 30\<rparr>"

definition onlySlot :: TimeSlot where
  "onlySlot = \<lparr>Day = Monday, Start = 480, End = 600\<rparr>"

definition mathClass :: Class where
  "mathClass = \<lparr>Subject = ''Math'', Teacher = Some onlyTeacher, Room = Some onlyRoom,
                TimeSlot = Some onlySlot, Capacity = 25\<rparr>"

definition tinyState :: State where
  "tinyState = \<lparr>heap = [mathTemplate], rand = halves\<rparr>"

definition tinyStarted :: State where
  "tinyStarted = \<lparr>heap = [mathTemplate, mathClass, mathClass], rand = halves\<rparr>"

definition firstTimetable :: Chromosome where
  "firstTimetable = \<lparr>Genes = [geneAt 1]\<rparr>"

definition secondTimetable :: Chromosome where
  "secondTimetable = \<lparr>Genes = [geneAt 2]\<rparr>"

definition tinyPopulation :: Population where
  "tinyPopulation = \<lparr>Timetables = [firstTimetable, secondTimetable]\<rparr>"

definition tinyNext :: Population where
  "tinyNext = \<lparr>Timetables = [firstTimetable, firstTimetable]\<rparr>"

text \<open>No event of the trace but the last reports a score of 0.\<close>

definition zeroOnlyLast :: "event list \<Rightarrow> bool" where
  "zeroOnlyLast t \<longleftrightarrow> (\<forall>p<length t. scoredZero (t ! p) \<longrightarrow> Suc p = length t)"

section \<open>Mutation as the specification describes it\<close>

text \<open>
  What happens to one gene: nothing, or one of teacher, room and time slot of its Class
  is replaced.
\<close>

datatype rewrite = Unchanged | TeacherTo "Teacher option" | RoomTo "Room option"
  | SlotTo "TimeSlot option"

fun rewritten :: "rewrite \<Rightarrow> Class \<Rightarrow> Class" where
  "rewritten Unchanged c = c"
| "rewritten (TeacherTo teacher) c = c\<lparr>Teacher := teacher\<rparr>"
| "rewritten (RoomTo room) c = c\<lparr>Room := room\<rparr>"
| "rewritten (SlotTo timeSlot) c = c\<lparr>TimeSlot := timeSlot\<rparr>"

text \<open>The number that \<^verbatim>\<open>rand.Intn(n)\<close> returns on the generator \<open>r\<close>, for \<open>n\<close> above 0.\<close>

definition drawn :: "nat \<Rightarrow> Rand \<Rightarrow> nat" where
  "drawn n r = shd r mod n"

text \<open>
  The draws of one gene, on the generator \<open>r\<close>. The gene is rewritten when the number
  drawn by \<^verbatim>\<open>rand.Float64()\<close> is below the mutation rate. Then \<^verbatim>\<open>rand.Intn(3)\<close> on the
  generator after that draw picks the field, and \<^verbatim>\<open>rand.Intn\<close> of the length of that
  field's catalog, on the generator after the second draw, picks the entry. The result is
  the rewrite and the generator left for the next gene.
\<close>

definition drawRewrite ::
  "Teacher option list \<Rightarrow> Room option list \<Rightarrow> TimeSlot option list \<Rightarrow> real \<Rightarrow> Rand \<Rightarrow>
   rewrite \<times> Rand" where
  "drawRewrite teachers rooms timeSlots mutationRate r =
     (if fst (Float64 r) < mutationRate then
        (if drawn 3 (stl r) = 0 then
           TeacherTo (teachers ! drawn (length teachers) (stl (stl r)))
         else if drawn 3 (stl r) = 1 then
           RoomTo (rooms ! drawn (length rooms) (stl (stl r)))
         else SlotTo (timeSlots ! drawn (length timeSlots) (stl (stl r))),
         stl (stl (stl r)))
      else (Unchanged, stl r))"

text \<open>
  The generator as the first \<open>n\<close> genes leave it, and the rewrite of the gene at
  position \<open>i\<close>: each gene has draws of its own, those that follow the draws of the
  genes before it.
\<close>

fun generatorAt ::
  "Teacher option list \<Rightarrow> Room option list \<Rightarrow> TimeSlot option list \<Rightarrow> real \<Rightarrow> nat \<Rightarrow> Rand \<Rightarrow>
   Rand" where
  "generatorAt teachers rooms timeSlots mutationRate 0 r = r"
| "generatorAt teachers rooms timeSlots mutationRate (Suc n) r =
     snd (drawRewrite teachers rooms timeSlots mutationRate
            (generatorAt teachers rooms timeSlots mutationRate n r))"

definition rewriteOf ::
  "Teacher option list \<Rightarrow> Room option list \<Rightarrow> TimeSlot option list \<Rightarrow> real \<Rightarrow> Rand \<Rightarrow> nat \<Rightarrow>
   rewrite" where
  "rewriteOf teachers rooms timeSlots mutationRate r i =
     fst (drawRewrite teachers rooms timeSlots mutationRate
            (generatorAt teachers rooms timeSlots mutationRate i r))"

text \<open>
  The heap after the genes, from position \<open>i\<close> on, have been rewritten in turn, the gene
  at position \<open>k\<close> as \<open>d k\<close> says.
\<close>

fun applyRewrites :: "Gene list \<Rightarrow> (nat \<Rightarrow> rewrite) \<Rightarrow> nat \<Rightarrow> Heap \<Rightarrow> Heap" where
  "applyRewrites [] d i h = h"
| "applyRewrites (g # gs) d i h =
     applyRewrites gs d (Suc i)
       (case ClassAssignment g of None \<Rightarrow> h | Some a \<Rightarrow> h[a := rewritten (d i) (h ! a)])"

text \<open>
  Draws for a chromosome of two genes at a rate of one half: 0 is below the rate, 1 picks
  the room and 3 the second room; \<open>2\<^sup>5\<^sup>2\<close> is the number 0.5, not below the rate.
\<close>

definition sampleDraws :: Rand where
  "sampleDraws = 0 ## 1 ## 3 ## 2 ^ 52 ## sconst 0"
section \<open>Properties of the fitness function\<close>

lemma subjectsLoop_iff: "subjectsLoop xs s \<longleftrightarrow> s \<in> set xs"
  by (induction xs) auto

lemma availableLoop_Some: "availableLoop ds (Some s) = Inr (Day s \<in> set ds)"
  by (induction ds) (auto simp: andThen_def deref_def)

lemma validGene_load:
  "validGene h g \<Longrightarrow> load h (ClassAssignment g) = Inr (classOf h g)"
  by (auto simp: validGene_def load_def classOf_def split: option.splits)

lemma validGene_fields:
  "validGene h g \<Longrightarrow> Teacher (classOf h g) = Some (teacherOf h g)"
  "validGene h g \<Longrightarrow> Room (classOf h g) = Some (roomOf h g)"
  "validGene h g \<Longrightarrow> TimeSlot (classOf h g) = Some (slotOf h g)"
  by (auto simp: validGene_def classOf_def teacherOf_def roomOf_def slotOf_def split: option.splits)

lemma pairStep_valid:
  "validGene h g1 \<Longrightarrow> validGene h g2 \<Longrightarrow>
   pairStep w h g1 g2 f = Inr (f - pairPenalty w h g1 g2)"
  by (simp add: pairStep_def validGene_load validGene_fields andThen_def deref_def
      timeSlotsOverlap_def pairPenalty_def overlapping_def sameTeacher_def sameRoom_def Let_def)

lemma geneStep_valid:
  "validGene h g \<Longrightarrow> geneStep h g f = Inr (f - genePenalty h g)"
  by (simp add: geneStep_def validGene_load validGene_fields andThen_def deref_def
      checkTeacherQualification_def checkRoomCapacity_def checkTeacherAvailability_def
      availableLoop_Some subjectsLoop_iff genePenalty_def teacherQualified_def roomFits_def
      availableOnDay_def Let_def)

lemma innerLoop_valid:
  "validGene h g1 \<Longrightarrow> list_all (validGene h) gs \<Longrightarrow>
   innerLoop w h i g1 j gs f =
     Inr (f - (\<Sum>k<length gs. if i \<noteq> j + k then pairPenalty w h g1 (gs ! k) else 0))"
proof (induction gs arbitrary: j f)
  case Nil
  then show ?case by simp
next
  case (Cons g2 rest)
  then show ?case
    by (simp add: pairStep_valid andThen_def sum.lessThan_Suc_shift del: sum.lessThan_Suc
        cong: if_cong)
qed

lemma outerLoop_valid:
  "list_all (validGene h) genes \<Longrightarrow> list_all (validGene h) rest \<Longrightarrow>
   outerLoop w h genes i rest f =
     Inr (f - (\<Sum>k<length rest.
                 (\<Sum>j<length genes. if i + k \<noteq> j then pairPenalty w h (rest ! k) (genes ! j) else 0) +
                 genePenalty h (rest ! k)))"
proof (induction rest arbitrary: i f)
  case Nil
  then show ?case by simp
next
  case (Cons g1 rest)
  then show ?case
    by (simp add: innerLoop_valid geneStep_valid andThen_def sum.lessThan_Suc_shift
        del: sum.lessThan_Suc cong: if_cong)
qed

lemma calculateFitness_valid:
  "structurallyValid h chromosome \<Longrightarrow>
   calculateFitness w h chromosome classes = Inr (- penaltySum w h (Genes chromosome))"
  by (simp add: calculateFitness_def structurallyValid_def outerLoop_valid penaltySum_def
      orderedPairSum_def geneSum_def sum.distrib)

text \<open>
  For slots that last some time, \<open>overlapping\<close> says that the two half-open intervals
  share an instant.
\<close>

lemma overlapping_iff_common_instant:
  assumes "Start s1 < End s1" and "Start s2 < End s2"
  shows "overlapping s1 s2 \<longleftrightarrow>
         Day s1 = Day s2 \<and> {Start s1 ..< End s1} \<inter> {Start s2 ..< End s2} \<noteq> {}"
proof -
  have "{Start s1 ..< End s1} \<inter> {Start s2 ..< End s2} =
        {max (Start s1) (Start s2) ..< min (End s1) (End s2)}"
    by auto
  with assms show ?thesis
    by (auto simp: overlapping_def)
qed

lemma pairPenalty_sym: "pairPenalty w h g1 g2 = pairPenalty w h g2 g1"
  by (auto simp: pairPenalty_def overlapping_def sameTeacher_def sameRoom_def)

lemma ordered_pairs_twice:
  fixes P :: "nat \<Rightarrow> nat \<Rightarrow> int"
  assumes sym: "\<And>i j. P i j = P j i"
  shows "(\<Sum>i<n. \<Sum>j<n. if i \<noteq> j then P i j else 0) = 2 * (\<Sum>i<n. \<Sum>j<i. P i j)"
proof (induction n)
  case 0
  show ?case by simp
next
  case (Suc n)
  have row: "(\<Sum>j<n. if n \<noteq> j then P n j else 0) = (\<Sum>j<n. P n j)"
    by (rule sum.cong) auto
  have col: "(\<Sum>i<n. if i \<noteq> n then P i n else 0) = (\<Sum>j<n. P n j)"
    by (rule sum.cong) (auto simp: sym)
  have "(\<Sum>i<Suc n. \<Sum>j<Suc n. if i \<noteq> j then P i j else 0) =
        (\<Sum>i<n. (\<Sum>j<n. if i \<noteq> j then P i j else 0) + (if i \<noteq> n then P i n else 0)) +
        (\<Sum>j<n. if n \<noteq> j then P n j else 0)"
    by simp
  also have "\<dots> = (\<Sum>i<n. \<Sum>j<n. if i \<noteq> j then P i j else 0) + (\<Sum>j<n. P n j) + (\<Sum>j<n. P n j)"
    by (simp only: sum.distrib row col)
  also have "\<dots> = 2 * (\<Sum>i<Suc n. \<Sum>j<i. P i j)"
    by (simp add: Suc.IH)
  finally show ?case .
qed

lemma orderedPairSum_twice: "orderedPairSum w h gs = 2 * unorderedPairSum w h gs"
  unfolding orderedPairSum_def unorderedPairSum_def
  by (rule ordered_pairs_twice) (rule pairPenalty_sym)

text \<open>The counter never grows, whether or not the chromosome is well formed.\<close>

lemma pairStep_le:
  "0 \<le> teacherConflict w \<Longrightarrow> 0 \<le> roomConflict w \<Longrightarrow> pairStep w h g1 g2 f = Inr f' \<Longrightarrow> f' \<le> f"
  by (auto simp: pairStep_def andThen_def Let_def split: sum.splits if_splits)

lemma innerLoop_le:
  "0 \<le> teacherConflict w \<Longrightarrow> 0 \<le> roomConflict w \<Longrightarrow>
   innerLoop w h i g1 j gs f = Inr f' \<Longrightarrow> f' \<le> f"
proof (induction gs arbitrary: j f)
  case Nil
  then show ?case by simp
next
  case (Cons g2 rest)
  show ?case
  proof (cases "i = j")
    case True
    with Cons show ?thesis by simp
  next
    case False
    with Cons.prems obtain f1 where
      step: "pairStep w h g1 g2 f = Inr f1" and
      loop: "innerLoop w h i g1 (Suc j) rest f1 = Inr f'"
      by (auto simp: andThen_def split: sum.splits)
    from step Cons.prems have "f1 \<le> f" by (blast intro: pairStep_le)
    moreover from loop Cons have "f' \<le> f1" by blast
    ultimately show ?thesis by simp
  qed
qed

lemma geneStep_le: "geneStep h g f = Inr f' \<Longrightarrow> f' \<le> f"
  by (auto simp: geneStep_def andThen_def Let_def split: sum.splits if_splits)

lemma outerLoop_le:
  "0 \<le> teacherConflict w \<Longrightarrow> 0 \<le> roomConflict w \<Longrightarrow>
   outerLoop w h genes i rest f = Inr f' \<Longrightarrow> f' \<le> f"
proof (induction rest arbitrary: i f)
  case Nil
  then show ?case by simp
next
  case (Cons g1 rest)
  from Cons.prems obtain f1 f2 where
    inner: "innerLoop w h i g1 0 genes f = Inr f1" and
    gene: "geneStep h g1 f1 = Inr f2" and
    loop: "outerLoop w h genes (Suc i) rest f2 = Inr f'"
    by (auto simp: andThen_def split: sum.splits)
  from inner Cons.prems have "f1 \<le> f" by (blast intro: innerLoop_le)
  moreover from gene have "f2 \<le> f1" by (rule geneStep_le)
  moreover from loop Cons have "f' \<le> f2" by blast
  ultimately show ?case by simp
qed

lemma calculateFitness_le:
  "0 \<le> teacherConflict w \<Longrightarrow> 0 \<le> roomConflict w \<Longrightarrow>
   calculateFitness w h chromosome classes = Inr score \<Longrightarrow> score \<le> 0"
  unfolding calculateFitness_def by (rule outerLoop_le)

text \<open>The score reads the heap only through the pointers of the genes.\<close>

lemma pairStep_heap:
  "load h (ClassAssignment g1) = load h' (ClassAssignment g1) \<Longrightarrow>
   load h (ClassAssignment g2) = load h' (ClassAssignment g2) \<Longrightarrow>
   pairStep w h g1 g2 f = pairStep w h' g1 g2 f"
  by (simp add: pairStep_def)

lemma geneStep_heap:
  "load h (ClassAssignment g) = load h' (ClassAssignment g) \<Longrightarrow> geneStep h g f = geneStep h' g f"
  by (simp add: geneStep_def checkRoomCapacity_def)

lemma innerLoop_heap:
  "load h (ClassAssignment g1) = load h' (ClassAssignment g1) \<Longrightarrow>
   \<forall>g\<in>set gs. load h (ClassAssignment g) = load h' (ClassAssignment g) \<Longrightarrow>
   innerLoop w h i g1 j gs f = innerLoop w h' i g1 j gs f"
proof (induction gs arbitrary: j f)
  case Nil
  show ?case by simp
next
  case (Cons g2 rest)
  have "load h (ClassAssignment g2) = load h' (ClassAssignment g2)"
    using Cons.prems(2) by simp
  with Cons.prems(1) have step: "pairStep w h g1 g2 f = pairStep w h' g1 g2 f"
    by (rule pairStep_heap)
  have "\<forall>g\<in>set rest. load h (ClassAssignment g) = load h' (ClassAssignment g)"
    using Cons.prems(2) by simp
  with Cons.prems(1)
  have loop: "innerLoop w h i g1 (Suc j) rest f1 = innerLoop w h' i g1 (Suc j) rest f1" for f1
    by (rule Cons.IH)
  then have "innerLoop w h i g1 (Suc j) rest = innerLoop w h' i g1 (Suc j) rest"
    by (intro ext)
  then show ?case
    unfolding innerLoop.simps step by (simp only:)
qed

lemma outerLoop_heap:
  "\<forall>g\<in>set genes. load h (ClassAssignment g) = load h' (ClassAssignment g) \<Longrightarrow>
   \<forall>g\<in>set rest. load h (ClassAssignment g) = load h' (ClassAssignment g) \<Longrightarrow>
   outerLoop w h genes i rest f = outerLoop w h' genes i rest f"
proof (induction rest arbitrary: i f)
  case Nil
  show ?case by simp
next
  case (Cons g1 rest)
  have g1: "load h (ClassAssignment g1) = load h' (ClassAssignment g1)"
    using Cons.prems(2) by simp
  from g1 Cons.prems(1)
  have inner: "innerLoop w h i g1 0 genes f = innerLoop w h' i g1 0 genes f"
    by (rule innerLoop_heap)
  from g1 have gene: "geneStep h g1 f1 = geneStep h' g1 f1" for f1
    by (rule geneStep_heap)
  have "\<forall>g\<in>set rest. load h (ClassAssignment g) = load h' (ClassAssignment g)"
    using Cons.prems(2) by simp
  with Cons.prems(1)
  have loop: "outerLoop w h genes (Suc i) rest f2 = outerLoop w h' genes (Suc i) rest f2" for f2
    by (rule Cons.IH)
  then have "outerLoop w h genes (Suc i) rest = outerLoop w h' genes (Suc i) rest"
    by (intro ext)
  then show ?case
    unfolding outerLoop.simps inner by (simp only: gene)
qed

lemma calculateFitness_heap:
  "\<forall>g\<in>set (Genes chromosome). load h (ClassAssignment g) = load h' (ClassAssignment g) \<Longrightarrow>
   calculateFitness w h chromosome classes = calculateFitness w h' chromosome classes'"
  unfolding calculateFitness_def by (rule outerLoop_heap)

text \<open>
  C1. On a structurally valid chromosome \<^verbatim>\<open>calculateFitness\<close> returns minus the sum of:
  for every ordered pair of distinct genes whose slots are on the same weekday with
  overlapping intervals, the teacher-conflict weight if the two teachers have the same ID
  plus the room-conflict weight if the two rooms have the same ID; and, for every gene,
  one point if the teacher is not qualified for the subject, one if the class does not fit
  the room, one if the teacher is not available on the weekday. The ordered pairs count
  every unordered pair twice. The weights are 10 and 1 in \<^verbatim>\<open>main.go\<close> and 20 and 20 in
  the variant writing \<^verbatim>\<open>table.html\<close>.
\<close>

theorem calculateFitness_penalty_sum:
  "structurallyValid h chromosome \<Longrightarrow>
   calculateFitness w h chromosome classes =
     Inr (- orderedPairSum w h (Genes chromosome) - geneSum h (Genes chromosome)) \<and>
   orderedPairSum w h (Genes chromosome) = 2 * unorderedPairSum w h (Genes chromosome)"
  by (simp add: calculateFitness_valid penaltySum_def orderedPairSum_twice)

lemmas sample_defs =
  sampleHeap_def clashing_def clean_def geneAt_def assigned_def smith_def johnson_def
  r101_def r102_def mondayMorning_def tuesdayAfternoon_def weightsMain_def weightsHtml_def

lemmas score_defs =
  structurallyValid_def validGene_def orderedPairSum_def unorderedPairSum_def geneSum_def
  pairPenalty_def genePenalty_def overlapping_def sameTeacher_def sameRoom_def
  teacherQualified_def roomFits_def availableOnDay_def classOf_def teacherOf_def roomOf_def
  slotOf_def

theorem calculateFitness_penalty_sum_witness:
  "structurallyValid sampleHeap clashing \<and>
   calculateFitness weightsMain sampleHeap clashing [] = Inr (- 24) \<and>
   calculateFitness weightsHtml sampleHeap clashing [] = Inr (- 82) \<and>
   orderedPairSum weightsMain sampleHeap (Genes clashing) = 22 \<and>
   unorderedPairSum weightsMain sampleHeap (Genes clashing) = 11"
proof -
  have valid: "structurallyValid sampleHeap clashing"
    by (simp add: sample_defs score_defs)
  have pairs: "orderedPairSum weightsMain sampleHeap (Genes clashing) = 22"
    by (simp add: sample_defs score_defs)
  have pairs': "orderedPairSum weightsHtml sampleHeap (Genes clashing) = 80"
    by (simp add: sample_defs score_defs)
  have genes: "geneSum sampleHeap (Genes clashing) = 2"
    by (simp add: sample_defs score_defs)
  show ?thesis
    using calculateFitness_penalty_sum [OF valid, of weightsMain "[]"]
      calculateFitness_penalty_sum [OF valid, of weightsHtml "[]"]
    by (simp add: valid pairs pairs' genes)
qed

text \<open>
  C2. A structurally valid chromosome in which no two distinct genes with overlapping
  slots share a teacher or a room, and in which every teacher is qualified and available
  and every class fits its room, scores exactly 0. With non-negative weights (as in every
  variant) any score that \<^verbatim>\<open>calculateFitness\<close> returns is at most 0, and on a structurally
  valid chromosome it does return one.
\<close>

theorem calculateFitness_zero_and_nonpositive:
  "(structurallyValid h chromosome \<and>
    (\<forall>i<length (Genes chromosome). \<forall>j<length (Genes chromosome).
       i \<noteq> j \<and> overlapping (slotOf h (Genes chromosome ! i)) (slotOf h (Genes chromosome ! j)) \<longrightarrow>
       \<not> sameTeacher h (Genes chromosome ! i) (Genes chromosome ! j) \<and>
       \<not> sameRoom h (Genes chromosome ! i) (Genes chromosome ! j)) \<and>
    (\<forall>g\<in>set (Genes chromosome). teacherQualified h g \<and> roomFits h g \<and> availableOnDay h g) \<longrightarrow>
    calculateFitness w h chromosome classes = Inr 0) \<and>
   (0 \<le> teacherConflict w \<and> 0 \<le> roomConflict w \<longrightarrow>
    (\<forall>score. calculateFitness w h chromosome classes = Inr score \<longrightarrow> score \<le> 0) \<and>
    (structurallyValid h chromosome \<longrightarrow>
       (\<exists>score\<le>0. calculateFitness w h chromosome classes = Inr score)))"
proof (intro conjI impI allI)
  assume a: "structurallyValid h chromosome \<and>
    (\<forall>i<length (Genes chromosome). \<forall>j<length (Genes chromosome).
       i \<noteq> j \<and> overlapping (slotOf h (Genes chromosome ! i)) (slotOf h (Genes chromosome ! j)) \<longrightarrow>
       \<not> sameTeacher h (Genes chromosome ! i) (Genes chromosome ! j) \<and>
       \<not> sameRoom h (Genes chromosome ! i) (Genes chromosome ! j)) \<and>
    (\<forall>g\<in>set (Genes chromosome). teacherQualified h g \<and> roomFits h g \<and> availableOnDay h g)"
  have "orderedPairSum w h (Genes chromosome) = 0"
    unfolding orderedPairSum_def
  proof (intro sum.neutral ballI)
    fix i j
    assume "i \<in> {..<length (Genes chromosome)}" "j \<in> {..<length (Genes chromosome)}"
    with a show "(if i \<noteq> j then pairPenalty w h (Genes chromosome ! i) (Genes chromosome ! j) else 0) = 0"
      by (auto simp: pairPenalty_def)
  qed
  moreover have "geneSum h (Genes chromosome) = 0"
    unfolding geneSum_def using a by (intro sum.neutral) (simp add: genePenalty_def)
  ultimately show "calculateFitness w h chromosome classes = Inr 0"
    using a by (simp add: calculateFitness_valid penaltySum_def)
next
  fix score
  assume "0 \<le> teacherConflict w \<and> 0 \<le> roomConflict w"
    and "calculateFitness w h chromosome classes = Inr score"
  then show "score \<le> 0"
    by (blast intro: calculateFitness_le)
next
  assume w: "0 \<le> teacherConflict w \<and> 0 \<le> roomConflict w" and "structurallyValid h chromosome"
  then have eq: "calculateFitness w h chromosome classes = Inr (- penaltySum w h (Genes chromosome))"
    by (simp add: calculateFitness_valid)
  with w have "- penaltySum w h (Genes chromosome) \<le> 0"
    by (blast intro: calculateFitness_le)
  with eq show "\<exists>score\<le>0. calculateFitness w h chromosome classes = Inr score"
    by blast
qed

theorem calculateFitness_zero_and_nonpositive_witness:
  "structurallyValid sampleHeap clean \<and>
   calculateFitness weightsMain sampleHeap clean [] = Inr 0 \<and>
   calculateFitness weightsHtml sampleHeap clashing [] = Inr (- 82) \<and> (- 82 :: int) \<le> 0"
proof -
  have valid: "structurallyValid sampleHeap clean"
    by (simp add: sample_defs score_defs)
  have free: "\<forall>i<length (Genes clean). \<forall>j<length (Genes clean).
       i \<noteq> j \<and> overlapping (slotOf sampleHeap (Genes clean ! i)) (slotOf sampleHeap (Genes clean ! j)) \<longrightarrow>
       \<not> sameTeacher sampleHeap (Genes clean ! i) (Genes clean ! j) \<and>
       \<not> sameRoom sampleHeap (Genes clean ! i) (Genes clean ! j)"
    by (simp add: sample_defs score_defs less_Suc_eq)
  have good: "\<forall>g\<in>set (Genes clean).
       teacherQualified sampleHeap g \<and> roomFits sampleHeap g \<and> availableOnDay sampleHeap g"
    by (simp add: sample_defs score_defs)
  have valid': "structurallyValid sampleHeap clashing"
    by (simp add: sample_defs score_defs)
  have sum: "penaltySum weightsHtml sampleHeap (Genes clashing) = 82"
    by (simp add: penaltySum_def sample_defs score_defs)
  have weights: "0 \<le> teacherConflict weightsHtml \<and> 0 \<le> roomConflict weightsHtml"
    by (simp add: weightsHtml_def)
  have score: "calculateFitness weightsHtml sampleHeap clashing [] = Inr (- 82)"
    using calculateFitness_valid [OF valid', of weightsHtml "[]"] by (simp add: sum)
  from calculateFitness_zero_and_nonpositive [of sampleHeap clean weightsMain "[]"] valid free good
  have zero: "calculateFitness weightsMain sampleHeap clean [] = Inr 0"
    by blast
  from calculateFitness_zero_and_nonpositive [of sampleHeap clashing weightsHtml "[]"] weights score
  have "(- 82 :: int) \<le> 0"
    by blast
  with valid zero score show ?thesis
    by blast
qed

text \<open>
  C10. The score does not depend on the \<^verbatim>\<open>classes\<close> argument, which is never read, nor
  on anything in the heap but the Class objects the genes of the chromosome point to. The
  function takes no generator and returns no state: it draws no random number and writes
  nothing, so evaluating again gives the same score.
\<close>

theorem calculateFitness_depends_only_on_chromosome:
  "calculateFitness w h chromosome classes1 = calculateFitness w h chromosome classes2 \<and>
   ((\<forall>g\<in>set (Genes chromosome). load h (ClassAssignment g) = load h' (ClassAssignment g)) \<longrightarrow>
    calculateFitness w h chromosome classes1 = calculateFitness w h' chromosome classes2)"
  by (simp add: calculateFitness_heap [of chromosome h h' w classes1 classes2]
      calculateFitness_heap [of chromosome h h w classes1 classes2])

theorem calculateFitness_depends_only_on_chromosome_witness:
  "load sampleHeap (Some 0) = load (sampleHeap[4 := sampleHeap ! 3]) (Some 0) \<and>
   load sampleHeap (Some 1) = load (sampleHeap[4 := sampleHeap ! 3]) (Some 1) \<and>
   load sampleHeap (Some 2) = load (sampleHeap[4 := sampleHeap ! 3]) (Some 2) \<and>
   calculateFitness weightsMain sampleHeap clashing [] =
     calculateFitness weightsMain (sampleHeap[4 := sampleHeap ! 3]) clashing [Some 4, None]"
proof -
  have same: "\<forall>g\<in>set (Genes clashing).
      load sampleHeap (ClassAssignment g) = load (sampleHeap[4 := sampleHeap ! 3]) (ClassAssignment g)"
    by (simp add: sample_defs load_def)
  with calculateFitness_depends_only_on_chromosome
         [of weightsMain sampleHeap clashing "[]" "[Some 4, None]" "sampleHeap[4 := sampleHeap ! 3]"]
  have "calculateFitness weightsMain sampleHeap clashing [] =
     calculateFitness weightsMain (sampleHeap[4 := sampleHeap ! 3]) clashing [Some 4, None]"
    by blast
  with same show ?thesis
    by (simp add: clashing_def geneAt_def)
qed

section \<open>Properties of the evolution operators\<close>

declare tournamentLoop.simps [simp del] crossoverLoop.simps [simp del]
  mutateLoop.simps [simp del] generationLoop.simps [simp del]

lemma index_nth: "0 \<le> i \<Longrightarrow> i < int (length xs) \<Longrightarrow> index xs i = Inr (xs ! nat i)"
  by (simp add: index_def)

lemma Intn_pos:
  "0 < n \<Longrightarrow> Intn (int n) r = Inr (int (shd r mod n), stl r)"
  by (simp add: Intn_def zmod_int)

lemma crossoverLoop_eq:
  "length (Genes parent2) = length (Genes parent1) \<Longrightarrow> 0 \<le> i \<Longrightarrow>
   crossoverLoop parent1 parent2 crossoverPoint i childGenes =
     Inr (childGenes @
          map (\<lambda>k. if int k < crossoverPoint then Genes parent1 ! k else Genes parent2 ! k)
            [nat i ..< length (Genes parent1)])"
proof (induction parent1 parent2 crossoverPoint i childGenes rule: crossoverLoop.induct)
  case (1 parent1 parent2 crossoverPoint i childGenes)
  show ?case
  proof (cases "i < int (length (Genes parent1))")
    case False
    then show ?thesis
      by (subst crossoverLoop.simps) simp
  next
    case True
    with 1(4) have upt: "[nat i ..< length (Genes parent1)] =
        nat i # [nat (i + 1) ..< length (Genes parent1)]"
      by (simp add: upt_conv_Cons nat_add_distrib)
    show ?thesis
    proof (cases "i < crossoverPoint")
      case True
      with \<open>i < int (length (Genes parent1))\<close> 1(1) [OF _ True 1(3)] 1(4) show ?thesis
        by (subst crossoverLoop.simps) (simp add: upt index_nth andThen_def)
    next
      case False
      with \<open>i < int (length (Genes parent1))\<close> 1(2) [OF _ False 1(3)] 1(3,4) show ?thesis
        by (subst crossoverLoop.simps) (simp add: upt index_nth andThen_def)
    qed
  qed
qed

lemma map_cut:
  "c \<le> length xs \<Longrightarrow> length ys = length xs \<Longrightarrow>
   map (\<lambda>k. if k < c then xs ! k else ys ! k) [0 ..< length xs] = take c xs @ drop c ys"
  by (auto intro!: nth_equalityI simp: nth_append)

lemma crossover_eq:
  assumes len: "length (Genes parent2) = length (Genes parent1)" and ne: "Genes parent1 \<noteq> []"
  shows "crossover parent1 parent2 s =
           Inr (\<lparr>Genes = take (shd (rand s) mod length (Genes parent1)) (Genes parent1) @
                          drop (shd (rand s) mod length (Genes parent1)) (Genes parent2)\<rparr>,
                s\<lparr>rand := stl (rand s)\<rparr>)"
proof -
  let ?n = "length (Genes parent1)"
  let ?c = "shd (rand s) mod ?n"
  from ne have pos: "0 < ?n" by simp
  then have c: "?c \<le> ?n" by (simp add: less_imp_le)
  have "crossoverLoop parent1 parent2 (int ?c) 0 [] =
          Inr (map (\<lambda>k. if k < ?c then Genes parent1 ! k else Genes parent2 ! k) [0 ..< ?n])"
    using crossoverLoop_eq [OF len, of 0 "int ?c" "[]"] by simp
  also have "\<dots> = Inr (take ?c (Genes parent1) @ drop ?c (Genes parent2))"
    using map_cut [OF c len] by simp
  finally show ?thesis
    by (simp add: crossover_def Intn_pos [OF pos] andThen_def)
qed

text \<open>
  C8. For parents of equal, non-zero gene count \<^verbatim>\<open>crossover\<close> makes one call of
  \<^verbatim>\<open>rand.Intn(geneCount)\<close>; the number it returns is the cut, it lies in
  \<open>[0, geneCount)\<close>, the child has the first parent's genes before the cut and the second
  parent's genes from the cut on, and so as many genes as either parent. Every cut in
  \<open>[0, geneCount)\<close> is chosen by exactly the draw of that value (how draws are
  distributed is the library's matter).
\<close>

theorem crossover_single_cut:
  "length (Genes parentA) = length (Genes parentB) \<Longrightarrow> Genes parentA \<noteq> [] \<Longrightarrow>
   (\<exists>cut child r.
      Intn (int (length (Genes parentA))) (rand s) = Inr (int cut, r) \<and>
      cut < length (Genes parentA) \<and>
      crossover parentA parentB s = Inr (child, s\<lparr>rand := r\<rparr>) \<and>
      length (Genes child) = length (Genes parentA) \<and>
      length (Genes child) = length (Genes parentB) \<and>
      (\<forall>i<cut. Genes child ! i = Genes parentA ! i) \<and>
      (\<forall>i. cut \<le> i \<and> i < length (Genes child) \<longrightarrow> Genes child ! i = Genes parentB ! i)) \<and>
   (\<forall>cut<length (Genes parentA). \<forall>r.
      crossover parentA parentB (s\<lparr>rand := cut ## r\<rparr>) =
        Inr (\<lparr>Genes = take cut (Genes parentA) @ drop cut (Genes parentB)\<rparr>, s\<lparr>rand := r\<rparr>))"
proof (intro conjI allI impI)
  assume len: "length (Genes parentA) = length (Genes parentB)" and ne: "Genes parentA \<noteq> []"
  let ?n = "length (Genes parentA)"
  let ?c = "shd (rand s) mod ?n"
  let ?child = "\<lparr>Genes = take ?c (Genes parentA) @ drop ?c (Genes parentB)\<rparr>"
  from ne have pos: "0 < ?n" by simp
  then have c: "?c < ?n" by simp
  have "Intn (int ?n) (rand s) = Inr (int ?c, stl (rand s))"
    by (rule Intn_pos [OF pos])
  moreover have "crossover parentA parentB s = Inr (?child, s\<lparr>rand := stl (rand s)\<rparr>)"
    using len ne by (simp add: crossover_eq)
  moreover have "length (Genes ?child) = ?n"
    using c len by simp
  moreover have "\<forall>i<?c. Genes ?child ! i = Genes parentA ! i"
    using c by (simp add: nth_append)
  moreover have "\<forall>i. ?c \<le> i \<and> i < length (Genes ?child) \<longrightarrow> Genes ?child ! i = Genes parentB ! i"
    using c len by (auto simp: nth_append min_def)
  ultimately show "\<exists>cut child r.
      Intn (int ?n) (rand s) = Inr (int cut, r) \<and> cut < ?n \<and>
      crossover parentA parentB s = Inr (child, s\<lparr>rand := r\<rparr>) \<and>
      length (Genes child) = ?n \<and> length (Genes child) = length (Genes parentB) \<and>
      (\<forall>i<cut. Genes child ! i = Genes parentA ! i) \<and>
      (\<forall>i. cut \<le> i \<and> i < length (Genes child) \<longrightarrow> Genes child ! i = Genes parentB ! i)"
    using c len by metis
next
  fix cut r
  assume len: "length (Genes parentA) = length (Genes parentB)" and ne: "Genes parentA \<noteq> []"
    and cut: "cut < length (Genes parentA)"
  then show "crossover parentA parentB (s\<lparr>rand := cut ## r\<rparr>) =
        Inr (\<lparr>Genes = take cut (Genes parentA) @ drop cut (Genes parentB)\<rparr>, s\<lparr>rand := r\<rparr>)"
    by (simp add: crossover_eq)
qed

theorem crossover_single_cut_witness:
  "crossover clashing shuffled (sampleState (2 ## sconst 0)) =
     Inr (\<lparr>Genes = [geneAt 0, geneAt 1, geneAt 4]\<rparr>, sampleState (sconst 0)) \<and>
   crossover shuffled clashing (sampleState (0 ## sconst 0)) =
     Inr (clashing, sampleState (sconst 0))"
proof -
  have a: "length (Genes clashing) = length (Genes shuffled)" "Genes clashing \<noteq> []"
    and b: "length (Genes shuffled) = length (Genes clashing)" "Genes shuffled \<noteq> []"
    by (simp_all add: clashing_def shuffled_def)
  have two: "2 < length (Genes clashing)" and zero: "0 < length (Genes shuffled)"
    by (simp_all add: clashing_def shuffled_def)
  from crossover_single_cut [OF a, of "sampleState (sconst 0)"] two
  have "crossover clashing shuffled (sampleState (sconst 0)\<lparr>rand := 2 ## sconst 0\<rparr>) =
          Inr (\<lparr>Genes = take 2 (Genes clashing) @ drop 2 (Genes shuffled)\<rparr>,
               sampleState (sconst 0)\<lparr>rand := sconst 0\<rparr>)"
    by blast
  moreover from crossover_single_cut [OF b, of "sampleState (sconst 0)"] zero
  have "crossover shuffled clashing (sampleState (sconst 0)\<lparr>rand := 0 ## sconst 0\<rparr>) =
          Inr (\<lparr>Genes = take 0 (Genes shuffled) @ drop 0 (Genes clashing)\<rparr>,
               sampleState (sconst 0)\<lparr>rand := sconst 0\<rparr>)"
    by blast
  ultimately show ?thesis
    by (simp add: clashing_def shuffled_def sampleState_def)
qed


lemma sampled_0: "sampled population r 0 = shd r mod length (Timetables population)"
  by (simp add: sampled_def zmod_int [symmetric])

lemma sampled_Suc: "sampled population r (Suc k) = sampled population (stl r) k"
  by (simp add: sampled_def)

lemma sampled_less: "Timetables population \<noteq> [] \<Longrightarrow> sampled population r k < length (Timetables population)"
  by (simp add: sampled_def zmod_int [symmetric])

lemma map_sampled_Suc:
  "map (sampled population r) [0 ..< Suc n] =
     sampled population r 0 # map (sampled population (stl r)) [0 ..< n]"
  by (simp add: map_upt_Suc sampled_Suc del: upt_Suc)

lemma tournamentLoop_fold:
  "Timetables population \<noteq> [] \<Longrightarrow>
   \<forall>k<length (Timetables population).
      calculateFitness w h (Timetables population ! k) classes = Inr (score k) \<Longrightarrow>
   tournamentLoop w h population tournamentSize classes i best bestFitness r =
     Inr (fst (foldl (tournamentStep score) (best, bestFitness)
                 (map (sampled population r) [0 ..< nat (tournamentSize - i)])),
          sdrop (nat (tournamentSize - i)) r)"
proof (induction w h population tournamentSize classes i best bestFitness r
       rule: tournamentLoop.induct)
  case (1 w h population tournamentSize classes i best bestFitness r)
  let ?m = "length (Timetables population)"
  let ?k = "shd r mod ?m"
  show ?case
  proof (cases "i < tournamentSize")
    case False
    then show ?thesis
      by (subst tournamentLoop.simps) simp
  next
    case True
    then have n: "nat (tournamentSize - i) = Suc (nat (tournamentSize - (i + 1)))"
      by simp
    from 1(3) have pos: "0 < ?m" by simp
    then have k: "?k < ?m" by simp
    with 1(4) have fit: "calculateFitness w h (Timetables population ! ?k) classes = Inr (score ?k)"
      by blast
    have idx: "index (Timetables population) (int ?k) = Inr (Timetables population ! ?k)"
      using k by (simp add: index_nth)
    show ?thesis
    proof (cases "best = - 1 \<or> bestFitness < score ?k")
      case better: True
      have "tournamentLoop w h population tournamentSize classes i best bestFitness r =
            tournamentLoop w h population tournamentSize classes (i + 1) (int ?k) (score ?k) (stl r)"
        using True better
        by (subst tournamentLoop.simps) (simp add: Intn_pos [OF pos] idx fit andThen_def)
      also note 1(1) [OF True better 1(3,4)]
      finally have loop: "tournamentLoop w h population tournamentSize classes i best bestFitness r =
          Inr (fst (foldl (tournamentStep score) (int ?k, score ?k)
                      (map (sampled population (stl r)) [0 ..< nat (tournamentSize - (i + 1))])),
               sdrop (nat (tournamentSize - (i + 1))) (stl r))" .
      have "tournamentStep score (best, bestFitness) ?k = (int ?k, score ?k)"
        using better by (simp add: tournamentStep_def)
      then show ?thesis
        by (simp only: loop n map_sampled_Suc sampled_0 foldl_Cons sdrop.simps)
    next
      case worse: False
      have "tournamentLoop w h population tournamentSize classes i best bestFitness r =
            tournamentLoop w h population tournamentSize classes (i + 1) best bestFitness (stl r)"
        using True worse
        by (subst tournamentLoop.simps) (simp add: Intn_pos [OF pos] idx fit andThen_def)
      also note 1(2) [OF True worse 1(3,4)]
      finally have loop: "tournamentLoop w h population tournamentSize classes i best bestFitness r =
          Inr (fst (foldl (tournamentStep score) (best, bestFitness)
                      (map (sampled population (stl r)) [0 ..< nat (tournamentSize - (i + 1))])),
               sdrop (nat (tournamentSize - (i + 1))) (stl r))" .
      have "tournamentStep score (best, bestFitness) ?k = (best, bestFitness)"
        using worse by (simp add: tournamentStep_def)
      then show ?thesis
        by (simp only: loop n map_sampled_Suc sampled_0 foldl_Cons sdrop.simps)
    qed
  qed
qed

text \<open>The fold keeps the first of the best scores seen.\<close>

lemma tournament_fold_first_best:
  "ks \<noteq> [] \<Longrightarrow>
   \<exists>b<length ks.
      foldl (tournamentStep score) (- 1, f0) ks = (int (ks ! b), score (ks ! b)) \<and>
      (\<forall>k<length ks. score (ks ! k) \<le> score (ks ! b)) \<and>
      (\<forall>k<b. score (ks ! k) < score (ks ! b))"
proof (induction ks rule: rev_nonempty_induct)
  case (single x)
  show ?case by (simp add: tournamentStep_def)
next
  case (snoc x xs)
  then obtain b where b: "b < length xs"
    and fold: "foldl (tournamentStep score) (- 1, f0) xs = (int (xs ! b), score (xs ! b))"
    and best: "\<forall>k<length xs. score (xs ! k) \<le> score (xs ! b)"
    and first: "\<forall>k<b. score (xs ! k) < score (xs ! b)"
    by blast
  show ?case
  proof (cases "score x > score (xs ! b)")
    case True
    have "foldl (tournamentStep score) (- 1, f0) (xs @ [x]) = (int x, score x)"
      using True by (simp add: fold tournamentStep_def)
    moreover have "\<forall>k<length (xs @ [x]). score ((xs @ [x]) ! k) \<le> score x"
      using True best by (auto simp: nth_append less_Suc_eq intro: order_trans less_imp_le)
    moreover have "\<forall>k<length xs. score ((xs @ [x]) ! k) < score x"
      using True best by (auto simp: nth_append intro: le_less_trans)
    ultimately show ?thesis
      by (intro exI [of _ "length xs"]) (simp add: nth_append)
  next
    case False
    have "foldl (tournamentStep score) (- 1, f0) (xs @ [x]) = (int (xs ! b), score (xs ! b))"
      using False by (simp add: fold tournamentStep_def)
    moreover have "\<forall>k<length (xs @ [x]). score ((xs @ [x]) ! k) \<le> score (xs ! b)"
      using False best by (auto simp: nth_append less_Suc_eq)
    moreover have "\<forall>k<b. score ((xs @ [x]) ! k) < score (xs ! b)"
      using first b by (auto simp: nth_append)
    ultimately show ?thesis
      using b by (intro exI [of _ b]) (simp add: nth_append)
  qed
qed

lemma TournamentSelection_result:
  "1 \<le> tournamentSize \<Longrightarrow> Timetables population \<noteq> [] \<Longrightarrow>
   \<forall>k<length (Timetables population).
      calculateFitness w (heap s) (Timetables population ! k) classes = Inr (score k) \<Longrightarrow>
   \<exists>b<nat tournamentSize.
      TournamentSelection w population tournamentSize classes s =
        Inr (Timetables population ! sampled population (rand s) b,
             s\<lparr>rand := sdrop (nat tournamentSize) (rand s)\<rparr>) \<and>
      (\<forall>k<nat tournamentSize.
         Intn (int (length (Timetables population))) (sdrop k (rand s)) =
           Inr (int (sampled population (rand s) k), sdrop (Suc k) (rand s)) \<and>
         sampled population (rand s) k < length (Timetables population) \<and>
         score (sampled population (rand s) k) \<le> score (sampled population (rand s) b)) \<and>
      (\<forall>k<b. score (sampled population (rand s) k) < score (sampled population (rand s) b))"
proof -
  assume size: "1 \<le> tournamentSize" and ne: "Timetables population \<noteq> []"
    and sc: "\<forall>k<length (Timetables population).
      calculateFitness w (heap s) (Timetables population ! k) classes = Inr (score k)"
  let ?n = "nat tournamentSize"
  let ?ks = "map (sampled population (rand s)) [0 ..< ?n]"
  from size have "?ks \<noteq> []" by simp
  from tournament_fold_first_best [OF this, of score "- 1000"]
  obtain b where b: "b < ?n"
    and fold: "foldl (tournamentStep score) (- 1, - 1000) ?ks = (int (?ks ! b), score (?ks ! b))"
    and best: "\<forall>k<?n. score (?ks ! k) \<le> score (?ks ! b)"
    and first: "\<forall>k<b. score (?ks ! k) < score (?ks ! b)"
    by auto
  have nth: "?ks ! k = sampled population (rand s) k" if "k < ?n" for k
    using that by simp
  have less: "sampled population (rand s) k < length (Timetables population)" for k
    using ne by (rule sampled_less)
  have loop: "tournamentLoop w (heap s) population tournamentSize classes 0 (- 1) (- 1000) (rand s) =
        Inr (int (sampled population (rand s) b), sdrop ?n (rand s))"
    using tournamentLoop_fold [OF ne sc, of tournamentSize 0 "- 1" "- 1000" "rand s"] b
    by (simp add: fold del: upt_Suc)
  have result: "TournamentSelection w population tournamentSize classes s =
        Inr (Timetables population ! sampled population (rand s) b, s\<lparr>rand := sdrop ?n (rand s)\<rparr>)"
    by (simp add: TournamentSelection_def loop andThen_def index_nth less)
  have draw: "Intn (int (length (Timetables population))) (sdrop k (rand s)) =
           Inr (int (sampled population (rand s) k), sdrop (Suc k) (rand s))" for k
    using ne by (simp add: Intn_def sampled_def)
  have best': "\<forall>k<?n. score (sampled population (rand s) k) \<le> score (sampled population (rand s) b)"
    using best b by (simp add: nth del: upt_Suc)
  have first': "\<forall>k<b. score (sampled population (rand s) k) < score (sampled population (rand s) b)"
    using first b by (simp add: nth del: upt_Suc)
  from b result draw less best' first' show ?thesis
    by blast
qed

text \<open>
  C7. With \<^verbatim>\<open>tournamentSize >= 1\<close>, a non-empty population and every individual
  evaluable, \<^verbatim>\<open>TournamentSelection\<close> makes \<^verbatim>\<open>tournamentSize\<close> calls of
  \<^verbatim>\<open>rand.Intn(len(population.Timetables))\<close>, one per round, each on the generator as the
  round before left it, so an index may come up again. It returns the individual at
  the sampled index \<open>b\<close> whose score no other sampled individual exceeds and which every
  earlier sampled individual stays strictly below: the first of the best.
\<close>

theorem TournamentSelection_first_best:
  "1 \<le> tournamentSize \<Longrightarrow> Timetables population \<noteq> [] \<Longrightarrow>
   \<forall>k<length (Timetables population).
      calculateFitness w (heap s) (Timetables population ! k) classes = Inr (score k) \<Longrightarrow>
   \<exists>b<nat tournamentSize.
      TournamentSelection w population tournamentSize classes s =
        Inr (Timetables population ! sampled population (rand s) b,
             s\<lparr>rand := sdrop (nat tournamentSize) (rand s)\<rparr>) \<and>
      (\<forall>k<nat tournamentSize.
         Intn (int (length (Timetables population))) (sdrop k (rand s)) =
           Inr (int (sampled population (rand s) k), sdrop (Suc k) (rand s)) \<and>
         sampled population (rand s) k < length (Timetables population) \<and>
         score (sampled population (rand s) k) \<le> score (sampled population (rand s) b)) \<and>
      (\<forall>k<b. score (sampled population (rand s) k) < score (sampled population (rand s) b))"
  by (rule TournamentSelection_result)

lemma sample_scores:
  "calculateFitness weightsMain sampleHeap clean [] = Inr 0"
  "calculateFitness weightsMain sampleHeap clashing [] = Inr (- 24)"
  "calculateFitness weightsMain sampleHeap cleanToo [] = Inr 0"
proof -
  have "structurallyValid sampleHeap clean" "structurallyValid sampleHeap clashing"
    "structurallyValid sampleHeap cleanToo"
    by (simp_all add: sample_defs cleanToo_def score_defs)
  then show "calculateFitness weightsMain sampleHeap clean [] = Inr 0"
    "calculateFitness weightsMain sampleHeap clashing [] = Inr (- 24)"
    "calculateFitness weightsMain sampleHeap cleanToo [] = Inr 0"
    by (simp_all add: calculateFitness_valid penaltySum_def sample_defs cleanToo_def score_defs)
qed

theorem TournamentSelection_first_best_witness:
  "TournamentSelection weightsMain samplePopulation 3 [] (sampleState (4 ## 2 ## 3 ## sconst 0)) =
     Inr (cleanToo, sampleState (sconst 0))"
proof -
  let ?s = "sampleState (4 ## 2 ## 3 ## sconst 0)"
  have ne: "Timetables samplePopulation \<noteq> []"
    by (simp add: samplePopulation_def)
  have sc: "\<forall>k<length (Timetables samplePopulation).
      calculateFitness weightsMain (heap ?s) (Timetables samplePopulation ! k) [] = Inr (sampleScore k)"
    by (simp add: samplePopulation_def sampleState_def sampleScore_def sample_scores
        less_Suc_eq)
  have draws: "sampled samplePopulation (rand ?s) 0 = Suc 0"
    "sampled samplePopulation (rand ?s) (Suc 0) = 2" "sampled samplePopulation (rand ?s) 2 = 0"
    by (simp_all add: sampled_def samplePopulation_def sampleState_def numeral_2_eq_2)
  from TournamentSelection_first_best [OF _ ne sc, of 3]
  obtain b where b: "b < 3"
    and result: "TournamentSelection weightsMain samplePopulation 3 [] ?s =
      Inr (Timetables samplePopulation ! sampled samplePopulation (rand ?s) b,
           ?s\<lparr>rand := sdrop 3 (rand ?s)\<rparr>)"
    and best: "\<forall>k<3. sampleScore (sampled samplePopulation (rand ?s) k) \<le>
                 sampleScore (sampled samplePopulation (rand ?s) b)"
    and first: "\<forall>k<b. sampleScore (sampled samplePopulation (rand ?s) k) <
                 sampleScore (sampled samplePopulation (rand ?s) b)"
    by auto
  from b consider "b = 0" | "b = 1" | "b = 2"
    by linarith
  then have "b = 1"
  proof cases
    case 1
    with best have "sampleScore (sampled samplePopulation (rand ?s) (Suc 0)) \<le>
                    sampleScore (sampled samplePopulation (rand ?s) 0)"
      by simp
    then show ?thesis
      by (simp add: draws sampleScore_def)
  next
    case 2
    then show ?thesis .
  next
    case 3
    with first have "sampleScore (sampled samplePopulation (rand ?s) (Suc 0)) <
                     sampleScore (sampled samplePopulation (rand ?s) 2)"
      by simp
    then show ?thesis
      by (simp add: draws sampleScore_def)
  qed
  with result have "TournamentSelection weightsMain samplePopulation 3 [] ?s =
      Inr (Timetables samplePopulation ! 2, ?s\<lparr>rand := sdrop 3 (rand ?s)\<rparr>)"
    by (simp add: draws)
  moreover have "sdrop 3 (rand ?s) = sconst 0"
    by (simp add: sampleState_def numeral_3_eq_3)
  moreover have "Timetables samplePopulation ! 2 = cleanToo"
    by (simp add: samplePopulation_def)
  ultimately show ?thesis
    by (simp add: sampleState_def)
qed


lemma Float64_range: "0 \<le> fst (Float64 r)" "fst (Float64 r) < 1"
  by (simp_all add: Float64_def)

lemma Float64_snd: "snd (Float64 r) = stl r"
  by (simp add: Float64_def)

lemma Intn_Inr: "Intn n r = Inr (k, r') \<Longrightarrow> 0 \<le> k \<and> k < n \<and> r' = stl r"
  by (auto simp: Intn_def split: if_splits)

lemma index_Inr: "index xs k = Inr x \<Longrightarrow> 0 \<le> k \<and> k < int (length xs) \<and> x = xs ! nat k \<and> x \<in> set xs"
  by (auto simp: index_def split: if_splits)

lemma store_Inr:
  "store h p f = Inr h' \<Longrightarrow> \<exists>a<length h. p = Some a \<and> h' = h[a := f (h ! a)]"
  by (auto simp: store_def split: option.splits if_splits)

lemma written_field:
  "index xs k = Inr x \<Longrightarrow> index (Genes chromosome) i = Inr gene \<Longrightarrow>
   store h (ClassAssignment gene) f = Inr h' \<Longrightarrow>
   \<exists>a<length h. 0 \<le> i \<and> i < int (length (Genes chromosome)) \<and>
      ClassAssignment (Genes chromosome ! nat i) = Some a \<and> h' = h[a := f (h ! a)] \<and> x \<in> set xs"
  by (auto dest!: index_Inr store_Inr)

lemma mutateGene_keep:
  "\<not> fst (Float64 (rand s)) < mutationRate \<Longrightarrow>
   mutateGene chromosome teachers rooms timeSlots mutationRate i s = Inr (s\<lparr>rand := stl (rand s)\<rparr>)"
  by (simp add: mutateGene_def Float64_def)

lemma mutateGene_Inr:
  assumes "mutateGene chromosome teachers rooms timeSlots mutationRate i s = Inr s1"
  shows "heap s1 = heap s \<or>
         (\<exists>a<length (heap s). \<exists>c'. 0 \<le> i \<and> i < int (length (Genes chromosome)) \<and>
            ClassAssignment (Genes chromosome ! nat i) = Some a \<and>
            heap s1 = (heap s)[a := c'] \<and>
            oneFieldReplaced teachers rooms timeSlots (heap s ! a) c')"
proof (cases "fst (Float64 (rand s)) < mutationRate")
  case False
  with assms show ?thesis by (auto simp: mutateGene_keep)
next
  case True
  obtain u r1 where f: "Float64 (rand s) = (u, r1)" by (cases "Float64 (rand s)")
  with True have u: "u < mutationRate" by simp
  from assms f u obtain choice r2 where
    c: "Intn 3 r1 = Inr (choice, r2)"
    by (auto simp: mutateGene_def andThen_def split: sum.splits)
  consider "choice = 0" | "choice = 1" | "choice = 2" | "choice \<noteq> 0 \<and> choice \<noteq> 1 \<and> choice \<noteq> 2"
    by blast
  then show ?thesis
  proof cases
    case 1
    with assms f u c obtain k r3 teacher gene h where
      x: "index teachers k = Inr teacher" and g: "index (Genes chromosome) i = Inr gene" and
      st: "store (heap s) (ClassAssignment gene) (\<lambda>c. c\<lparr>Teacher := teacher\<rparr>) = Inr h" and
      s1: "s1 = \<lparr>heap = h, rand = r3\<rparr>"
      by (auto simp: mutateGene_def andThen_def split: sum.splits)
    from written_field [OF x g st] obtain a where a: "a < length (heap s)" "0 \<le> i"
      "i < int (length (Genes chromosome))" "ClassAssignment (Genes chromosome ! nat i) = Some a"
      "h = (heap s)[a := (heap s ! a)\<lparr>Teacher := teacher\<rparr>]" "teacher \<in> set teachers"
      by blast
    then have "oneFieldReplaced teachers rooms timeSlots (heap s ! a) ((heap s ! a)\<lparr>Teacher := teacher\<rparr>)"
      unfolding oneFieldReplaced_def by blast
    with a s1 show ?thesis
      by auto
  next
    case 2
    with assms f u c obtain k r3 room gene h where
      x: "index rooms k = Inr room" and g: "index (Genes chromosome) i = Inr gene" and
      st: "store (heap s) (ClassAssignment gene) (\<lambda>c. c\<lparr>Room := room\<rparr>) = Inr h" and
      s1: "s1 = \<lparr>heap = h, rand = r3\<rparr>"
      by (auto simp: mutateGene_def andThen_def split: sum.splits)
    from written_field [OF x g st] obtain a where a: "a < length (heap s)" "0 \<le> i"
      "i < int (length (Genes chromosome))" "ClassAssignment (Genes chromosome ! nat i) = Some a"
      "h = (heap s)[a := (heap s ! a)\<lparr>Room := room\<rparr>]" "room \<in> set rooms"
      by blast
    then have "oneFieldReplaced teachers rooms timeSlots (heap s ! a) ((heap s ! a)\<lparr>Room := room\<rparr>)"
      unfolding oneFieldReplaced_def by blast
    with a s1 show ?thesis
      by auto
  next
    case 3
    with assms f u c obtain k r3 timeSlot gene h where
      x: "index timeSlots k = Inr timeSlot" and g: "index (Genes chromosome) i = Inr gene" and
      st: "store (heap s) (ClassAssignment gene) (\<lambda>c. c\<lparr>TimeSlot := timeSlot\<rparr>) = Inr h" and
      s1: "s1 = \<lparr>heap = h, rand = r3\<rparr>"
      by (auto simp: mutateGene_def andThen_def split: sum.splits)
    from written_field [OF x g st] obtain a where a: "a < length (heap s)" "0 \<le> i"
      "i < int (length (Genes chromosome))" "ClassAssignment (Genes chromosome ! nat i) = Some a"
      "h = (heap s)[a := (heap s ! a)\<lparr>TimeSlot := timeSlot\<rparr>]" "timeSlot \<in> set timeSlots"
      by blast
    then have "oneFieldReplaced teachers rooms timeSlots (heap s ! a) ((heap s ! a)\<lparr>TimeSlot := timeSlot\<rparr>)"
      unfolding oneFieldReplaced_def by blast
    with a s1 show ?thesis
      by auto
  next
    case 4
    with assms f u c show ?thesis
      by (auto simp: mutateGene_def andThen_def)
  qed
qed

lemma mutateGene_returns:
  assumes "teachers \<noteq> []" "rooms \<noteq> []" "timeSlots \<noteq> []"
    and "0 \<le> i" "i < int (length (Genes chromosome))"
    and "\<exists>a<length (heap s). ClassAssignment (Genes chromosome ! nat i) = Some a"
  shows "\<exists>s1. mutateGene chromosome teachers rooms timeSlots mutationRate i s = Inr s1"
proof -
  have idx: "index xs (int (k mod length xs)) = Inr (xs ! (k mod length xs))" if "xs \<noteq> []" for xs :: "'a list" and k
    using that by (simp add: index_def)
  have three: "Intn 3 r = Inr (int (shd r mod 3), stl r)" for r
    using Intn_pos [of 3 r] by simp
  from assms show ?thesis
    by (cases "shd (stl (rand s)) mod 3 = 0"; cases "shd (stl (rand s)) mod 3 = 1";
        cases "shd (stl (rand s)) mod 3 = 2")
      (auto simp: mutateGene_def Float64_def three Intn_pos idx index_nth andThen_def store_def)
qed


lemma oneFieldReplaced_refl: "oneFieldReplaced teachers rooms timeSlots c c"
  by (simp add: oneFieldReplaced_def)

lemma oneFieldReplaced_kept:
  "oneFieldReplaced teachers rooms timeSlots c c' \<Longrightarrow>
   Subject c' = Subject c \<and> Class.Capacity c' = Class.Capacity c"
  by (auto simp: oneFieldReplaced_def)

lemma mutateGene_step:
  assumes "mutateGene chromosome teachers rooms timeSlots mutationRate i s = Inr s1"
  shows "length (heap s1) = length (heap s)"
    and "a < length (heap s) \<Longrightarrow> oneFieldReplaced teachers rooms timeSlots (heap s ! a) (heap s1 ! a)"
    and "a < length (heap s) \<Longrightarrow> ClassAssignment (Genes chromosome ! nat i) \<noteq> Some a \<Longrightarrow>
         heap s1 ! a = heap s ! a"
  using mutateGene_Inr [OF assms]
  by (auto simp: oneFieldReplaced_refl nth_list_update)

lemma mutateLoop_frame:
  "mutateLoop chromosome teachers rooms timeSlots mutationRate i s = Inr s' \<Longrightarrow> 0 \<le> i \<Longrightarrow>
   length (heap s') = length (heap s) \<and>
   (\<forall>a<length (heap s).
      Subject (heap s' ! a) = Subject (heap s ! a) \<and>
      Class.Capacity (heap s' ! a) = Class.Capacity (heap s ! a) \<and>
      ((\<forall>j. nat i \<le> j \<and> j < length (Genes chromosome) \<longrightarrow>
           ClassAssignment (Genes chromosome ! j) \<noteq> Some a) \<longrightarrow>
       heap s' ! a = heap s ! a))"
proof (induction chromosome teachers rooms timeSlots mutationRate i s rule: mutateLoop.induct)
  case (1 chromosome teachers rooms timeSlots mutationRate i s)
  show ?case
  proof (cases "i < int (length (Genes chromosome))")
    case False
    with 1(2) show ?thesis
      by (subst (asm) mutateLoop.simps) auto
  next
    case True
    with 1(2) obtain s1 where
      step: "mutateGene chromosome teachers rooms timeSlots mutationRate i s = Inr s1" and
      loop: "mutateLoop chromosome teachers rooms timeSlots mutationRate (i + 1) s1 = Inr s'"
      by (subst (asm) mutateLoop.simps) (auto simp: andThen_def split: sum.splits)
    from 1(3) have next_i: "0 \<le> i + 1" "nat (i + 1) = Suc (nat i)"
      by simp_all
    note IH = 1(1) [OF True loop next_i(1)]
    note len = mutateGene_step(1) [OF step]
    show ?thesis
    proof (intro conjI allI impI)
      show "length (heap s') = length (heap s)"
        using IH len by simp
    next
      fix a assume a: "a < length (heap s)"
      from mutateGene_step(2) [OF step a]
      have "Subject (heap s1 ! a) = Subject (heap s ! a)"
        by (simp add: oneFieldReplaced_kept)
      with IH a len show "Subject (heap s' ! a) = Subject (heap s ! a)"
        by simp
    next
      fix a assume a: "a < length (heap s)"
      from mutateGene_step(2) [OF step a]
      have "Class.Capacity (heap s1 ! a) = Class.Capacity (heap s ! a)"
        by (simp add: oneFieldReplaced_kept)
      with IH a len show "Class.Capacity (heap s' ! a) = Class.Capacity (heap s ! a)"
        by simp
    next
      fix a assume a: "a < length (heap s)"
        and out: "\<forall>j. nat i \<le> j \<and> j < length (Genes chromosome) \<longrightarrow>
                    ClassAssignment (Genes chromosome ! j) \<noteq> Some a"
      from out True 1(3) have "ClassAssignment (Genes chromosome ! nat i) \<noteq> Some a"
        by simp
      with mutateGene_step(3) [OF step a] have "heap s1 ! a = heap s ! a"
        by simp
      moreover from out have "\<forall>j. nat (i + 1) \<le> j \<and> j < length (Genes chromosome) \<longrightarrow>
                    ClassAssignment (Genes chromosome ! j) \<noteq> Some a"
        by (simp add: next_i)
      ultimately show "heap s' ! a = heap s ! a"
        using IH a len by simp
    qed
  qed
qed

lemma mutateLoop_one_field:
  "mutateLoop chromosome teachers rooms timeSlots mutationRate i s = Inr s' \<Longrightarrow> 0 \<le> i \<Longrightarrow>
   distinct (map ClassAssignment (Genes chromosome)) \<Longrightarrow>
   \<forall>a<length (heap s). oneFieldReplaced teachers rooms timeSlots (heap s ! a) (heap s' ! a)"
proof (induction chromosome teachers rooms timeSlots mutationRate i s rule: mutateLoop.induct)
  case (1 chromosome teachers rooms timeSlots mutationRate i s)
  show ?case
  proof (cases "i < int (length (Genes chromosome))")
    case False
    with 1(2) show ?thesis
      by (subst (asm) mutateLoop.simps) (auto simp: oneFieldReplaced_refl)
  next
    case True
    with 1(2) obtain s1 where
      step: "mutateGene chromosome teachers rooms timeSlots mutationRate i s = Inr s1" and
      loop: "mutateLoop chromosome teachers rooms timeSlots mutationRate (i + 1) s1 = Inr s'"
      by (subst (asm) mutateLoop.simps) (auto simp: andThen_def split: sum.splits)
    from 1(3) have next_i: "0 \<le> i + 1" "nat (i + 1) = Suc (nat i)"
      by simp_all
    note IH = 1(1) [OF True loop next_i(1) 1(4)]
    note len = mutateGene_step(1) [OF step]
    note frame = mutateLoop_frame [OF loop next_i(1)]
    show ?thesis
    proof (intro allI impI)
      fix a assume a: "a < length (heap s)"
      show "oneFieldReplaced teachers rooms timeSlots (heap s ! a) (heap s' ! a)"
      proof (cases "ClassAssignment (Genes chromosome ! nat i) = Some a")
        case False
        with mutateGene_step(3) [OF step a] have "heap s1 ! a = heap s ! a"
          by simp
        moreover from IH a len
        have "oneFieldReplaced teachers rooms timeSlots (heap s1 ! a) (heap s' ! a)"
          by simp
        ultimately show ?thesis
          by simp
      next
        case here: True
        have "\<forall>j. nat (i + 1) \<le> j \<and> j < length (Genes chromosome) \<longrightarrow>
                    ClassAssignment (Genes chromosome ! j) \<noteq> Some a"
        proof (intro allI impI)
          fix j assume j: "nat (i + 1) \<le> j \<and> j < length (Genes chromosome)"
          with True 1(3) have "nat i < length (Genes chromosome)" "nat i \<noteq> j"
            by (simp_all add: next_i)
          with nth_eq_iff_index_eq [OF 1(4), of "nat i" j] j here
          show "ClassAssignment (Genes chromosome ! j) \<noteq> Some a"
            by auto
        qed
        with frame a len have "heap s' ! a = heap s1 ! a"
          by simp
        with mutateGene_step(2) [OF step a] show ?thesis
          by simp
      qed
    qed
  qed
qed

lemma mutateLoop_zero:
  "mutationRate \<le> 0 \<Longrightarrow> 0 \<le> i \<Longrightarrow>
   mutateLoop chromosome teachers rooms timeSlots mutationRate i s =
     Inr (s\<lparr>rand := sdrop (nat (int (length (Genes chromosome)) - i)) (rand s)\<rparr>)"
proof (induction chromosome teachers rooms timeSlots mutationRate i s rule: mutateLoop.induct)
  case (1 chromosome teachers rooms timeSlots mutationRate i s)
  show ?case
  proof (cases "i < int (length (Genes chromosome))")
    case False
    then show ?thesis
      by (subst mutateLoop.simps) simp
  next
    case True
    from 1(2) Float64_range(1) [of "rand s"] have "\<not> fst (Float64 (rand s)) < mutationRate"
      by simp
    then have step: "mutateGene chromosome teachers rooms timeSlots mutationRate i s =
        Inr (s\<lparr>rand := stl (rand s)\<rparr>)"
      by (rule mutateGene_keep)
    from True 1(3) have n: "nat (int (length (Genes chromosome)) - i) =
        Suc (nat (int (length (Genes chromosome)) - (i + 1)))"
      by simp
    from 1(3) have "0 \<le> i + 1" by simp
    note IH = 1(1) [OF True 1(2) this, of "s\<lparr>rand := stl (rand s)\<rparr>"]
    show ?thesis
      using True by (subst mutateLoop.simps) (simp add: step andThen_def IH n)
  qed
qed

lemma mutateLoop_returns:
  "teachers \<noteq> [] \<Longrightarrow> rooms \<noteq> [] \<Longrightarrow> timeSlots \<noteq> [] \<Longrightarrow> allocated (heap s) chromosome \<Longrightarrow> 0 \<le> i \<Longrightarrow>
   \<exists>s'. mutateLoop chromosome teachers rooms timeSlots mutationRate i s = Inr s'"
proof (induction chromosome teachers rooms timeSlots mutationRate i s rule: mutateLoop.induct)
  case (1 chromosome teachers rooms timeSlots mutationRate i s)
  show ?case
  proof (cases "i < int (length (Genes chromosome))")
    case False
    then show ?thesis
      by (subst mutateLoop.simps) simp
  next
    case True
    with 1(6) have "nat i < length (Genes chromosome)" by simp
    with 1(5) have "\<exists>a<length (heap s). ClassAssignment (Genes chromosome ! nat i) = Some a"
      by (simp add: allocated_def)
    from mutateGene_returns [OF 1(2,3,4) 1(6) True this, of mutationRate]
    obtain s1 where step: "mutateGene chromosome teachers rooms timeSlots mutationRate i s = Inr s1"
      by blast
    from 1(5) mutateGene_step(1) [OF step] have "allocated (heap s1) chromosome"
      by (simp add: allocated_def)
    moreover from 1(6) have "0 \<le> i + 1" by simp
    ultimately obtain s' where
      "mutateLoop chromosome teachers rooms timeSlots mutationRate (i + 1) s1 = Inr s'"
      using 1(1) [OF True 1(2,3,4)] by blast
    with True step show ?thesis
      by (subst mutateLoop.simps) (simp add: andThen_def)
  qed
qed

text \<open>
  The draws decide the outcome: with non-empty catalogs and genes that point to allocated
  Class objects, \<^verbatim>\<open>mutate\<close> returns, and the heap and the generator it leaves are those
  that the rewrites of the genes describe.
\<close>

lemma mod_three: "k mod 3 = 0 \<or> k mod 3 = 1 \<or> k mod 3 = 2" for k :: nat
  by presburger

lemma written_drawn:
  assumes "xs \<noteq> []" "0 \<le> i" "i < int (length (Genes chromosome))"
    and "ClassAssignment (Genes chromosome ! nat i) = Some a" "a < length h"
  shows "andThen (Intn (int (length xs)) r2) (\<lambda>(k, r3).
           andThen (index xs k) (\<lambda>x.
           andThen (index (Genes chromosome) i) (\<lambda>gene.
           andThen (store h (ClassAssignment gene) (f x)) (\<lambda>h'.
             Inr \<lparr>heap = h', rand = r3\<rparr>)))) =
         Inr \<lparr>heap = h[a := f (xs ! (shd r2 mod length xs)) (h ! a)], rand = stl r2\<rparr>"
proof -
  from assms(1) have "Intn (int (length xs)) r2 = Inr (int (shd r2 mod length xs), stl r2)"
    by (simp add: Intn_pos)
  moreover from assms(1) have "index xs (int (shd r2 mod length xs)) = Inr (xs ! (shd r2 mod length xs))"
    by (simp add: index_def)
  moreover from assms(2,3) have "index (Genes chromosome) i = Inr (Genes chromosome ! nat i)"
    by (rule index_nth)
  moreover from assms(5) have "store h (Some a) (f (xs ! (shd r2 mod length xs))) =
      Inr (h[a := f (xs ! (shd r2 mod length xs)) (h ! a)])"
    by (simp add: store_def)
  ultimately show ?thesis
    by (simp only: andThen_def sum.case prod.case assms(4))
qed

lemma mutateGene_drawn:
  assumes "teachers \<noteq> []" "rooms \<noteq> []" "timeSlots \<noteq> []"
    and "0 \<le> i" "i < int (length (Genes chromosome))"
    and "ClassAssignment (Genes chromosome ! nat i) = Some a" "a < length (heap s)"
  shows "mutateGene chromosome teachers rooms timeSlots mutationRate i s =
     Inr \<lparr>heap = (heap s)[a := rewritten (fst (drawRewrite teachers rooms timeSlots mutationRate
                                               (rand s))) (heap s ! a)],
          rand = snd (drawRewrite teachers rooms timeSlots mutationRate (rand s))\<rparr>"
proof (cases "fst (Float64 (rand s)) < mutationRate")
  case False
  then show ?thesis
    by (simp add: mutateGene_keep drawRewrite_def)
next
  case True
  note written = written_drawn [OF _ assms(4-7)]
  have f: "Float64 (rand s) = (fst (Float64 (rand s)), stl (rand s))"
    by (simp add: Float64_def)
  have three: "Intn 3 (stl (rand s)) = Inr (int (shd (stl (rand s)) mod 3), stl (stl (rand s)))"
    using Intn_pos [of 3 "stl (rand s)"] by simp
  have start: "mutateGene chromosome teachers rooms timeSlots mutationRate i s =
      (if int (shd (stl (rand s)) mod 3) = 0 then
         Inr \<lparr>heap = (heap s)[a := (heap s ! a)\<lparr>Teacher :=
                  teachers ! (shd (stl (stl (rand s))) mod length teachers)\<rparr>],
              rand = stl (stl (stl (rand s)))\<rparr>
       else if int (shd (stl (rand s)) mod 3) = 1 then
         Inr \<lparr>heap = (heap s)[a := (heap s ! a)\<lparr>Room :=
                  rooms ! (shd (stl (stl (rand s))) mod length rooms)\<rparr>],
              rand = stl (stl (stl (rand s)))\<rparr>
       else if int (shd (stl (rand s)) mod 3) = 2 then
         Inr \<lparr>heap = (heap s)[a := (heap s ! a)\<lparr>TimeSlot :=
                  timeSlots ! (shd (stl (stl (rand s))) mod length timeSlots)\<rparr>],
              rand = stl (stl (stl (rand s)))\<rparr>
       else Inr (s\<lparr>rand := stl (stl (rand s))\<rparr>))"
    unfolding mutateGene_def
    apply (subst f)
    apply (simp only: Let_def prod.case True if_True three written [OF assms(1)]
        written [OF assms(2)] written [OF assms(3)])
    apply (simp only: andThen_def sum.case prod.case)
    done
  from mod_three [of "shd (stl (rand s))"] True show ?thesis
    unfolding start by (auto simp: drawRewrite_def drawn_def)
qed

lemma applyRewrites_length: "length (applyRewrites gs d i h) = length h"
  by (induction gs arbitrary: i h) (simp_all split: option.splits)

lemma applyRewrites_frame:
  "Some a \<notin> ClassAssignment ` set gs \<Longrightarrow> applyRewrites gs d i h ! a = h ! a"
proof (induction gs arbitrary: i h)
  case Nil
  then show ?case by simp
next
  case (Cons g gs)
  then have "Some a \<notin> ClassAssignment ` set gs" and "ClassAssignment g \<noteq> Some a"
    by auto
  with Cons.IH show ?case
    by (cases "ClassAssignment g") auto
qed

lemma applyRewrites_nth:
  "distinct (map ClassAssignment gs) \<Longrightarrow> \<forall>g\<in>set gs. \<exists>a<length h. ClassAssignment g = Some a \<Longrightarrow>
   j < length gs \<Longrightarrow> ClassAssignment (gs ! j) = Some a \<Longrightarrow>
   applyRewrites gs d i h ! a = rewritten (d (i + j)) (h ! a)"
proof (induction gs arbitrary: i j h)
  case Nil
  then show ?case by simp
next
  case (Cons g gs)
  from Cons.prems(2) obtain b where b: "b < length h" "ClassAssignment g = Some b"
    by auto
  let ?h = "h[b := rewritten (d i) (h ! b)]"
  from Cons.prems(1) b have out: "Some b \<notin> ClassAssignment ` set gs"
    by auto
  show ?case
  proof (cases j)
    case 0
    with Cons.prems(4) b have "a = b" by simp
    with b out show ?thesis
      by (simp add: 0 applyRewrites_frame)
  next
    case (Suc j')
    with Cons.prems have j': "j' < length gs" "ClassAssignment (gs ! j') = Some a"
      by simp_all
    then have "Some a \<in> ClassAssignment ` set gs"
      by (metis imageI nth_mem)
    with out have ne: "a \<noteq> b" by auto
    from Cons.prems(2) have "\<forall>g\<in>set gs. \<exists>a<length ?h. ClassAssignment g = Some a"
      by simp
    from Cons.IH [OF _ this j'] Cons.prems(1)
    have "applyRewrites gs d (Suc i) ?h ! a = rewritten (d (Suc i + j')) (?h ! a)"
      by simp
    with ne b Suc show ?thesis
      by simp
  qed
qed

lemma mutateLoop_drawn:
  "teachers \<noteq> [] \<Longrightarrow> rooms \<noteq> [] \<Longrightarrow> timeSlots \<noteq> [] \<Longrightarrow> allocated (heap s) chromosome \<Longrightarrow>
   0 \<le> i \<Longrightarrow> i \<le> int (length (Genes chromosome)) \<Longrightarrow>
   rand s = generatorAt teachers rooms timeSlots mutationRate (nat i) r \<Longrightarrow>
   mutateLoop chromosome teachers rooms timeSlots mutationRate i s =
     Inr \<lparr>heap = applyRewrites (drop (nat i) (Genes chromosome))
                   (rewriteOf teachers rooms timeSlots mutationRate r) (nat i) (heap s),
          rand = generatorAt teachers rooms timeSlots mutationRate (length (Genes chromosome)) r\<rparr>"
proof (induction chromosome teachers rooms timeSlots mutationRate i s rule: mutateLoop.induct)
  case (1 chromosome teachers rooms timeSlots mutationRate i s)
  show ?case
  proof (cases "i < int (length (Genes chromosome))")
    case False
    with 1(7) have "nat i = length (Genes chromosome)"
      by simp
    with False 1(8) show ?thesis
      by (subst mutateLoop.simps) simp
  next
    case True
    with 1(6) have lt: "nat i < length (Genes chromosome)"
      by simp
    then have "Genes chromosome ! nat i \<in> set (Genes chromosome)"
      by simp
    with 1(5) obtain a where a: "a < length (heap s)"
      "ClassAssignment (Genes chromosome ! nat i) = Some a"
      by (auto simp: allocated_def)
    let ?s1 = "\<lparr>heap = (heap s)[a := rewritten (rewriteOf teachers rooms timeSlots mutationRate r
                                            (nat i)) (heap s ! a)],
               rand = generatorAt teachers rooms timeSlots mutationRate (nat (i + 1)) r\<rparr>"
    from 1(6) have suc: "nat (i + 1) = Suc (nat i)"
      by simp
    have step: "mutateGene chromosome teachers rooms timeSlots mutationRate i s = Inr ?s1"
      using mutateGene_drawn [OF 1(2,3,4,6) True a(2,1), of mutationRate]
      by (simp add: 1(8) rewriteOf_def suc)
    have "allocated (heap ?s1) chromosome"
      using 1(5) by (simp add: allocated_def)
    moreover have "0 \<le> i + 1" "i + 1 \<le> int (length (Genes chromosome))"
      using 1(6) True by simp_all
    moreover have "rand ?s1 = generatorAt teachers rooms timeSlots mutationRate (nat (i + 1)) r"
      by simp
    ultimately have rest: "mutateLoop chromosome teachers rooms timeSlots mutationRate (i + 1) ?s1 =
        Inr \<lparr>heap = applyRewrites (drop (nat (i + 1)) (Genes chromosome))
                   (rewriteOf teachers rooms timeSlots mutationRate r) (nat (i + 1)) (heap ?s1),
          rand = generatorAt teachers rooms timeSlots mutationRate (length (Genes chromosome)) r\<rparr>"
      using 1(1) [OF True 1(2,3,4)] by blast
    have "drop (nat i) (Genes chromosome) =
        Genes chromosome ! nat i # drop (nat (i + 1)) (Genes chromosome)"
      using lt by (simp add: suc Cons_nth_drop_Suc)
    with True step rest a show ?thesis
      by (subst mutateLoop.simps) (simp add: andThen_def suc)
  qed
qed

lemma mutate_drawn:
  assumes "teachers \<noteq> []" "rooms \<noteq> []" "timeSlots \<noteq> []" "allocated (heap s) chromosome"
  shows "mutate chromosome teachers rooms timeSlots mutationRate s =
     Inr (chromosome,
          \<lparr>heap = applyRewrites (Genes chromosome)
                   (rewriteOf teachers rooms timeSlots mutationRate (rand s)) 0 (heap s),
           rand = generatorAt teachers rooms timeSlots mutationRate (length (Genes chromosome))
                    (rand s)\<rparr>)"
  using mutateLoop_drawn [OF assms, of 0 mutationRate "rand s"]
  by (simp add: mutate_def andThen_def)

lemma rewriteOf_extremes:
  "mutationRate \<le> 0 \<Longrightarrow> rewriteOf teachers rooms timeSlots mutationRate r i = Unchanged"
  "1 \<le> mutationRate \<Longrightarrow> rewriteOf teachers rooms timeSlots mutationRate r i \<noteq> Unchanged"
proof -
  let ?g = "generatorAt teachers rooms timeSlots mutationRate i r"
  show "rewriteOf teachers rooms timeSlots mutationRate r i = Unchanged" if "mutationRate \<le> 0"
    using that Float64_range(1) [of ?g] by (simp add: rewriteOf_def drawRewrite_def)
  show "rewriteOf teachers rooms timeSlots mutationRate r i \<noteq> Unchanged" if "1 \<le> mutationRate"
    using that Float64_range(2) [of ?g] by (simp add: rewriteOf_def drawRewrite_def)
qed

lemma drawRewrite_reaches:
  assumes "0 < mutationRate"
  shows "k < length teachers \<Longrightarrow>
      fst (drawRewrite teachers rooms timeSlots mutationRate (0 ## 0 ## k ## r)) =
      TeacherTo (teachers ! k)"
    and "k < length rooms \<Longrightarrow>
      fst (drawRewrite teachers rooms timeSlots mutationRate (0 ## 1 ## k ## r)) =
      RoomTo (rooms ! k)"
    and "k < length timeSlots \<Longrightarrow>
      fst (drawRewrite teachers rooms timeSlots mutationRate (0 ## 2 ## k ## r)) =
      SlotTo (timeSlots ! k)"
  using assms by (simp_all add: drawRewrite_def drawn_def Float64_def)

text \<open>
  C9. Whenever \<^verbatim>\<open>mutate\<close> returns, it returns the chromosome it was given (the same
  genes in the same order), no Class object is added or removed, and every Class keeps
  its subject and its capacity; a Class that no gene of the chromosome points to is left
  as it was. If no two genes of the chromosome share a Class object, every Class ends up
  either unchanged or with exactly one of teacher, room and time slot replaced by an
  entry of the matching catalog, and with a rate of 0 (or less) the heap is unchanged.

  With non-empty catalogs and genes that point to allocated Class objects \<^verbatim>\<open>mutate\<close>
  does return, and its result is what the draws say. The genes are taken in order, each
  with draws of its own. The gene is rewritten exactly when its draw of
  \<^verbatim>\<open>rand.Float64()\<close> is below \<^verbatim>\<open>mutationRate\<close>; then its draw of \<^verbatim>\<open>rand.Intn(3)\<close> picks
  one of teacher, room and time slot, and its draw of \<^verbatim>\<open>rand.Intn\<close> of the length of
  the matching catalog picks the entry that replaces it; nothing else of the Class
  changes. If no two genes share a Class object, the Class of the gene at position \<open>i\<close>
  ends up as it was before, rewritten as the draws of gene \<open>i\<close> say.

  The numbers used are those the library calls return. A draw of \<^verbatim>\<open>rand.Float64()\<close>
  lies in \<^verbatim>\<open>[0,1)\<close>, so at a rate of 0 or less no gene is rewritten and at a rate of 1 or
  more every gene is. At a rate above 0 each entry of each of the three catalogs is what
  some draws pick.
\<close>

theorem mutate_keeps_shape:
  "(mutate chromosome teachers rooms timeSlots mutationRate s = Inr (chromosome', s') \<longrightarrow>
      chromosome' = chromosome \<and> length (heap s') = length (heap s) \<and>
      (\<forall>a<length (heap s).
         Subject (heap s' ! a) = Subject (heap s ! a) \<and>
         Class.Capacity (heap s' ! a) = Class.Capacity (heap s ! a)) \<and>
      (\<forall>a<length (heap s).
         Some a \<notin> ClassAssignment ` set (Genes chromosome) \<longrightarrow> heap s' ! a = heap s ! a) \<and>
      (distinct (map ClassAssignment (Genes chromosome)) \<longrightarrow>
         (\<forall>a<length (heap s).
            oneFieldReplaced teachers rooms timeSlots (heap s ! a) (heap s' ! a))) \<and>
      (mutationRate \<le> 0 \<longrightarrow> heap s' = heap s)) \<and>
   (teachers \<noteq> [] \<and> rooms \<noteq> [] \<and> timeSlots \<noteq> [] \<and> allocated (heap s) chromosome \<longrightarrow>
      mutate chromosome teachers rooms timeSlots mutationRate s =
        Inr (chromosome,
             \<lparr>heap = applyRewrites (Genes chromosome)
                      (rewriteOf teachers rooms timeSlots mutationRate (rand s)) 0 (heap s),
              rand = generatorAt teachers rooms timeSlots mutationRate
                       (length (Genes chromosome)) (rand s)\<rparr>) \<and>
      (distinct (map ClassAssignment (Genes chromosome)) \<longrightarrow>
         (\<forall>i<length (Genes chromosome). \<forall>a.
            ClassAssignment (Genes chromosome ! i) = Some a \<longrightarrow>
            applyRewrites (Genes chromosome)
              (rewriteOf teachers rooms timeSlots mutationRate (rand s)) 0 (heap s) ! a =
            rewritten (rewriteOf teachers rooms timeSlots mutationRate (rand s) i) (heap s ! a)))) \<and>
   Float64 r = (fst (Float64 r), stl r) \<and>
   (0 < n \<longrightarrow> Intn (int n) r = Inr (int (drawn n r), stl r)) \<and>
   (mutationRate \<le> 0 \<longrightarrow> rewriteOf teachers rooms timeSlots mutationRate r i = Unchanged) \<and>
   (1 \<le> mutationRate \<longrightarrow> rewriteOf teachers rooms timeSlots mutationRate r i \<noteq> Unchanged) \<and>
   (0 < mutationRate \<longrightarrow>
      (\<forall>k<length teachers.
         fst (drawRewrite teachers rooms timeSlots mutationRate (0 ## 0 ## k ## r)) =
         TeacherTo (teachers ! k)) \<and>
      (\<forall>k<length rooms.
         fst (drawRewrite teachers rooms timeSlots mutationRate (0 ## 1 ## k ## r)) =
         RoomTo (rooms ! k)) \<and>
      (\<forall>k<length timeSlots.
         fst (drawRewrite teachers rooms timeSlots mutationRate (0 ## 2 ## k ## r)) =
         SlotTo (timeSlots ! k)))"
proof (intro conjI impI)
  assume run: "mutate chromosome teachers rooms timeSlots mutationRate s = Inr (chromosome', s')"
  then have same: "chromosome' = chromosome"
    and loop: "mutateLoop chromosome teachers rooms timeSlots mutationRate 0 s = Inr s'"
    by (auto simp: mutate_def andThen_def split: sum.splits)
  note frame = mutateLoop_frame [OF loop order_refl]
  from same show "chromosome' = chromosome" .
  from frame show "length (heap s') = length (heap s)"
    by simp
  from frame show "\<forall>a<length (heap s).
         Subject (heap s' ! a) = Subject (heap s ! a) \<and>
         Class.Capacity (heap s' ! a) = Class.Capacity (heap s ! a)"
    by simp
  show "\<forall>a<length (heap s).
         Some a \<notin> ClassAssignment ` set (Genes chromosome) \<longrightarrow> heap s' ! a = heap s ! a"
  proof (intro allI impI)
    fix a assume a: "a < length (heap s)"
      and out: "Some a \<notin> ClassAssignment ` set (Genes chromosome)"
    have "\<forall>j. nat 0 \<le> j \<and> j < length (Genes chromosome) \<longrightarrow>
            ClassAssignment (Genes chromosome ! j) \<noteq> Some a"
    proof (intro allI impI)
      fix j assume "nat 0 \<le> j \<and> j < length (Genes chromosome)"
      then have "Genes chromosome ! j \<in> set (Genes chromosome)"
        by simp
      with out show "ClassAssignment (Genes chromosome ! j) \<noteq> Some a"
        by (metis imageI)
    qed
    with frame a show "heap s' ! a = heap s ! a"
      by blast
  qed
  show "\<forall>a<length (heap s). oneFieldReplaced teachers rooms timeSlots (heap s ! a) (heap s' ! a)"
    if "distinct (map ClassAssignment (Genes chromosome))"
    using mutateLoop_one_field [OF loop order_refl that] .
  show "heap s' = heap s" if "mutationRate \<le> 0"
    using mutateLoop_zero [OF that order_refl, of chromosome teachers rooms timeSlots s] loop
    by auto
next
  assume "teachers \<noteq> [] \<and> rooms \<noteq> [] \<and> timeSlots \<noteq> [] \<and> allocated (heap s) chromosome"
  then show "mutate chromosome teachers rooms timeSlots mutationRate s =
        Inr (chromosome,
             \<lparr>heap = applyRewrites (Genes chromosome)
                      (rewriteOf teachers rooms timeSlots mutationRate (rand s)) 0 (heap s),
              rand = generatorAt teachers rooms timeSlots mutationRate
                       (length (Genes chromosome)) (rand s)\<rparr>)"
    by (simp add: mutate_drawn)
next
  assume ok: "teachers \<noteq> [] \<and> rooms \<noteq> [] \<and> timeSlots \<noteq> [] \<and> allocated (heap s) chromosome"
    and d: "distinct (map ClassAssignment (Genes chromosome))"
  from ok have all: "\<forall>g\<in>set (Genes chromosome). \<exists>a<length (heap s). ClassAssignment g = Some a"
    by (simp add: allocated_def)
  show "\<forall>i<length (Genes chromosome). \<forall>a.
            ClassAssignment (Genes chromosome ! i) = Some a \<longrightarrow>
            applyRewrites (Genes chromosome)
              (rewriteOf teachers rooms timeSlots mutationRate (rand s)) 0 (heap s) ! a =
            rewritten (rewriteOf teachers rooms timeSlots mutationRate (rand s) i) (heap s ! a)"
    using applyRewrites_nth [OF d all, of _ _ "rewriteOf teachers rooms timeSlots mutationRate (rand s)" 0]
    by simp
next
  show "Float64 r = (fst (Float64 r), stl r)"
    by (simp add: Float64_def)
  show "Intn (int n) r = Inr (int (drawn n r), stl r)" if "0 < n"
    using that by (simp add: Intn_pos drawn_def)
  show "rewriteOf teachers rooms timeSlots mutationRate r i = Unchanged" if "mutationRate \<le> 0"
    using that by (rule rewriteOf_extremes)
  show "rewriteOf teachers rooms timeSlots mutationRate r i \<noteq> Unchanged" if "1 \<le> mutationRate"
    using that by (rule rewriteOf_extremes)
next
  assume "0 < mutationRate"
  note reach = drawRewrite_reaches [OF this]
  show "\<forall>k<length teachers.
         fst (drawRewrite teachers rooms timeSlots mutationRate (0 ## 0 ## k ## r)) =
         TeacherTo (teachers ! k)"
    by (intro allI impI) (rule reach(1))
  show "\<forall>k<length rooms.
         fst (drawRewrite teachers rooms timeSlots mutationRate (0 ## 1 ## k ## r)) =
         RoomTo (rooms ! k)"
    by (intro allI impI) (rule reach(2))
  show "\<forall>k<length timeSlots.
         fst (drawRewrite teachers rooms timeSlots mutationRate (0 ## 2 ## k ## r)) =
         SlotTo (timeSlots ! k)"
    by (intro allI impI) (rule reach(3))
qed

theorem mutate_keeps_shape_witness:
  "mutate clean sampleTeachers sampleRooms sampleSlots (1 / 2) (sampleState sampleDraws) =
     Inr (clean, \<lparr>heap = sampleHeap[3 := assigned ''Mathematics'' smith r102 mondayMorning],
                 rand = sconst 0\<rparr>) \<and>
   rewriteOf sampleTeachers sampleRooms sampleSlots (1 / 2) sampleDraws 0 = RoomTo (Some r102) \<and>
   rewriteOf sampleTeachers sampleRooms sampleSlots (1 / 2) sampleDraws 1 = Unchanged \<and>
   sampleHeap[3 := assigned ''Mathematics'' smith r102 mondayMorning] ! 3 =
     rewritten (RoomTo (Some r102)) (sampleHeap ! 3) \<and>
   sampleHeap[3 := assigned ''Mathematics'' smith r102 mondayMorning] ! 4 =
     rewritten Unchanged (sampleHeap ! 4) \<and>
   distinct (map ClassAssignment (Genes clean)) \<and>
   oneFieldReplaced sampleTeachers sampleRooms sampleSlots (sampleHeap ! 3)
     (assigned ''Mathematics'' smith r102 mondayMorning) \<and>
   heap (snd (projr (mutate clean sampleTeachers sampleRooms sampleSlots 0
     (sampleState sampleDraws)))) = sampleHeap \<and>
   rewriteOf sampleTeachers sampleRooms sampleSlots 0 sampleDraws 0 = Unchanged \<and>
   rewriteOf sampleTeachers sampleRooms sampleSlots 1 sampleDraws 1 \<noteq> Unchanged \<and>
   Intn 3 (stl sampleDraws) = Inr (1, stl (stl sampleDraws)) \<and>
   fst (drawRewrite sampleTeachers sampleRooms sampleSlots (1 / 2) (0 ## 0 ## 1 ## sconst 0)) =
     TeacherTo (Some johnson) \<and>
   fst (drawRewrite sampleTeachers sampleRooms sampleSlots (1 / 2) (0 ## 2 ## 0 ## sconst 0)) =
     SlotTo (Some mondayMorning)"
proof -
  let ?s = "sampleState sampleDraws"
  let ?s' = "\<lparr>heap = sampleHeap[3 := assigned ''Mathematics'' smith r102 mondayMorning],
              rand = sconst 0\<rparr>"
  let ?d = "rewriteOf sampleTeachers sampleRooms sampleSlots (1 / 2) sampleDraws"
  have d: "distinct (map ClassAssignment (Genes clean))"
    by (simp add: clean_def geneAt_def)
  have cat: "sampleTeachers \<noteq> [] \<and> sampleRooms \<noteq> [] \<and> sampleSlots \<noteq> [] \<and> allocated (heap ?s) clean"
    by (simp add: sampleTeachers_def sampleRooms_def sampleSlots_def allocated_def clean_def
        geneAt_def sampleState_def sampleHeap_def)
  have g1: "generatorAt sampleTeachers sampleRooms sampleSlots (1 / 2) (Suc 0) sampleDraws =
      2 ^ 52 ## sconst 0"
    by (simp add: drawRewrite_def Float64_def sampleDraws_def)
  have g2: "generatorAt sampleTeachers sampleRooms sampleSlots (1 / 2) (Suc (Suc 0)) sampleDraws =
      sconst 0"
    by (simp only: generatorAt.simps(2) [of _ _ _ _ "Suc 0"] g1) (simp add: drawRewrite_def Float64_def)
  have m: "(3::nat) mod Suc (Suc 0) = Suc 0"
    by presburger
  have d0: "?d 0 = RoomTo (Some r102)"
    by (simp add: rewriteOf_def drawRewrite_def Float64_def drawn_def sampleRooms_def m
        sampleDraws_def)
  have d1: "?d (Suc 0) = Unchanged"
    by (simp only: rewriteOf_def g1) (simp add: drawRewrite_def Float64_def)
  have genes: "Genes clean = [geneAt 3, geneAt 4]" "length (Genes clean) = Suc (Suc 0)"
    by (simp_all add: clean_def)
  have new: "sampleHeap[3 := (sampleHeap ! 3)\<lparr>Room := Some r102\<rparr>, 4 := sampleHeap ! 4] =
      sampleHeap[3 := assigned ''Mathematics'' smith r102 mondayMorning]"
    by (simp add: sampleHeap_def assigned_def)
  note shape = mutate_keeps_shape [of clean sampleTeachers sampleRooms sampleSlots "1 / 2" ?s
      clean ?s']
  note returned = mp [OF shape [THEN conjunct2, THEN conjunct1] cat]
  note drawn = returned [THEN conjunct1]
  note each = mp [OF returned [THEN conjunct2] d]
  have heap: "applyRewrites (Genes clean) ?d 0 (heap ?s) =
      sampleHeap[3 := assigned ''Mathematics'' smith r102 mondayMorning]"
    by (simp add: genes geneAt_def d0 d1 sampleState_def new)
  have rs: "rand ?s = sampleDraws"
    by (simp add: sampleState_def)
  have run: "mutate clean sampleTeachers sampleRooms sampleSlots (1 / 2) ?s = Inr (clean, ?s')"
    unfolding drawn heap genes(2) rs g2 by (rule refl)
  have at: "0 < length (Genes clean)" "ClassAssignment (Genes clean ! 0) = Some 3"
    "Suc 0 < length (Genes clean)" "ClassAssignment (Genes clean ! Suc 0) = Some 4"
    "heap ?s = sampleHeap"
    by (simp_all add: genes geneAt_def sampleState_def)
  from each [unfolded rs heap, rule_format, OF at(1,2)]
    each [unfolded rs heap, rule_format, OF at(3,4)]
  have cells: "sampleHeap[3 := assigned ''Mathematics'' smith r102 mondayMorning] ! 3 =
      rewritten (RoomTo (Some r102)) (sampleHeap ! 3)"
    "sampleHeap[3 := assigned ''Mathematics'' smith r102 mondayMorning] ! 4 =
      rewritten Unchanged (sampleHeap ! 4)"
    by (simp_all only: d0 d1 at(5))
  have three: "3 < length (heap ?s)"
    by (simp add: sampleState_def sampleHeap_def)
  note kept = mp [OF shape [THEN conjunct1] run]
  from mp [OF kept [THEN conjunct2, THEN conjunct2, THEN conjunct2, THEN conjunct2,
      THEN conjunct1] d, rule_format, OF three]
  have one: "oneFieldReplaced sampleTeachers sampleRooms sampleSlots (sampleHeap ! 3)
     (assigned ''Mathematics'' smith r102 mondayMorning)"
    by (simp add: sampleState_def sampleHeap_def)
  from mp [OF mutate_keeps_shape [of clean sampleTeachers sampleRooms sampleSlots 0 ?s,
      THEN conjunct2, THEN conjunct1] cat, THEN conjunct1]
  obtain s1 where run0: "mutate clean sampleTeachers sampleRooms sampleSlots 0 ?s = Inr (clean, s1)"
    by blast
  from mp [OF mutate_keeps_shape [of clean sampleTeachers sampleRooms sampleSlots 0 ?s clean s1,
      THEN conjunct1] run0]
  have "heap s1 = heap ?s"
    by simp
  with run0 have zero: "heap (snd (projr (mutate clean sampleTeachers sampleRooms sampleSlots 0 ?s))) =
      sampleHeap"
    by (simp add: sampleState_def)
  have d1': "?d 1 = Unchanged"
    using d1 by simp
  note never = mutate_keeps_shape [of clean sampleTeachers sampleRooms sampleSlots 0 ?s clean ?s
      sampleDraws 3 0, THEN conjunct2, THEN conjunct2, THEN conjunct2, THEN conjunct2,
      THEN conjunct1, THEN mp, OF order_refl]
  note always = mutate_keeps_shape [of clean sampleTeachers sampleRooms sampleSlots 1 ?s clean ?s
      sampleDraws 3 1, THEN conjunct2, THEN conjunct2, THEN conjunct2, THEN conjunct2,
      THEN conjunct2, THEN conjunct1, THEN mp, OF order_refl]
  have pos: "(0::nat) < 3" "(0::real) < 1 / 2"
    by simp_all
  note three = mutate_keeps_shape [of clean sampleTeachers sampleRooms sampleSlots "1 / 2" ?s
      clean ?s "stl sampleDraws" 3 0, THEN conjunct2, THEN conjunct2, THEN conjunct2,
      THEN conjunct1, THEN mp, OF pos(1)]
  note reach = mutate_keeps_shape [of clean sampleTeachers sampleRooms sampleSlots "1 / 2" ?s
      clean ?s "sconst 0" 3 0, THEN conjunct2, THEN conjunct2, THEN conjunct2, THEN conjunct2,
      THEN conjunct2, THEN conjunct2, THEN mp, OF pos(2)]
  have len: "1 < length sampleTeachers" "0 < length sampleSlots"
    by (simp_all add: sampleTeachers_def sampleSlots_def)
  from three have picked: "Intn 3 (stl sampleDraws) = Inr (1, stl (stl sampleDraws))"
    by (simp add: drawn_def sampleDraws_def)
  from reach [THEN conjunct1, rule_format, OF len(1)]
  have teacher: "fst (drawRewrite sampleTeachers sampleRooms sampleSlots (1 / 2)
      (0 ## 0 ## 1 ## sconst 0)) = TeacherTo (Some johnson)"
    by (simp add: sampleTeachers_def)
  from reach [THEN conjunct2, THEN conjunct2, rule_format, OF len(2)]
  have slot: "fst (drawRewrite sampleTeachers sampleRooms sampleSlots (1 / 2)
      (0 ## 2 ## 0 ## sconst 0)) = SlotTo (Some mondayMorning)"
    by (simp add: sampleSlots_def)
  from run d0 d1' cells d one zero never always picked teacher slot show ?thesis
    by (intro conjI)
qed

section \<open>Parents and children share their Class objects\<close>

text \<open>
  \<^verbatim>\<open>crossover\<close> appends \<^verbatim>\<open>parent1.Genes[i]\<close> to the child: a copy of the \<^verbatim>\<open>Gene\<close>
  struct, which is a copy of the pointer. No Class object is allocated.
\<close>

lemma crossover_shares_genes:
  assumes "crossover parent1 parent2 s = Inr (child, s')"
    and "length (Genes parent2) = length (Genes parent1)"
  shows "heap s' = heap s" and "set (Genes child) \<subseteq> set (Genes parent1) \<union> set (Genes parent2)"
proof -
  from assms(1) have ne: "Genes parent1 \<noteq> []"
    by (auto simp: crossover_def Intn_def andThen_def split: if_splits)
  from assms(1) crossover_eq [OF assms(2) ne, of s]
  have child: "child = \<lparr>Genes = take (shd (rand s) mod length (Genes parent1)) (Genes parent1) @
                          drop (shd (rand s) mod length (Genes parent1)) (Genes parent2)\<rparr>"
    and s': "s' = s\<lparr>rand := stl (rand s)\<rparr>"
    by simp_all
  from s' show "heap s' = heap s" by simp
  from child show "set (Genes child) \<subseteq> set (Genes parent1) \<union> set (Genes parent2)"
    by (auto dest: in_set_takeD in_set_dropD)
qed

text \<open>
  C3 fails on the code. The parents \<open>clashingPair\<close> and \<open>clean\<close> own the Class objects
  0, 1 and 3, 4. Their child, cut at 1, points to the objects 0 and 4. Mutating the child
  at rate 1 replaces the teacher of object 0 and the room of object 4: the first gene of
  one parent and the second gene of the other have changed, and with them the score of a
  parent that nobody mutated.
\<close>

theorem mutating_child_changes_parents:
  "crossover clashingPair clean (sampleState (1 ## 0 ## 0 ## 1 ## 0 ## 1 ## 0 ## sconst 0)) =
     Inr (mixedChild, sampleState (0 ## 0 ## 1 ## 0 ## 1 ## 0 ## sconst 0)) \<and>
   mutate mixedChild sampleTeachers sampleRooms sampleSlots 1
       (sampleState (0 ## 0 ## 1 ## 0 ## 1 ## 0 ## sconst 0)) =
     Inr (mixedChild,
          \<lparr>heap = sampleHeap[0 := assigned ''Mathematics'' johnson r101 mondayMorning,
                             4 := assigned ''History'' johnson r101 tuesdayAfternoon],
           rand = sconst 0\<rparr>) \<and>
   load sampleHeap (ClassAssignment (Genes clashingPair ! 0)) =
     Inr (assigned ''Mathematics'' smith r101 mondayMorning) \<and>
   load (sampleHeap[0 := assigned ''Mathematics'' johnson r101 mondayMorning,
                    4 := assigned ''History'' johnson r101 tuesdayAfternoon])
        (ClassAssignment (Genes clashingPair ! 0)) =
     Inr (assigned ''Mathematics'' johnson r101 mondayMorning) \<and>
   load sampleHeap (ClassAssignment (Genes clean ! 1)) =
     Inr (assigned ''History'' johnson r102 tuesdayAfternoon) \<and>
   load (sampleHeap[0 := assigned ''Mathematics'' johnson r101 mondayMorning,
                    4 := assigned ''History'' johnson r101 tuesdayAfternoon])
        (ClassAssignment (Genes clean ! 1)) =
     Inr (assigned ''History'' johnson r101 tuesdayAfternoon) \<and>
   calculateFitness weightsMain sampleHeap clashingPair [] = Inr (- 22) \<and>
   calculateFitness weightsMain
     (sampleHeap[0 := assigned ''Mathematics'' johnson r101 mondayMorning,
                 4 := assigned ''History'' johnson r101 tuesdayAfternoon]) clashingPair [] =
     Inr (- 4)"
proof (intro conjI)
  have "length (Genes clean) = length (Genes clashingPair)" "Genes clashingPair \<noteq> []"
    by (simp_all add: clean_def clashingPair_def)
  from crossover_eq [OF this]
  show "crossover clashingPair clean (sampleState (1 ## 0 ## 0 ## 1 ## 0 ## 1 ## 0 ## sconst 0)) =
     Inr (mixedChild, sampleState (0 ## 0 ## 1 ## 0 ## 1 ## 0 ## sconst 0))"
    by (simp add: clean_def clashingPair_def mixedChild_def sampleState_def)
  show "mutate mixedChild sampleTeachers sampleRooms sampleSlots 1
       (sampleState (0 ## 0 ## 1 ## 0 ## 1 ## 0 ## sconst 0)) =
     Inr (mixedChild,
          \<lparr>heap = sampleHeap[0 := assigned ''Mathematics'' johnson r101 mondayMorning,
                             4 := assigned ''History'' johnson r101 tuesdayAfternoon],
           rand = sconst 0\<rparr>)"
    by (simp add: mutate_def mutateLoop.simps mutateGene_def Float64_def Intn_def index_def
        store_def andThen_def sampleState_def mixedChild_def geneAt_def sampleHeap_def
        assigned_def sampleTeachers_def sampleRooms_def sampleSlots_def)
  show "load sampleHeap (ClassAssignment (Genes clashingPair ! 0)) =
     Inr (assigned ''Mathematics'' smith r101 mondayMorning)"
    by (simp add: load_def clashingPair_def geneAt_def sampleHeap_def)
  show "load (sampleHeap[0 := assigned ''Mathematics'' johnson r101 mondayMorning,
                    4 := assigned ''History'' johnson r101 tuesdayAfternoon])
        (ClassAssignment (Genes clashingPair ! 0)) =
     Inr (assigned ''Mathematics'' johnson r101 mondayMorning)"
    by (simp add: load_def clashingPair_def geneAt_def sampleHeap_def)
  show "load sampleHeap (ClassAssignment (Genes clean ! 1)) =
     Inr (assigned ''History'' johnson r102 tuesdayAfternoon)"
    by (simp add: load_def clean_def geneAt_def sampleHeap_def)
  show "load (sampleHeap[0 := assigned ''Mathematics'' johnson r101 mondayMorning,
                    4 := assigned ''History'' johnson r101 tuesdayAfternoon])
        (ClassAssignment (Genes clean ! 1)) =
     Inr (assigned ''History'' johnson r101 tuesdayAfternoon)"
    by (simp add: load_def clean_def geneAt_def sampleHeap_def)
  have "structurallyValid sampleHeap clashingPair"
    by (simp add: sample_defs clashingPair_def score_defs)
  then show "calculateFitness weightsMain sampleHeap clashingPair [] = Inr (- 22)"
    by (simp add: calculateFitness_valid penaltySum_def sample_defs clashingPair_def score_defs)
  have "structurallyValid
     (sampleHeap[0 := assigned ''Mathematics'' johnson r101 mondayMorning,
                 4 := assigned ''History'' johnson r101 tuesdayAfternoon]) clashingPair"
    by (simp add: sample_defs clashingPair_def score_defs)
  then show "calculateFitness weightsMain
     (sampleHeap[0 := assigned ''Mathematics'' johnson r101 mondayMorning,
                 4 := assigned ''History'' johnson r101 tuesdayAfternoon]) clashingPair [] =
     Inr (- 4)"
    by (simp add: calculateFitness_valid penaltySum_def sample_defs clashingPair_def score_defs)
qed

section \<open>A whole generation\<close>

lemma generationLoop_step:
  assumes "i < populationSize"
    and "generationLoop w population tournamentSize populationSize classes teachers rooms
           timeSlots mutationRate i newGeneration s = Inr (p, s')"
  shows "\<exists>parent1 s1 parent2 s2 child1 s3 child2 s4 m1 s5 m2 s6.
           TournamentSelection w population tournamentSize classes s = Inr (parent1, s1) \<and>
           TournamentSelection w population tournamentSize classes s1 = Inr (parent2, s2) \<and>
           crossover parent1 parent2 s2 = Inr (child1, s3) \<and>
           crossover parent2 parent1 s3 = Inr (child2, s4) \<and>
           mutate child1 teachers rooms timeSlots mutationRate s4 = Inr (m1, s5) \<and>
           mutate child2 teachers rooms timeSlots mutationRate s5 = Inr (m2, s6) \<and>
           generationLoop w population tournamentSize populationSize classes teachers rooms
             timeSlots mutationRate (i + 2) (appendChildren newGeneration populationSize m1 m2) s6 =
             Inr (p, s')"
proof -
  note eq = assms(2) [unfolded generationLoop.simps
      [of w population tournamentSize populationSize classes teachers rooms timeSlots
          mutationRate i newGeneration s]]
  from eq assms(1) obtain parent1 s1 where
    a: "TournamentSelection w population tournamentSize classes s = Inr (parent1, s1)"
    by (auto simp: andThen_def split: sum.splits)
  from eq assms(1) a obtain parent2 s2 where
    b: "TournamentSelection w population tournamentSize classes s1 = Inr (parent2, s2)"
    by (auto simp: andThen_def split: sum.splits)
  from eq assms(1) a b obtain child1 s3 where
    c: "crossover parent1 parent2 s2 = Inr (child1, s3)"
    by (auto simp: andThen_def split: sum.splits)
  from eq assms(1) a b c obtain child2 s4 where
    d: "crossover parent2 parent1 s3 = Inr (child2, s4)"
    by (auto simp: andThen_def split: sum.splits)
  from eq assms(1) a b c d obtain m1 s5 where
    e: "mutate child1 teachers rooms timeSlots mutationRate s4 = Inr (m1, s5)"
    by (auto simp: andThen_def split: sum.splits)
  from eq assms(1) a b c d e obtain m2 s6 where
    f: "mutate child2 teachers rooms timeSlots mutationRate s5 = Inr (m2, s6)"
    by (auto simp: andThen_def split: sum.splits)
  from eq assms(1) a b c d e f have
    "generationLoop w population tournamentSize populationSize classes teachers rooms
       timeSlots mutationRate (i + 2) (appendChildren newGeneration populationSize m1 m2) s6 =
       Inr (p, s')"
    by (simp add: andThen_def)
  with a b c d e f show ?thesis
    by blast
qed

lemma generationLoop_unfold:
  assumes "i < populationSize"
    and "TournamentSelection w population tournamentSize classes s = Inr (parent1, s1)"
    and "TournamentSelection w population tournamentSize classes s1 = Inr (parent2, s2)"
    and "crossover parent1 parent2 s2 = Inr (child1, s3)"
    and "crossover parent2 parent1 s3 = Inr (child2, s4)"
    and "mutate child1 teachers rooms timeSlots mutationRate s4 = Inr (m1, s5)"
    and "mutate child2 teachers rooms timeSlots mutationRate s5 = Inr (m2, s6)"
  shows "generationLoop w population tournamentSize populationSize classes teachers rooms
           timeSlots mutationRate i newGeneration s =
         generationLoop w population tournamentSize populationSize classes teachers rooms
           timeSlots mutationRate (i + 2) (appendChildren newGeneration populationSize m1 m2) s6"
  using assms by (subst generationLoop.simps) (simp add: andThen_def)

lemma generationLoop_done:
  "\<not> i < populationSize \<Longrightarrow>
   generationLoop w population tournamentSize populationSize classes teachers rooms
     timeSlots mutationRate i newGeneration s = Inr (newGeneration, s)"
  by (subst generationLoop.simps) simp

lemma length_appendChildren:
  "int (length (Timetables newGeneration)) = min i populationSize \<Longrightarrow> i < populationSize \<Longrightarrow>
   int (length (Timetables (appendChildren newGeneration populationSize m1 m2))) =
     min (i + 2) populationSize"
  by (auto simp: appendChildren_def Let_def min_def)

lemma generationLoop_length:
  "generationLoop w population tournamentSize populationSize classes teachers rooms timeSlots
     mutationRate i newGeneration s = Inr (p, s') \<Longrightarrow>
   0 \<le> i \<Longrightarrow> int (length (Timetables newGeneration)) = min i populationSize \<Longrightarrow>
   int (length (Timetables p)) = populationSize"
proof (induction w population tournamentSize populationSize classes teachers rooms timeSlots
         mutationRate i newGeneration s rule: generationLoop.induct)
  case (1 w population tournamentSize populationSize classes teachers rooms timeSlots
          mutationRate i newGeneration s)
  show ?case
  proof (cases "i < populationSize")
    case False
    with 1(2,4) show ?thesis
      by (simp add: generationLoop_done)
  next
    case True
    from generationLoop_step [OF True 1(2)] obtain m1 m2 s6 where
      loop: "generationLoop w population tournamentSize populationSize classes teachers rooms
               timeSlots mutationRate (i + 2)
               (appendChildren newGeneration populationSize m1 m2) s6 = Inr (p, s')"
      by blast
    from 1(3) have "0 \<le> i + 2" by simp
    from 1(1) [OF True loop this length_appendChildren [OF 1(4) True]] show ?thesis .
  qed
qed

lemma oneFieldReplaced_valid:
  assumes "oneFieldReplaced teachers rooms timeSlots c c'"
    and "None \<notin> set teachers" "None \<notin> set rooms" "None \<notin> set timeSlots"
    and "Teacher c \<noteq> None \<and> Room c \<noteq> None \<and> TimeSlot c \<noteq> None"
  shows "Teacher c' \<noteq> None \<and> Room c' \<noteq> None \<and> TimeSlot c' \<noteq> None"
proof -
  have some: "x \<noteq> None" if "x \<in> set xs" "None \<notin> set xs" for x :: "'a option" and xs
  proof
    assume "x = None"
    with that show False by simp
  qed
  from assms show ?thesis
    unfolding oneFieldReplaced_def by (elim disjE bexE) (simp_all add: some)
qed

lemma mutateGene_valid:
  assumes step: "mutateGene chromosome teachers rooms timeSlots mutationRate i s = Inr s1"
    and cat: "None \<notin> set teachers" "None \<notin> set rooms" "None \<notin> set timeSlots"
    and g: "validGene (heap s) g"
  shows "validGene (heap s1) g"
proof -
  from g obtain a where a: "ClassAssignment g = Some a" "a < length (heap s)"
    "Teacher (heap s ! a) \<noteq> None \<and> Room (heap s ! a) \<noteq> None \<and> TimeSlot (heap s ! a) \<noteq> None"
    by (auto simp: validGene_def split: option.splits)
  from oneFieldReplaced_valid [OF mutateGene_step(2) [OF step a(2)] cat a(3)]
    mutateGene_step(1) [OF step] a(1,2)
  show ?thesis
    by (simp add: validGene_def)
qed

lemma mutateLoop_valid:
  "mutateLoop chromosome teachers rooms timeSlots mutationRate i s = Inr s' \<Longrightarrow>
   None \<notin> set teachers \<Longrightarrow> None \<notin> set rooms \<Longrightarrow> None \<notin> set timeSlots \<Longrightarrow>
   validGene (heap s) g \<Longrightarrow> validGene (heap s') g"
proof (induction chromosome teachers rooms timeSlots mutationRate i s rule: mutateLoop.induct)
  case (1 chromosome teachers rooms timeSlots mutationRate i s)
  show ?case
  proof (cases "i < int (length (Genes chromosome))")
    case False
    with 1(2,6) show ?thesis
      by (subst (asm) mutateLoop.simps) auto
  next
    case True
    with 1(2) obtain s1 where
      step: "mutateGene chromosome teachers rooms timeSlots mutationRate i s = Inr s1" and
      loop: "mutateLoop chromosome teachers rooms timeSlots mutationRate (i + 1) s1 = Inr s'"
      by (subst (asm) mutateLoop.simps) (auto simp: andThen_def split: sum.splits)
    from mutateGene_valid [OF step 1(3,4,5,6)] have "validGene (heap s1) g" .
    from 1(1) [OF True loop 1(3,4,5) this] show ?thesis .
  qed
qed

lemma validGene_allocated: "structurallyValid h c \<Longrightarrow> allocated h c"
  by (auto simp: structurallyValid_def allocated_def validGene_def list_all_iff
      split: option.splits)

lemma structurallyValid_mono:
  "\<forall>g. validGene h g \<longrightarrow> validGene h' g \<Longrightarrow> structurallyValid h c \<Longrightarrow> structurallyValid h' c"
  by (auto simp: structurallyValid_def list_all_iff)

lemma mutate_returns_valid:
  assumes cat: "catalogsUsable teachers rooms timeSlots" and c: "structurallyValid (heap s) c"
  shows "\<exists>s'. mutate c teachers rooms timeSlots mutationRate s = Inr (c, s') \<and>
              (\<forall>g. validGene (heap s) g \<longrightarrow> validGene (heap s') g)"
proof -
  from cat have ne: "teachers \<noteq> []" "rooms \<noteq> []" "timeSlots \<noteq> []"
    and nn: "None \<notin> set teachers" "None \<notin> set rooms" "None \<notin> set timeSlots"
    by (simp_all add: catalogsUsable_def)
  from mutateLoop_returns [OF ne validGene_allocated [OF c] order_refl, of mutationRate]
  obtain s' where loop: "mutateLoop c teachers rooms timeSlots mutationRate 0 s = Inr s'"
    by blast
  then have "mutate c teachers rooms timeSlots mutationRate s = Inr (c, s')"
    by (simp add: mutate_def andThen_def)
  moreover have "\<forall>g. validGene (heap s) g \<longrightarrow> validGene (heap s') g"
    using mutateLoop_valid [OF loop nn] by blast
  ultimately show ?thesis
    by blast
qed

lemma TournamentSelection_returns:
  assumes "1 \<le> tournamentSize" and wf: "wellFormed (heap s) population n"
  shows "\<exists>c r. TournamentSelection w population tournamentSize classes s = Inr (c, s\<lparr>rand := r\<rparr>) \<and>
               c \<in> set (Timetables population)"
proof -
  from wf have ne: "Timetables population \<noteq> []"
    by (simp add: wellFormed_def)
  have "\<forall>k<length (Timetables population).
          calculateFitness w (heap s) (Timetables population ! k) classes =
            Inr (- penaltySum w (heap s) (Genes (Timetables population ! k)))"
    using wf by (simp add: wellFormed_def calculateFitness_valid)
  from TournamentSelection_result [OF assms(1) ne this]
  obtain b where "TournamentSelection w population tournamentSize classes s =
        Inr (Timetables population ! sampled population (rand s) b,
             s\<lparr>rand := sdrop (nat tournamentSize) (rand s)\<rparr>)"
    by blast
  moreover have "Timetables population ! sampled population (rand s) b \<in> set (Timetables population)"
    using sampled_less [OF ne] by simp
  ultimately show ?thesis
    by blast
qed

lemma crossover_returns_valid:
  assumes "length (Genes p1) = n" "length (Genes p2) = n" "0 < n"
    and "structurallyValid (heap s) p1" "structurallyValid (heap s) p2"
  shows "\<exists>child. crossover p1 p2 s = Inr (child, s\<lparr>rand := stl (rand s)\<rparr>) \<and>
                 length (Genes child) = n \<and> structurallyValid (heap s) child"
proof -
  let ?c = "shd (rand s) mod length (Genes p1)"
  let ?child = "\<lparr>Genes = take ?c (Genes p1) @ drop ?c (Genes p2)\<rparr>"
  from assms have len: "length (Genes p2) = length (Genes p1)" and ne: "Genes p1 \<noteq> []"
    by auto
  have "crossover p1 p2 s = Inr (?child, s\<lparr>rand := stl (rand s)\<rparr>)"
    by (rule crossover_eq [OF len ne])
  moreover have "length (Genes ?child) = n"
    using assms(1,2,3) by simp
  moreover have "structurallyValid (heap s) ?child"
    using assms(4,5)
    by (auto simp: structurallyValid_def list_all_iff dest: in_set_takeD in_set_dropD)
  ultimately show ?thesis
    by blast
qed

lemma set_appendChildren:
  "set (Timetables (appendChildren newGeneration populationSize m1 m2)) \<subseteq>
     set (Timetables newGeneration) \<union> {m1, m2}"
  by (auto simp: appendChildren_def Let_def)

lemma generationLoop_returns:
  "1 \<le> tournamentSize \<Longrightarrow> catalogsUsable teachers rooms timeSlots \<Longrightarrow>
   wellFormed (heap s) population n \<Longrightarrow>
   \<forall>c\<in>set (Timetables newGeneration). length (Genes c) = n \<and> structurallyValid (heap s) c \<Longrightarrow>
   \<exists>p s'. generationLoop w population tournamentSize populationSize classes teachers rooms
            timeSlots mutationRate i newGeneration s = Inr (p, s') \<and>
          (\<forall>g. validGene (heap s) g \<longrightarrow> validGene (heap s') g) \<and>
          (\<forall>c\<in>set (Timetables p). length (Genes c) = n \<and> structurallyValid (heap s') c)"
proof (induction w population tournamentSize populationSize classes teachers rooms timeSlots
         mutationRate i newGeneration s rule: generationLoop.induct)
  case (1 w population tournamentSize populationSize classes teachers rooms timeSlots
          mutationRate i newGeneration s)
  show ?case
  proof (cases "i < populationSize")
    case False
    with 1(5) show ?thesis
      by (simp add: generationLoop_done)
  next
    case True
    from 1(4) have n: "0 < n"
      and members: "\<forall>c\<in>set (Timetables population). length (Genes c) = n \<and> structurallyValid (heap s) c"
      by (simp_all add: wellFormed_def)
    from TournamentSelection_returns [OF 1(2,4)] obtain parent1 r1 where
      a: "TournamentSelection w population tournamentSize classes s = Inr (parent1, s\<lparr>rand := r1\<rparr>)"
      and p1: "parent1 \<in> set (Timetables population)"
      by blast
    let ?s1 = "s\<lparr>rand := r1\<rparr>"
    from 1(4) have wf1: "wellFormed (heap ?s1) population n" by simp
    from TournamentSelection_returns [OF 1(2) wf1] obtain parent2 r2 where
      b: "TournamentSelection w population tournamentSize classes ?s1 = Inr (parent2, ?s1\<lparr>rand := r2\<rparr>)"
      and p2: "parent2 \<in> set (Timetables population)"
      by blast
    let ?s2 = "?s1\<lparr>rand := r2\<rparr>"
    from members p1 p2 have par:
      "length (Genes parent1) = n" "length (Genes parent2) = n"
      "structurallyValid (heap ?s2) parent1" "structurallyValid (heap ?s2) parent2"
      by simp_all
    from crossover_returns_valid [OF par(1,2) n par(3,4)] obtain child1 where
      c: "crossover parent1 parent2 ?s2 = Inr (child1, ?s2\<lparr>rand := stl (rand ?s2)\<rparr>)"
      and c1: "length (Genes child1) = n" "structurallyValid (heap ?s2) child1"
      by blast
    let ?s3 = "?s2\<lparr>rand := stl (rand ?s2)\<rparr>"
    from par have par3: "structurallyValid (heap ?s3) parent2" "structurallyValid (heap ?s3) parent1"
      by simp_all
    from crossover_returns_valid [OF par(2,1) n par3] obtain child2 where
      d: "crossover parent2 parent1 ?s3 = Inr (child2, ?s3\<lparr>rand := stl (rand ?s3)\<rparr>)"
      and c2: "length (Genes child2) = n" "structurallyValid (heap ?s3) child2"
      by blast
    let ?s4 = "?s3\<lparr>rand := stl (rand ?s3)\<rparr>"
    from c1 have "structurallyValid (heap ?s4) child1" by simp
    from mutate_returns_valid [OF 1(3) this, of mutationRate] obtain s5 where
      e: "mutate child1 teachers rooms timeSlots mutationRate ?s4 = Inr (child1, s5)"
      and v5: "\<forall>g. validGene (heap ?s4) g \<longrightarrow> validGene (heap s5) g"
      by blast
    from c2 have "structurallyValid (heap ?s4) child2" by simp
    with v5 have "structurallyValid (heap s5) child2"
      by (rule structurallyValid_mono)
    from mutate_returns_valid [OF 1(3) this, of mutationRate] obtain s6 where
      f: "mutate child2 teachers rooms timeSlots mutationRate s5 = Inr (child2, s6)"
      and v6: "\<forall>g. validGene (heap s5) g \<longrightarrow> validGene (heap s6) g"
      by blast
    from v5 v6 have v: "\<forall>g. validGene (heap s) g \<longrightarrow> validGene (heap s6) g"
      by simp
    have wf6: "wellFormed (heap s6) population n"
      using 1(4) v by (auto simp: wellFormed_def intro: structurallyValid_mono)
    have kids: "structurallyValid (heap s6) child1" "structurallyValid (heap s6) child2"
      using c1(2) c2(2) v by (auto intro: structurallyValid_mono)
    have new: "\<forall>c\<in>set (Timetables (appendChildren newGeneration populationSize child1 child2)).
                 length (Genes c) = n \<and> structurallyValid (heap s6) c"
    proof
      fix c assume "c \<in> set (Timetables (appendChildren newGeneration populationSize child1 child2))"
      with set_appendChildren have "c \<in> set (Timetables newGeneration) \<or> c = child1 \<or> c = child2"
        by blast
      with 1(5) c1(1) c2(1) kids v show "length (Genes c) = n \<and> structurallyValid (heap s6) c"
        by (auto intro: structurallyValid_mono)
    qed
    from 1(1) [OF True 1(2,3) wf6 new] obtain p s' where
      loop: "generationLoop w population tournamentSize populationSize classes teachers rooms
               timeSlots mutationRate (i + 2)
               (appendChildren newGeneration populationSize child1 child2) s6 = Inr (p, s')"
      and v': "\<forall>g. validGene (heap s6) g \<longrightarrow> validGene (heap s') g"
      and p: "\<forall>c\<in>set (Timetables p). length (Genes c) = n \<and> structurallyValid (heap s') c"
      by blast
    from generationLoop_unfold [OF True a b c d e f] loop
    have "generationLoop w population tournamentSize populationSize classes teachers rooms
            timeSlots mutationRate i newGeneration s = Inr (p, s')"
      by simp
    moreover from v v' have "\<forall>g. validGene (heap s) g \<longrightarrow> validGene (heap s') g"
      by simp
    ultimately show ?thesis
      using p by blast
  qed
qed

text \<open>
  C6. Whenever \<^verbatim>\<open>CreateNewGeneration\<close> returns for a \<^verbatim>\<open>populationSize\<close> that is not
  negative, the population it returns has exactly \<^verbatim>\<open>populationSize\<close> chromosomes. It
  does return for a well-formed population, \<^verbatim>\<open>populationSize >= 1\<close>,
  \<^verbatim>\<open>tournamentSize >= 1\<close> and usable catalogs, and the new population is well formed
  again. An iteration that starts one short of \<^verbatim>\<open>populationSize\<close>, the last one of an
  odd size, selects, crosses and mutates two children and appends only the first.
\<close>

theorem CreateNewGeneration_size:
  "(CreateNewGeneration w population tournamentSize populationSize classes teachers rooms
      timeSlots mutationRate s = Inr (p, s') \<and> 0 \<le> populationSize \<longrightarrow>
    int (length (Timetables p)) = populationSize) \<and>
   (1 \<le> populationSize \<and> 1 \<le> tournamentSize \<and> catalogsUsable teachers rooms timeSlots \<and>
    wellFormed (heap s) population n \<longrightarrow>
    (\<exists>p1 s1. CreateNewGeneration w population tournamentSize populationSize classes teachers
                rooms timeSlots mutationRate s = Inr (p1, s1) \<and>
             int (length (Timetables p1)) = populationSize \<and> wellFormed (heap s1) p1 n)) \<and>
   (i + 1 = populationSize \<and> int (length (Timetables newGeneration)) = i \<and>
    generationLoop w population tournamentSize populationSize classes teachers rooms timeSlots
      mutationRate i newGeneration s = Inr (p, s') \<longrightarrow>
    (\<exists>parent1 s1 parent2 s2 child1 s3 child2 s4 m1 s5 m2.
       TournamentSelection w population tournamentSize classes s = Inr (parent1, s1) \<and>
       TournamentSelection w population tournamentSize classes s1 = Inr (parent2, s2) \<and>
       crossover parent1 parent2 s2 = Inr (child1, s3) \<and>
       crossover parent2 parent1 s3 = Inr (child2, s4) \<and>
       mutate child1 teachers rooms timeSlots mutationRate s4 = Inr (m1, s5) \<and>
       mutate child2 teachers rooms timeSlots mutationRate s5 = Inr (m2, s') \<and>
       Timetables p = Timetables newGeneration @ [m1]))"
proof (intro conjI impI)
  assume "CreateNewGeneration w population tournamentSize populationSize classes teachers rooms
      timeSlots mutationRate s = Inr (p, s') \<and> 0 \<le> populationSize"
  then show "int (length (Timetables p)) = populationSize"
    using generationLoop_length
      [of w population tournamentSize populationSize classes teachers rooms timeSlots
          mutationRate 0 "\<lparr>Timetables = []\<rparr>" s p s']
    by (simp add: CreateNewGeneration_def)
next
  assume a: "1 \<le> populationSize \<and> 1 \<le> tournamentSize \<and> catalogsUsable teachers rooms timeSlots \<and>
    wellFormed (heap s) population n"
  then have "\<forall>c\<in>set (Timetables \<lparr>Timetables = []\<rparr>).
               length (Genes c) = n \<and> structurallyValid (heap s) c"
    by simp
  with a generationLoop_returns
      [of tournamentSize teachers rooms timeSlots s population n "\<lparr>Timetables = []\<rparr>"
          w populationSize classes mutationRate 0]
  obtain p1 s1 where
    run: "CreateNewGeneration w population tournamentSize populationSize classes teachers
            rooms timeSlots mutationRate s = Inr (p1, s1)"
    and members: "\<forall>c\<in>set (Timetables p1). length (Genes c) = n \<and> structurallyValid (heap s1) c"
    by (auto simp: CreateNewGeneration_def)
  from run a have len: "int (length (Timetables p1)) = populationSize"
    using generationLoop_length
      [of w population tournamentSize populationSize classes teachers rooms timeSlots
          mutationRate 0 "\<lparr>Timetables = []\<rparr>" s p1 s1]
    by (simp add: CreateNewGeneration_def)
  with a have "Timetables p1 \<noteq> []"
    by auto
  with a members have "wellFormed (heap s1) p1 n"
    by (simp add: wellFormed_def)
  with run len show "\<exists>p1 s1. CreateNewGeneration w population tournamentSize populationSize
        classes teachers rooms timeSlots mutationRate s = Inr (p1, s1) \<and>
      int (length (Timetables p1)) = populationSize \<and> wellFormed (heap s1) p1 n"
    by blast
next
  assume a: "i + 1 = populationSize \<and> int (length (Timetables newGeneration)) = i \<and>
    generationLoop w population tournamentSize populationSize classes teachers rooms timeSlots
      mutationRate i newGeneration s = Inr (p, s')"
  then have less: "i < populationSize" and stop: "\<not> i + 2 < populationSize"
    by simp_all
  from a have run: "generationLoop w population tournamentSize populationSize classes teachers
      rooms timeSlots mutationRate i newGeneration s = Inr (p, s')"
    by simp
  from generationLoop_step [OF less run]
  obtain parent1 s1 parent2 s2 child1 s3 child2 s4 m1 s5 m2 s6 where
    steps: "TournamentSelection w population tournamentSize classes s = Inr (parent1, s1)"
      "TournamentSelection w population tournamentSize classes s1 = Inr (parent2, s2)"
      "crossover parent1 parent2 s2 = Inr (child1, s3)"
      "crossover parent2 parent1 s3 = Inr (child2, s4)"
      "mutate child1 teachers rooms timeSlots mutationRate s4 = Inr (m1, s5)"
      "mutate child2 teachers rooms timeSlots mutationRate s5 = Inr (m2, s6)"
    and loop: "generationLoop w population tournamentSize populationSize classes teachers rooms
        timeSlots mutationRate (i + 2) (appendChildren newGeneration populationSize m1 m2) s6 =
        Inr (p, s')"
    by blast
  from loop stop have "p = appendChildren newGeneration populationSize m1 m2" "s' = s6"
    by (simp_all add: generationLoop_done)
  with a have "Timetables p = Timetables newGeneration @ [m1]" "s6 = s'"
    by (auto simp: appendChildren_def Let_def)
  with steps show "\<exists>parent1 s1 parent2 s2 child1 s3 child2 s4 m1 s5 m2.
       TournamentSelection w population tournamentSize classes s = Inr (parent1, s1) \<and>
       TournamentSelection w population tournamentSize classes s1 = Inr (parent2, s2) \<and>
       crossover parent1 parent2 s2 = Inr (child1, s3) \<and>
       crossover parent2 parent1 s3 = Inr (child2, s4) \<and>
       mutate child1 teachers rooms timeSlots mutationRate s4 = Inr (m1, s5) \<and>
       mutate child2 teachers rooms timeSlots mutationRate s5 = Inr (m2, s') \<and>
       Timetables p = Timetables newGeneration @ [m1]"
    by blast
qed

lemma sample_wellFormed:
  "wellFormed sampleHeap uniformPopulation 2"
  "catalogsUsable sampleTeachers sampleRooms sampleSlots"
  by (simp_all add: wellFormed_def catalogsUsable_def uniformPopulation_def sample_defs
      cleanToo_def score_defs sampleTeachers_def sampleRooms_def sampleSlots_def)

theorem CreateNewGeneration_size_witness:
  "wellFormed sampleHeap uniformPopulation 2 \<and>
   catalogsUsable sampleTeachers sampleRooms sampleSlots \<and>
   \<not> isl (CreateNewGeneration weightsMain uniformPopulation 2 3 [] sampleTeachers sampleRooms
            sampleSlots (1 / 20) (sampleState (sconst 0))) \<and>
   length (Timetables (fst (projr
     (CreateNewGeneration weightsMain uniformPopulation 2 3 [] sampleTeachers sampleRooms
        sampleSlots (1 / 20) (sampleState (sconst 0)))))) = 3"
proof -
  let ?run = "CreateNewGeneration weightsMain uniformPopulation 2 3 [] sampleTeachers sampleRooms
       sampleSlots (1 / 20) (sampleState (sconst 0))"
  have pre: "1 \<le> (3::int) \<and> 1 \<le> (2::int) \<and> catalogsUsable sampleTeachers sampleRooms sampleSlots \<and>
    wellFormed (heap (sampleState (sconst 0))) uniformPopulation 2"
    by (simp add: sampleState_def sample_wellFormed)
  note second = conjunct1 [OF conjunct2 [OF CreateNewGeneration_size
    [of weightsMain uniformPopulation 2 3 "[]" sampleTeachers sampleRooms sampleSlots "1 / 20"
        "sampleState (sconst 0)" uniformPopulation "sampleState (sconst 0)" 2 0
        uniformPopulation]]]
  from second pre obtain p1 s1 where "?run = Inr (p1, s1)" "int (length (Timetables p1)) = 3"
    by blast
  with sample_wellFormed show ?thesis
    by simp
qed

section \<open>The drivers\<close>

declare initialPopulationLoop.simps [simp del] evolveMain.simps [simp del]
  evolveHtml.simps [simp del]

lemma zeroOnlyLast_none: "\<forall>e\<in>set t. \<not> scoredZero e \<Longrightarrow> zeroOnlyLast t"
  by (simp add: zeroOnlyLast_def)

lemma zeroOnlyLast_snoc: "\<forall>e\<in>set t. \<not> scoredZero e \<Longrightarrow> zeroOnlyLast (t @ [e])"
  by (auto simp: zeroOnlyLast_def nth_append less_Suc_eq)

lemma weightsHtml_nonneg: "0 \<le> teacherConflict weightsHtml" "0 \<le> roomConflict weightsHtml"
  by (simp_all add: weightsHtml_def)

text \<open>
  What the scan of one generation leaves behind, entered with no score of 0 seen so far:
  either it stopped at a score of 0, which is then the last event, or no score of 0 has
  been seen still.
\<close>

lemma evaluateLoop_trace:
  "\<forall>e\<in>set (trace d). \<not> scoredZero e \<Longrightarrow> bestFitnessAllGenerations d < 0 \<Longrightarrow> best < 0 \<Longrightarrow>
   (case evaluateLoop classes generation k timetables best d of
      Inl (e, t) \<Rightarrow> \<forall>e\<in>set t. \<not> scoredZero e
    | Inr (best', d') \<Rightarrow>
        (best' = 0 \<and> (\<exists>t e. trace d' = t @ [e] \<and> (\<forall>e\<in>set t. \<not> scoredZero e))) \<or>
        (best' < 0 \<and> (\<forall>e\<in>set (trace d'). \<not> scoredZero e) \<and> bestFitnessAllGenerations d' < 0))"
proof (induction timetables arbitrary: k best d)
  case Nil
  then show ?case by simp
next
  case (Cons timetable rest)
  show ?case
  proof (cases "calculateFitness weightsHtml (heap (world d)) timetable classes")
    case (Inl e)
    with Cons.prems show ?thesis
      by (simp add: orAbort_def)
  next
    case (Inr currentFitness)
    with weightsHtml_nonneg have le: "currentFitness \<le> 0"
      by (rule calculateFitness_le)
    let ?d1 = "d\<lparr>trace := trace d @ [Evaluated generation k currentFitness]\<rparr>"
    let ?d2 = "?d1\<lparr>bestFitnessAllGenerations := currentFitness,
                  bestTimetable := \<lparr>Timetable = timetable, FitnessScore = currentFitness\<rparr>\<rparr>"
    show ?thesis
    proof (cases "currentFitness = 0")
      case True
      with Cons.prems have "evaluateLoop classes generation k (timetable # rest) best d =
          Inr (0, ?d2)"
        by (simp add: Inr orAbort_def Let_def)
      with Cons.prems(1) show ?thesis
        by auto
    next
      case False
      with le have neg: "currentFitness < 0" by simp
      then have nz: "\<forall>e\<in>set (trace ?d1). \<not> scoredZero e" "\<forall>e\<in>set (trace ?d2). \<not> scoredZero e"
        using Cons.prems(1) by auto
      consider (both) "currentFitness > best" "currentFitness > bestFitnessAllGenerations d"
        | (gen) "currentFitness > best" "\<not> currentFitness > bestFitnessAllGenerations d"
        | (none) "\<not> currentFitness > best"
        by blast
      then show ?thesis
      proof cases
        case both
        with False have "evaluateLoop classes generation k (timetable # rest) best d =
            evaluateLoop classes generation (Suc k) rest currentFitness ?d2"
          by (simp add: Inr orAbort_def Let_def)
        moreover have "bestFitnessAllGenerations ?d2 < 0"
          using neg by simp
        ultimately show ?thesis
          using Cons.IH [OF nz(2) _ neg, of "Suc k"] by simp
      next
        case gen
        then have "evaluateLoop classes generation k (timetable # rest) best d =
            evaluateLoop classes generation (Suc k) rest currentFitness ?d1"
          by (simp add: Inr orAbort_def Let_def)
        moreover have "bestFitnessAllGenerations ?d1 < 0"
          using Cons.prems(2) by simp
        ultimately show ?thesis
          using Cons.IH [OF nz(1) _ neg, of "Suc k"] by simp
      next
        case none
        then have "evaluateLoop classes generation k (timetable # rest) best d =
            evaluateLoop classes generation (Suc k) rest best ?d1"
          by (simp add: Inr orAbort_def Let_def)
        moreover have "bestFitnessAllGenerations ?d1 < 0"
          using Cons.prems(2) by simp
        ultimately show ?thesis
          using Cons.IH [OF nz(1) _ Cons.prems(3), of "Suc k"] by simp
      qed
    qed
  qed
qed

lemma evolveHtml_trace:
  "\<forall>e\<in>set (trace d). \<not> scoredZero e \<Longrightarrow> bestFitnessAllGenerations d < 0 \<Longrightarrow>
   zeroOnlyLast (traceOf (evolveHtml tournamentSize populationSize classes teachers rooms
     timeSlots mutationRate numGenerations generation d))"
proof (induction tournamentSize populationSize classes teachers rooms timeSlots mutationRate
         numGenerations generation d rule: evolveHtml.induct)
  case (1 tournamentSize populationSize classes teachers rooms timeSlots mutationRate
          numGenerations generation d)
  let ?run = "evolveHtml tournamentSize populationSize classes teachers rooms timeSlots
     mutationRate numGenerations generation d"
  show ?case
  proof (cases "generation < numGenerations")
    case False
    then have "?run = Inr d"
      by (subst evolveHtml.simps) simp
    with 1(2) show ?thesis
      by (simp add: traceOf_def zeroOnlyLast_none)
  next
    case True
    show ?thesis
    proof (cases "CreateNewGeneration weightsHtml (individuals d) tournamentSize populationSize
                    classes teachers rooms timeSlots mutationRate (world d)")
      case (Inl e)
      with True have "?run = Inl (e, trace d)"
        by (subst evolveHtml.simps) (simp add: orAbort_def)
      with 1(2) show ?thesis
        by (simp add: traceOf_def zeroOnlyLast_none)
    next
      case (Inr new)
      obtain population1 s1 where new: "new = (population1, s1)"
        by (cases new)
      let ?d0 = "d\<lparr>individuals := population1, world := s1,
                   trace := trace d @ [Produced generation]\<rparr>"
      let ?scan = "evaluateLoop classes generation 0 (Timetables population1) (- 100000000) ?d0"
      have nz0: "\<forall>e\<in>set (trace ?d0). \<not> scoredZero e" and b0: "bestFitnessAllGenerations ?d0 < 0"
        using 1(2,3) by auto
      note scan = evaluateLoop_trace [OF nz0 b0, of "- 100000000" classes generation 0
          "Timetables population1"]
      show ?thesis
      proof (cases ?scan)
        case (Inl a)
        with True Inr new have "?run = Inl a"
          by (subst evolveHtml.simps) (simp add: orAbort_def)
        with scan Inl show ?thesis
          by (cases a) (simp add: traceOf_def zeroOnlyLast_none)
      next
        case scanned: (Inr b)
        obtain best' d1 where b: "b = (best', d1)"
          by (cases b)
        show ?thesis
        proof (cases "best' = 0")
          case True
          with \<open>generation < numGenerations\<close> Inr new scanned b have "?run = Inr d1"
            by (subst evolveHtml.simps) (simp add: orAbort_def)
          moreover from scan scanned b True obtain t e where
            "trace d1 = t @ [e]" "\<forall>e\<in>set t. \<not> scoredZero e"
            by auto
          ultimately show ?thesis
            by (simp add: traceOf_def zeroOnlyLast_snoc)
        next
          case False
          with \<open>generation < numGenerations\<close> Inr new scanned b
          have "?run = evolveHtml tournamentSize populationSize classes teachers rooms timeSlots
                  mutationRate numGenerations (generation + 1) d1"
            by (subst evolveHtml.simps) (simp add: orAbort_def)
          moreover from scan scanned b False have
            nz1: "\<forall>e\<in>set (trace d1). \<not> scoredZero e" and b1: "bestFitnessAllGenerations d1 < 0"
            by auto
          note 1(1) [OF \<open>generation < numGenerations\<close> scanned b [symmetric] False nz1 b1]
          ultimately show ?thesis
            by simp
        qed
      qed
    qed
  qed
qed

lemma evolveHtml_panic:
  "\<forall>e\<in>set (trace d). \<not> scoredZero e \<Longrightarrow> bestFitnessAllGenerations d < 0 \<Longrightarrow>
   evolveHtml tournamentSize populationSize classes teachers rooms timeSlots mutationRate
     numGenerations generation d = Inl (e, t) \<Longrightarrow>
   \<forall>ev\<in>set t. \<not> scoredZero ev"
proof (induction tournamentSize populationSize classes teachers rooms timeSlots mutationRate
         numGenerations generation d rule: evolveHtml.induct)
  case (1 tournamentSize populationSize classes teachers rooms timeSlots mutationRate
          numGenerations generation d)
  let ?run = "evolveHtml tournamentSize populationSize classes teachers rooms timeSlots
     mutationRate numGenerations generation d"
  show ?case
  proof (cases "generation < numGenerations")
    case False
    then have "?run = Inr d"
      by (subst evolveHtml.simps) simp
    with 1(4) show ?thesis
      by simp
  next
    case True
    show ?thesis
    proof (cases "CreateNewGeneration weightsHtml (individuals d) tournamentSize populationSize
                    classes teachers rooms timeSlots mutationRate (world d)")
      case (Inl e')
      with True have "?run = Inl (e', trace d)"
        by (subst evolveHtml.simps) (simp add: orAbort_def)
      with 1(2,4) show ?thesis
        by simp
    next
      case (Inr new)
      obtain population1 s1 where new: "new = (population1, s1)"
        by (cases new)
      let ?d0 = "d\<lparr>individuals := population1, world := s1,
                   trace := trace d @ [Produced generation]\<rparr>"
      let ?scan = "evaluateLoop classes generation 0 (Timetables population1) (- 100000000) ?d0"
      have nz0: "\<forall>e\<in>set (trace ?d0). \<not> scoredZero e" and b0: "bestFitnessAllGenerations ?d0 < 0"
        using 1(2,3) by auto
      note scan = evaluateLoop_trace [OF nz0 b0, of "- 100000000" classes generation 0
          "Timetables population1"]
      show ?thesis
      proof (cases ?scan)
        case (Inl a)
        with True Inr new have "?run = Inl a"
          by (subst evolveHtml.simps) (simp add: orAbort_def)
        with 1(4) have "a = (e, t)"
          by simp
        with scan Inl show ?thesis
          by simp
      next
        case scanned: (Inr b)
        obtain best' d1 where b: "b = (best', d1)"
          by (cases b)
        show ?thesis
        proof (cases "best' = 0")
          case True
          with \<open>generation < numGenerations\<close> Inr new scanned b have "?run = Inr d1"
            by (subst evolveHtml.simps) (simp add: orAbort_def)
          with 1(4) show ?thesis
            by simp
        next
          case False
          with \<open>generation < numGenerations\<close> Inr new scanned b
          have "?run = evolveHtml tournamentSize populationSize classes teachers rooms timeSlots
                  mutationRate numGenerations (generation + 1) d1"
            by (subst evolveHtml.simps) (simp add: orAbort_def)
          with 1(4) have next_run: "evolveHtml tournamentSize populationSize classes teachers rooms
              timeSlots mutationRate numGenerations (generation + 1) d1 = Inl (e, t)"
            by simp
          from scan scanned b False have
            nz1: "\<forall>e\<in>set (trace d1). \<not> scoredZero e" and b1: "bestFitnessAllGenerations d1 < 0"
            by auto
          from 1(1) [OF \<open>generation < numGenerations\<close> scanned b [symmetric] False nz1 b1 next_run]
          show ?thesis .
        qed
      qed
    qed
  qed
qed

text \<open>
  The whole run: before the generation loop is entered nothing is in the trace, and the
  loop is entered with the best-so-far score at its start value.
\<close>

lemma mainHtml_started:
  "(\<exists>e. mainHtml classes teachers rooms timeSlots populationSize numGenerations tournamentSize
          mutationRate s = Inl (e, [])) \<or>
   (\<exists>population s1.
      mainHtml classes teachers rooms timeSlots populationSize numGenerations tournamentSize
        mutationRate s =
      evolveHtml tournamentSize populationSize classes teachers rooms timeSlots mutationRate
        numGenerations 0
        \<lparr>individuals = population, bestFitnessAllGenerations = - 100000000,
         bestTimetable = \<lparr>Timetable = \<lparr>Genes = []\<rparr>, FitnessScore = 0\<rparr>,
         trace = [], world = s1\<rparr>)"
proof (cases "makeTimetables populationSize")
  case (Inl e)
  then show ?thesis
    by (simp add: mainHtml_def orAbort_def)
next
  case made: (Inr timetables)
  show ?thesis
  proof (cases "initialPopulationLoop classes teachers rooms timeSlots populationSize 0
                  \<lparr>Timetables = timetables\<rparr> s")
    case (Inl e)
    with made show ?thesis
      by (simp add: mainHtml_def orAbort_def)
  next
    case (Inr a)
    obtain population s1 where a: "a = (population, s1)"
      by (cases a)
    show ?thesis
    proof (cases "displayLoop weightsHtml (heap s1) classes (Timetables population)")
      case (Inl e)
      with made Inr a show ?thesis
        by (simp add: mainHtml_def orAbort_def)
    next
      case shown: (Inr u)
      with made Inr a have "mainHtml classes teachers rooms timeSlots populationSize
          numGenerations tournamentSize mutationRate s =
        evolveHtml tournamentSize populationSize classes teachers rooms timeSlots mutationRate
          numGenerations 0
          \<lparr>individuals = population, bestFitnessAllGenerations = - 100000000,
           bestTimetable = \<lparr>Timetable = \<lparr>Genes = []\<rparr>, FitnessScore = 0\<rparr>,
           trace = [], world = s1\<rparr>"
        by (simp add: mainHtml_def orAbort_def)
      then show ?thesis
        by blast
    qed
  qed
qed

lemma mainHtml_trace:
  "zeroOnlyLast (traceOf (mainHtml classes teachers rooms timeSlots populationSize numGenerations
     tournamentSize mutationRate s))"
  using mainHtml_started [of classes teachers rooms timeSlots populationSize numGenerations
      tournamentSize mutationRate s]
proof (elim disjE exE)
  fix e
  assume "mainHtml classes teachers rooms timeSlots populationSize numGenerations tournamentSize
      mutationRate s = Inl (e, [])"
  then show ?thesis
    by (simp add: traceOf_def zeroOnlyLast_def)
next
  fix population s1
  let ?d = "\<lparr>individuals = population, bestFitnessAllGenerations = - 100000000,
        bestTimetable = \<lparr>Timetable = \<lparr>Genes = []\<rparr>, FitnessScore = 0\<rparr>,
        trace = [], world = s1\<rparr>"
  assume run: "mainHtml classes teachers rooms timeSlots populationSize numGenerations
      tournamentSize mutationRate s =
      evolveHtml tournamentSize populationSize classes teachers rooms timeSlots mutationRate
        numGenerations 0 ?d"
  have "zeroOnlyLast (traceOf (evolveHtml tournamentSize populationSize classes teachers rooms
          timeSlots mutationRate numGenerations 0 ?d))"
    by (rule evolveHtml_trace) simp_all
  with run show ?thesis
    by simp
qed

lemma mainHtml_panic:
  assumes "mainHtml classes teachers rooms timeSlots populationSize numGenerations tournamentSize
     mutationRate s = Inl (e, t)"
  shows "\<forall>ev\<in>set t. \<not> scoredZero ev"
  using mainHtml_started [of classes teachers rooms timeSlots populationSize numGenerations
      tournamentSize mutationRate s]
proof (elim disjE exE)
  fix e'
  assume "mainHtml classes teachers rooms timeSlots populationSize numGenerations tournamentSize
      mutationRate s = Inl (e', [])"
  with assms show ?thesis
    by simp
next
  fix population s1
  let ?d = "\<lparr>individuals = population, bestFitnessAllGenerations = - 100000000,
        bestTimetable = \<lparr>Timetable = \<lparr>Genes = []\<rparr>, FitnessScore = 0\<rparr>,
        trace = [], world = s1\<rparr>"
  assume "mainHtml classes teachers rooms timeSlots populationSize numGenerations
      tournamentSize mutationRate s =
      evolveHtml tournamentSize populationSize classes teachers rooms timeSlots mutationRate
        numGenerations 0 ?d"
  with assms have "evolveHtml tournamentSize populationSize classes teachers rooms timeSlots
      mutationRate numGenerations 0 ?d = Inl (e, t)"
    by simp
  then show ?thesis
    by (rule evolveHtml_panic [rotated 2]) simp_all
qed

text \<open>
  Runs on the generator \<open>halves\<close>: every tournament samples index 0 three times, every
  cut is at 0, and no gene is mutated at a rate of at most one half.
\<close>

lemma halves_sel: "shd halves = 2 ^ 52" "stl halves = halves"
  by (simp_all add: halves_def)

lemma halves_same: "rand s = halves \<Longrightarrow> s\<lparr>rand := halves\<rparr> = s"
  by simp

lemma select_first:
  assumes r: "rand s = halves" and two: "length (Timetables population) = 2"
    and fit: "calculateFitness w (heap s) (Timetables population ! 0) classes = Inr v"
  shows "TournamentSelection w population 3 classes s = Inr (Timetables population ! 0, s)"
proof -
  have draw: "Intn 2 halves = Inr (0, halves)"
    by (simp add: Intn_def halves_sel)
  have "tournamentLoop w (heap s) population 3 classes 0 (- 1) (- 1000) halves = Inr (0, halves)"
    by (simp add: tournamentLoop.simps [of _ _ _ _ _ 0] tournamentLoop.simps [of _ _ _ _ _ 1]
        tournamentLoop.simps [of _ _ _ _ _ 2] tournamentLoop.simps [of _ _ _ _ _ 3]
        two fit draw index_def andThen_def)
  then show ?thesis
    by (simp add: TournamentSelection_def r halves_same [OF r] andThen_def index_def two)
qed

lemma cross_same:
  assumes r: "rand s = halves" and ne: "Genes c \<noteq> []" and cut: "2 ^ 52 mod length (Genes c) = 0"
  shows "crossover c c s = Inr (c, s)"
  using crossover_eq [OF refl ne, of s] by (simp add: r halves_sel cut halves_same [OF r])

lemma mutateLoop_halves:
  "rand s = halves \<Longrightarrow> mutationRate \<le> 1 / 2 \<Longrightarrow>
   mutateLoop chromosome teachers rooms timeSlots mutationRate i s = Inr s"
proof (induction chromosome teachers rooms timeSlots mutationRate i s rule: mutateLoop.induct)
  case (1 chromosome teachers rooms timeSlots mutationRate i s)
  show ?case
  proof (cases "i < int (length (Genes chromosome))")
    case False
    then show ?thesis
      by (subst mutateLoop.simps) simp
  next
    case True
    have "fst (Float64 (rand s)) = 1 / 2"
      by (simp add: Float64_def 1(2) halves_sel)
    with 1(3) have "\<not> fst (Float64 (rand s)) < mutationRate"
      by simp
    then have step: "mutateGene chromosome teachers rooms timeSlots mutationRate i s = Inr s"
      using mutateGene_keep [of s mutationRate chromosome teachers rooms timeSlots i]
      by (simp add: 1(2) halves_sel halves_same [OF 1(2)])
    from 1(1) [OF True 1(2,3)] True show ?thesis
      by (subst mutateLoop.simps) (simp add: step andThen_def)
  qed
qed

lemma mutate_halves:
  "rand s = halves \<Longrightarrow> mutationRate \<le> 1 / 2 \<Longrightarrow>
   mutate chromosome teachers rooms timeSlots mutationRate s = Inr (chromosome, s)"
  by (simp add: mutate_def mutateLoop_halves andThen_def)

lemma generation_first:
  assumes r: "rand s = halves" and two: "length (Timetables population) = 2"
    and fit: "calculateFitness w (heap s) (Timetables population ! 0) classes = Inr v"
    and ne: "Genes (Timetables population ! 0) \<noteq> []"
    and cut: "2 ^ 52 mod length (Genes (Timetables population ! 0)) = 0"
    and mut: "mutate (Timetables population ! 0) teachers rooms timeSlots mutationRate s =
                Inr (Timetables population ! 0, s)"
  shows "CreateNewGeneration w population 3 2 classes teachers rooms timeSlots mutationRate s =
           Inr (\<lparr>Timetables = [Timetables population ! 0, Timetables population ! 0]\<rparr>, s)"
proof -
  let ?c = "Timetables population ! 0"
  note sel = select_first [OF r two fit]
  note cross = cross_same [OF r ne cut]
  have "generationLoop w population 3 2 classes teachers rooms timeSlots mutationRate 0
          \<lparr>Timetables = []\<rparr> s =
        generationLoop w population 3 2 classes teachers rooms timeSlots mutationRate (0 + 2)
          (appendChildren \<lparr>Timetables = []\<rparr> 2 ?c ?c) s"
    by (rule generationLoop_unfold [OF _ sel sel cross cross mut mut]) simp
  also have "\<dots> = Inr (appendChildren \<lparr>Timetables = []\<rparr> 2 ?c ?c, s)"
    by (rule generationLoop_done) simp
  also have "appendChildren \<lparr>Timetables = []\<rparr> 2 ?c ?c = \<lparr>Timetables = [?c, ?c]\<rparr>"
    by (simp add: appendChildren_def)
  finally show ?thesis
    by (simp add: CreateNewGeneration_def)
qed

lemma clean_scores:
  "calculateFitness weightsMain sampleHeap clean classes = Inr 0"
  "calculateFitness weightsHtml sampleHeap clean classes = Inr 0"
proof -
  have "structurallyValid sampleHeap clean"
    by (simp add: sample_defs score_defs)
  then show "calculateFitness weightsMain sampleHeap clean classes = Inr 0"
    "calculateFitness weightsHtml sampleHeap clean classes = Inr 0"
    by (simp_all add: calculateFitness_valid penaltySum_def sample_defs score_defs)
qed

lemma sample_generation:
  "CreateNewGeneration weightsMain uniformPopulation 3 2 classes sampleTeachers sampleRooms
     sampleSlots (1 / 20) (sampleState halves) = Inr (cleanTwice, sampleState halves)"
  "CreateNewGeneration weightsMain cleanTwice 3 2 classes sampleTeachers sampleRooms
     sampleSlots (1 / 20) (sampleState halves) = Inr (cleanTwice, sampleState halves)"
proof -
  have r: "rand (sampleState halves) = halves"
    by (simp add: sampleState_def)
  have rate: "(1 / 20 :: real) \<le> 1 / 2"
    by simp
  have len: "length (Genes clean) = 2"
    by (simp add: clean_def)
  have first: "Timetables uniformPopulation ! 0 = clean" "Timetables cleanTwice ! 0 = clean"
    and two: "length (Timetables uniformPopulation) = 2" "length (Timetables cleanTwice) = 2"
    by (simp_all add: uniformPopulation_def cleanTwice_def)
  have fit: "calculateFitness weightsMain (heap (sampleState halves)) clean classes = Inr 0"
    by (simp add: sampleState_def clean_scores)
  have ne: "Genes clean \<noteq> []" and cut: "2 ^ 52 mod length (Genes clean) = 0"
    using len by auto
  note mut = mutate_halves [OF r rate, of clean sampleTeachers sampleRooms sampleSlots]
  from generation_first [OF r two(1) fit [folded first(1)] ne [folded first(1)]
      cut [folded first(1)] mut [folded first(1)]]
  show "CreateNewGeneration weightsMain uniformPopulation 3 2 classes sampleTeachers sampleRooms
     sampleSlots (1 / 20) (sampleState halves) = Inr (cleanTwice, sampleState halves)"
    by (simp add: first cleanTwice_def)
  from generation_first [OF r two(2) fit [folded first(2)] ne [folded first(2)]
      cut [folded first(2)] mut [folded first(2)]]
  show "CreateNewGeneration weightsMain cleanTwice 3 2 classes sampleTeachers sampleRooms
     sampleSlots (1 / 20) (sampleState halves) = Inr (cleanTwice, sampleState halves)"
    by (simp add: first cleanTwice_def)
qed

lemma sample_run_main:
  "evolveMain 3 2 [] sampleTeachers sampleRooms sampleSlots (1 / 20) 2 0 uniformPopulation []
     (sampleState halves) =
   Inr (cleanTwice, [Produced 0, Evaluated 0 1 0, Produced 1, Evaluated 1 1 0],
        sampleState halves)"
proof -
  have "Timetables cleanTwice = [clean, clean]" "heap (sampleState halves) = sampleHeap"
    by (simp_all add: cleanTwice_def sampleState_def)
  then show ?thesis
    by (simp add: evolveMain.simps [of _ _ _ _ _ _ _ _ 0] evolveMain.simps [of _ _ _ _ _ _ _ _ 1]
      evolveMain.simps [of _ _ _ _ _ _ _ _ 2] sample_generation orAbort_def index_def
      clean_scores)
qed

text \<open>The smallest catalog: every chromosome is the one valid timetable.\<close>

lemma tiny_initial:
  "initialPopulationLoop [Some 0] [Some onlyTeacher] [Some onlyRoom] [Some onlySlot] 2 0
     \<lparr>Timetables = []\<rparr> tinyState = Inr (tinyPopulation, tinyStarted)"
  by (simp add: initialPopulationLoop.simps [of _ _ _ _ _ 0] initialPopulationLoop.simps [of _ _ _ _ _ 1]
      initialPopulationLoop.simps [of _ _ _ _ _ 2] initializeRandomTimetable_def Intn_def
      index_def load_def andThen_def tinyState_def tinyStarted_def tinyPopulation_def
      firstTimetable_def secondTimetable_def halves_sel mathTemplate_def mathClass_def geneAt_def)

lemma tiny_scores:
  "calculateFitness w (heap tinyStarted) firstTimetable classes = Inr 0"
  "calculateFitness w (heap tinyStarted) secondTimetable classes = Inr 0"
proof -
  have "structurallyValid (heap tinyStarted) firstTimetable"
    "structurallyValid (heap tinyStarted) secondTimetable"
    by (simp_all add: tinyStarted_def mathClass_def geneAt_def firstTimetable_def
        secondTimetable_def score_defs)
  then show "calculateFitness w (heap tinyStarted) firstTimetable classes = Inr 0"
    "calculateFitness w (heap tinyStarted) secondTimetable classes = Inr 0"
    by (simp_all add: calculateFitness_valid penaltySum_def tinyStarted_def mathClass_def
        geneAt_def onlyTeacher_def onlyRoom_def onlySlot_def firstTimetable_def
        secondTimetable_def score_defs)
qed

lemma tiny_mutate:
  "mutate firstTimetable [Some onlyTeacher] [Some onlyRoom] [Some onlySlot] (1 / 20) tinyStarted =
     Inr (firstTimetable, tinyStarted)"
  "mutate firstTimetable [Some onlyTeacher] [Some onlyRoom] [Some onlySlot] 2 tinyStarted =
     Inr (firstTimetable, tinyStarted)"
proof -
  have "rand tinyStarted = halves"
    by (simp add: tinyStarted_def)
  then show "mutate firstTimetable [Some onlyTeacher] [Some onlyRoom] [Some onlySlot] (1 / 20)
      tinyStarted = Inr (firstTimetable, tinyStarted)"
    by (rule mutate_halves) simp
  have three: "(2 ^ 52 :: nat) mod 3 = 1"
    by simp
  show "mutate firstTimetable [Some onlyTeacher] [Some onlyRoom] [Some onlySlot] 2 tinyStarted =
     Inr (firstTimetable, tinyStarted)"
    by (simp add: mutate_def mutateLoop.simps [of _ _ _ _ _ 0] mutateLoop.simps [of _ _ _ _ _ 1]
        mutateGene_def Float64_def Intn_def index_def store_def andThen_def tinyStarted_def
        firstTimetable_def geneAt_def halves_sel three mathClass_def zmod_int [symmetric])
qed

lemma tiny_generation:
  "mutationRate = 1 / 20 \<or> mutationRate = 2 \<Longrightarrow>
   CreateNewGeneration w tinyPopulation 3 2 classes [Some onlyTeacher] [Some onlyRoom]
     [Some onlySlot] mutationRate tinyStarted = Inr (tinyNext, tinyStarted)"
proof -
  assume "mutationRate = 1 / 20 \<or> mutationRate = 2"
  then have mut: "mutate firstTimetable [Some onlyTeacher] [Some onlyRoom]
      [Some onlySlot] mutationRate tinyStarted = Inr (firstTimetable, tinyStarted)"
    by (rule disjE) (simp_all only: tiny_mutate)
  have r: "rand tinyStarted = halves"
    by (simp add: tinyStarted_def)
  have two: "length (Timetables tinyPopulation) = 2"
    and first: "Timetables tinyPopulation ! 0 = firstTimetable"
    by (simp_all add: tinyPopulation_def)
  have one: "length (Genes firstTimetable) = 1"
    by (simp add: firstTimetable_def)
  then have ne: "Genes firstTimetable \<noteq> []" and cut: "2 ^ 52 mod length (Genes firstTimetable) = 0"
    by auto
  from generation_first [OF r two tiny_scores(1) [folded first] ne [folded first]
      cut [folded first] mut [folded first]]
  show ?thesis
    by (simp add: first tinyNext_def)
qed

lemma tiny_run:
  "mutationRate = 1 / 20 \<or> mutationRate = 2 \<Longrightarrow>
   mainHtml [Some 0] [Some onlyTeacher] [Some onlyRoom] [Some onlySlot] 2 5 3 mutationRate tinyState =
     Inr \<lparr>individuals = tinyNext, bestFitnessAllGenerations = 0,
          bestTimetable = \<lparr>Timetable = firstTimetable, FitnessScore = 0\<rparr>,
          trace = [Produced 0, Evaluated 0 0 0], world = tinyStarted\<rparr>"
proof -
  assume rate: "mutationRate = 1 / 20 \<or> mutationRate = 2"
  have pop: "Timetables tinyPopulation = [firstTimetable, secondTimetable]"
    "Timetables tinyNext = [firstTimetable, firstTimetable]"
    by (simp_all add: tinyPopulation_def tinyNext_def)
  show ?thesis
    by (simp add: mainHtml_def makeTimetables_def tiny_initial orAbort_def andThen_def pop
        tiny_scores evolveHtml.simps [of _ _ _ _ _ _ _ _ 0] tiny_generation [OF rate])
qed

lemma tiny_run_without_population:
  "mainHtml [Some 0] [Some onlyTeacher] [Some onlyRoom] [Some onlySlot] 0 2 3 (1 / 20) tinyState =
     Inr \<lparr>individuals = \<lparr>Timetables = []\<rparr>, bestFitnessAllGenerations = - 100000000,
          bestTimetable = \<lparr>Timetable = \<lparr>Genes = []\<rparr>, FitnessScore = 0\<rparr>,
          trace = [Produced 0, Produced 1], world = tinyState\<rparr>"
  by (simp add: mainHtml_def makeTimetables_def initialPopulationLoop.simps [of _ _ _ _ _ 0]
      orAbort_def evolveHtml.simps [of _ _ _ _ _ _ _ _ 0] evolveHtml.simps [of _ _ _ _ _ _ _ _ 1]
      evolveHtml.simps [of _ _ _ _ _ _ _ _ 2] CreateNewGeneration_def generationLoop_done)

lemma TournamentSelection_nonpositive:
  "tournamentSize \<le> 0 \<Longrightarrow>
   TournamentSelection w population tournamentSize classes s = Inl IndexOutOfRange"
  by (simp add: TournamentSelection_def tournamentLoop.simps [of _ _ _ tournamentSize]
      andThen_def index_def)

lemma tiny_run_without_tournament:
  "mainHtml [Some 0] [Some onlyTeacher] [Some onlyRoom] [Some onlySlot] 2 5 0 (1 / 20) tinyState =
     Inl (IndexOutOfRange, [])"
proof -
  have pop: "Timetables tinyPopulation = [firstTimetable, secondTimetable]"
    by (simp add: tinyPopulation_def)
  show ?thesis
    by (simp add: mainHtml_def makeTimetables_def tiny_initial orAbort_def andThen_def pop
        tiny_scores evolveHtml.simps [of _ _ _ _ _ _ _ _ 0] CreateNewGeneration_def
        generationLoop.simps [of _ _ _ _ _ _ _ _ _ 0] TournamentSelection_nonpositive)
qed

lemma tiny_run_negative:
  "mainHtml [Some 0] [Some onlyTeacher] [Some onlyRoom] [Some onlySlot] (- 1) 5 3 (1 / 20)
     tinyState = Inl (CapOutOfRange, [])"
  by (simp add: mainHtml_def makeTimetables_def orAbort_def)

text \<open>
  C4, as the code has it. In the variant that keeps the best-found record, whatever the
  catalogs and parameters and however the run ends: when the scan of a new generation in
  the generation loop evaluates an individual to the score 0, that evaluation is the last
  event of the run. No further individual of that generation is evaluated and no further
  generation is produced; the run does not panic after it either, it returns. The same
  holds for the generation loop entered with a best-so-far score below 0 and no score of 0
  seen before.
\<close>

theorem html_driver_stops_at_first_zero:
  "zeroOnlyLast (traceOf (mainHtml classes teachers rooms timeSlots populationSize numGenerations
     tournamentSize mutationRate s)) \<and>
   (mainHtml classes teachers rooms timeSlots populationSize numGenerations tournamentSize
      mutationRate s = Inl (e, t) \<longrightarrow> (\<forall>ev\<in>set t. \<not> scoredZero ev)) \<and>
   ((\<forall>e\<in>set (trace d). \<not> scoredZero e) \<and> bestFitnessAllGenerations d < 0 \<longrightarrow>
    zeroOnlyLast (traceOf (evolveHtml tournamentSize populationSize classes teachers rooms
      timeSlots mutationRate numGenerations generation d)) \<and>
    (evolveHtml tournamentSize populationSize classes teachers rooms timeSlots mutationRate
       numGenerations generation d = Inl (e, t) \<longrightarrow> (\<forall>ev\<in>set t. \<not> scoredZero ev)))"
proof (intro conjI impI)
  show "zeroOnlyLast (traceOf (mainHtml classes teachers rooms timeSlots populationSize
      numGenerations tournamentSize mutationRate s))"
    by (rule mainHtml_trace)
  show "\<forall>ev\<in>set t. \<not> scoredZero ev"
    if "mainHtml classes teachers rooms timeSlots populationSize numGenerations tournamentSize
      mutationRate s = Inl (e, t)"
    using that by (rule mainHtml_panic)
  show "zeroOnlyLast (traceOf (evolveHtml tournamentSize populationSize classes teachers rooms
      timeSlots mutationRate numGenerations generation d))"
    if "(\<forall>e\<in>set (trace d). \<not> scoredZero e) \<and> bestFitnessAllGenerations d < 0"
    using that by (simp add: evolveHtml_trace)
  show "\<forall>ev\<in>set t. \<not> scoredZero ev"
    if "(\<forall>e\<in>set (trace d). \<not> scoredZero e) \<and> bestFitnessAllGenerations d < 0"
      and "evolveHtml tournamentSize populationSize classes teachers rooms timeSlots mutationRate
       numGenerations generation d = Inl (e, t)"
    using that evolveHtml_panic [of d tournamentSize populationSize classes teachers rooms
      timeSlots mutationRate numGenerations generation e t]
    by blast
qed

theorem html_driver_stops_at_first_zero_witness:
  "mainHtml [Some 0] [Some onlyTeacher] [Some onlyRoom] [Some onlySlot] 2 5 3 (1 / 20) tinyState =
     Inr \<lparr>individuals = tinyNext, bestFitnessAllGenerations = 0,
          bestTimetable = \<lparr>Timetable = firstTimetable, FitnessScore = 0\<rparr>,
          trace = [Produced 0, Evaluated 0 0 0], world = tinyStarted\<rparr> \<and>
   scoredZero ([Produced 0, Evaluated 0 0 0] ! 1) \<and>
   Suc 1 = length [Produced 0, Evaluated 0 0 0] \<and>
   zeroOnlyLast [Produced 0, Evaluated 0 0 0] \<and>
   mainHtml [Some 0] [Some onlyTeacher] [Some onlyRoom] [Some onlySlot] (- 1) 5 3 (1 / 20)
     tinyState = Inl (CapOutOfRange, []) \<and>
   \<not> list_ex scoredZero []"
proof -
  have run: "mainHtml [Some 0] [Some onlyTeacher] [Some onlyRoom] [Some onlySlot] 2 5 3 (1 / 20)
      tinyState =
     Inr \<lparr>individuals = tinyNext, bestFitnessAllGenerations = 0,
          bestTimetable = \<lparr>Timetable = firstTimetable, FitnessScore = 0\<rparr>,
          trace = [Produced 0, Evaluated 0 0 0], world = tinyStarted\<rparr>"
    by (rule tiny_run) simp
  from html_driver_stops_at_first_zero
    [of "[Some 0]" "[Some onlyTeacher]" "[Some onlyRoom]" "[Some onlySlot]" 2 5 3 "1 / 20" tinyState]
  have "zeroOnlyLast (traceOf (mainHtml [Some 0] [Some onlyTeacher] [Some onlyRoom]
      [Some onlySlot] 2 5 3 (1 / 20) tinyState))"
    by (rule conjunct1)
  then have last: "zeroOnlyLast [Produced 0, Evaluated 0 0 0]"
    by (simp add: run traceOf_def)
  from html_driver_stops_at_first_zero
    [of "[Some 0]" "[Some onlyTeacher]" "[Some onlyRoom]" "[Some onlySlot]" "- 1" 5 3 "1 / 20"
        tinyState CapOutOfRange "[]", THEN conjunct2, THEN conjunct1] tiny_run_negative
  have "\<forall>ev\<in>set []. \<not> scoredZero ev"
    by (rule mp)
  then have none: "\<not> list_ex scoredZero []"
    by simp
  from run last tiny_run_negative none show ?thesis
    by simp
qed

text \<open>
  The loop of \<^verbatim>\<open>main.go\<close> on a population of two perfect timetables, two generations:
  the individual at index 1 of generation 0 scores 0, and generation 1 is produced and
  evaluated all the same.
\<close>

theorem main_go_evolves_on_after_zero:
  "evolveMain 3 2 [] sampleTeachers sampleRooms sampleSlots (1 / 20) 2 0 uniformPopulation []
     (sampleState halves) =
   Inr (cleanTwice, [Produced 0, Evaluated 0 1 0, Produced 1, Evaluated 1 1 0],
        sampleState halves) \<and>
   \<not> zeroOnlyLast [Produced 0, Evaluated 0 1 0, Produced 1, Evaluated 1 1 0]"
proof -
  have "\<not> zeroOnlyLast [Produced 0, Evaluated 0 1 0, Produced 1, Evaluated 1 1 0]"
    unfolding zeroOnlyLast_def by (simp add: not_less) (rule exI [of _ 1], simp)
  with sample_run_main show ?thesis
    by simp
qed

section \<open>Configuration errors\<close>

lemma initializeRandomTimetable_empty_catalog:
  assumes "classes \<noteq> []" and "teachers = [] \<or> rooms = [] \<or> timeSlots = []"
  shows "initializeRandomTimetable classes teachers rooms timeSlots s = Inl InvalidIntnArgument"
proof -
  from assms(1) obtain c rest where classes: "classes = c # rest"
    by (cases classes) auto
  have idx: "index xs (int (k mod length xs)) = Inr (xs ! (k mod length xs))"
    if "xs \<noteq> []" for xs :: "'a list" and k
    using that by (simp add: index_def)
  have draw: "Intn (int (length xs)) r = Inr (int (shd r mod length xs), stl r)"
    if "xs \<noteq> []" for xs :: "'a list" and r
    using that by (simp add: Intn_pos)
  have zero: "Intn 0 r = Inl InvalidIntnArgument" for r
    by (simp add: Intn_def)
  consider "teachers = []" | "teachers \<noteq> []" "rooms = []"
    | "teachers \<noteq> []" "rooms \<noteq> []" "timeSlots = []"
    using assms(2) by blast
  then show ?thesis
  proof cases
    case 1
    then show ?thesis
      by (simp add: classes initializeRandomTimetable_def andThen_def zero)
  next
    case 2
    then show ?thesis
      by (simp add: classes initializeRandomTimetable_def andThen_def zero idx draw)
  next
    case 3
    then show ?thesis
      by (simp add: classes initializeRandomTimetable_def andThen_def zero idx draw)
  qed
qed

lemma mutateGene_rate:
  "1 \<le> mutationRate \<Longrightarrow>
   mutateGene chromosome teachers rooms timeSlots mutationRate i s =
   mutateGene chromosome teachers rooms timeSlots 1 i s"
  "mutationRate \<le> 0 \<Longrightarrow>
   mutateGene chromosome teachers rooms timeSlots mutationRate i s =
   mutateGene chromosome teachers rooms timeSlots 0 i s"
proof -
  note range = Float64_range [of "rand s"]
  show "mutateGene chromosome teachers rooms timeSlots mutationRate i s =
        mutateGene chromosome teachers rooms timeSlots 1 i s" if "1 \<le> mutationRate"
  proof -
    from that range have "fst (Float64 (rand s)) < mutationRate" "fst (Float64 (rand s)) < 1"
      by simp_all
    then show ?thesis
      by (simp add: mutateGene_def case_prod_beta)
  qed
  show "mutateGene chromosome teachers rooms timeSlots mutationRate i s =
        mutateGene chromosome teachers rooms timeSlots 0 i s" if "mutationRate \<le> 0"
  proof -
    from that range have "\<not> fst (Float64 (rand s)) < mutationRate" "\<not> fst (Float64 (rand s)) < 0"
      by simp_all
    then show ?thesis
      by (simp add: mutateGene_keep)
  qed
qed

lemma mutateLoop_rate:
  "mutationRate' = 1 \<and> 1 \<le> mutationRate \<or> mutationRate' = 0 \<and> mutationRate \<le> 0 \<Longrightarrow>
   mutateLoop chromosome teachers rooms timeSlots mutationRate i s =
   mutateLoop chromosome teachers rooms timeSlots mutationRate' i s"
proof (induction chromosome teachers rooms timeSlots mutationRate i s rule: mutateLoop.induct)
  case (1 chromosome teachers rooms timeSlots mutationRate i s)
  show ?case
  proof (cases "i < int (length (Genes chromosome))")
    case False
    then show ?thesis
      by (simp add: mutateLoop.simps [of _ _ _ _ _ i])
  next
    case True
    from 1(2) have step: "mutateGene chromosome teachers rooms timeSlots mutationRate i s =
        mutateGene chromosome teachers rooms timeSlots mutationRate' i s"
      using mutateGene_rate [of mutationRate chromosome teachers rooms timeSlots i s]
      by (elim disjE conjE) (simp_all only:)
    from 1(1) [OF True 1(2)]
    have "mutateLoop chromosome teachers rooms timeSlots mutationRate (i + 1) =
          mutateLoop chromosome teachers rooms timeSlots mutationRate' (i + 1)"
      by (intro ext)
    with True step show ?thesis
      by (simp only: mutateLoop.simps [of _ _ _ _ _ i] if_True)
  qed
qed

text \<open>
  C5, as the code has it. Nothing checks the configuration before the search starts;
  each error shows where the value is first used, or not at all. With at least one class
  and an empty teacher, room or time-slot catalog, \<^verbatim>\<open>initializeRandomTimetable\<close> panics
  in \<^verbatim>\<open>rand.Intn(0)\<close>. With no class it returns an empty chromosome, and the panic comes
  in \<^verbatim>\<open>crossover\<close>. A tournament size of 0 or less makes \<^verbatim>\<open>TournamentSelection\<close> panic
  on index -1. A population size of 0 or less makes \<^verbatim>\<open>CreateNewGeneration\<close> return an
  empty population and no error. A mutation rate of 1 or more acts as 1, one of 0 or less
  as 0.
\<close>

theorem configuration_errors_surface_on_use:
  "(classes \<noteq> [] \<and> (teachers = [] \<or> rooms = [] \<or> timeSlots = []) \<longrightarrow>
      initializeRandomTimetable classes teachers rooms timeSlots s = Inl InvalidIntnArgument) \<and>
   initializeRandomTimetable [] teachers rooms timeSlots s = Inr (\<lparr>Genes = []\<rparr>, s) \<and>
   (Genes parent1 = [] \<longrightarrow> crossover parent1 parent2 s = Inl InvalidIntnArgument) \<and>
   (tournamentSize \<le> 0 \<longrightarrow>
      TournamentSelection w population tournamentSize classes s = Inl IndexOutOfRange) \<and>
   (populationSize \<le> 0 \<longrightarrow>
      CreateNewGeneration w population tournamentSize populationSize classes teachers rooms
        timeSlots mutationRate s = Inr (\<lparr>Timetables = []\<rparr>, s)) \<and>
   (1 \<le> mutationRate \<longrightarrow>
      mutate chromosome teachers rooms timeSlots mutationRate s =
      mutate chromosome teachers rooms timeSlots 1 s) \<and>
   (mutationRate \<le> 0 \<longrightarrow>
      mutate chromosome teachers rooms timeSlots mutationRate s =
      mutate chromosome teachers rooms timeSlots 0 s)"
proof (intro conjI impI)
  show "initializeRandomTimetable classes teachers rooms timeSlots s = Inl InvalidIntnArgument"
    if "classes \<noteq> [] \<and> (teachers = [] \<or> rooms = [] \<or> timeSlots = [])"
    using that by (simp add: initializeRandomTimetable_empty_catalog)
  show "initializeRandomTimetable [] teachers rooms timeSlots s = Inr (\<lparr>Genes = []\<rparr>, s)"
    by (simp add: initializeRandomTimetable_def)
  show "crossover parent1 parent2 s = Inl InvalidIntnArgument" if "Genes parent1 = []"
    using that by (simp add: crossover_def Intn_def andThen_def)
  show "TournamentSelection w population tournamentSize classes s = Inl IndexOutOfRange"
    if "tournamentSize \<le> 0"
    using that by (rule TournamentSelection_nonpositive)
  show "CreateNewGeneration w population tournamentSize populationSize classes teachers rooms
        timeSlots mutationRate s = Inr (\<lparr>Timetables = []\<rparr>, s)" if "populationSize \<le> 0"
    using that by (simp add: CreateNewGeneration_def generationLoop_done)
  show "mutate chromosome teachers rooms timeSlots mutationRate s =
      mutate chromosome teachers rooms timeSlots 1 s" if "1 \<le> mutationRate"
    using that mutateLoop_rate [of 1 mutationRate chromosome teachers rooms timeSlots 0 s]
    by (simp only: mutate_def simp_thms)
  show "mutate chromosome teachers rooms timeSlots mutationRate s =
      mutate chromosome teachers rooms timeSlots 0 s" if "mutationRate \<le> 0"
    using that mutateLoop_rate [of 0 mutationRate chromosome teachers rooms timeSlots 0 s]
    by (simp only: mutate_def simp_thms)
qed

theorem configuration_errors_surface_on_use_witness:
  "initializeRandomTimetable [Some 0] [Some onlyTeacher] [] [Some onlySlot] tinyState =
     Inl InvalidIntnArgument \<and>
   crossover \<lparr>Genes = []\<rparr> firstTimetable tinyStarted = Inl InvalidIntnArgument \<and>
   TournamentSelection weightsHtml tinyPopulation 0 [Some 0] tinyStarted = Inl IndexOutOfRange \<and>
   CreateNewGeneration weightsHtml tinyPopulation 0 (- 1) [Some 0] [Some onlyTeacher]
     [Some onlyRoom] [Some onlySlot] 2 tinyStarted = Inr (\<lparr>Timetables = []\<rparr>, tinyStarted) \<and>
   mutate firstTimetable [Some onlyTeacher] [Some onlyRoom] [Some onlySlot] 2 tinyStarted =
     mutate firstTimetable [Some onlyTeacher] [Some onlyRoom] [Some onlySlot] 1 tinyStarted \<and>
   mutate firstTimetable [Some onlyTeacher] [Some onlyRoom] [Some onlySlot] (- 1) tinyStarted =
     mutate firstTimetable [Some onlyTeacher] [Some onlyRoom] [Some onlySlot] 0 tinyStarted"
proof -
  note a = configuration_errors_surface_on_use
    [of "[Some 0]" "[Some onlyTeacher]" "[]" "[Some onlySlot]" tinyState "\<lparr>Genes = []\<rparr>"
        firstTimetable 0 weightsHtml tinyPopulation "- 1" 2 firstTimetable]
  note b = configuration_errors_surface_on_use
    [of "[Some 0]" "[Some onlyTeacher]" "[Some onlyRoom]" "[Some onlySlot]" tinyStarted
        "\<lparr>Genes = []\<rparr>" firstTimetable 0 weightsHtml tinyPopulation "- 1" 2 firstTimetable]
  note c = configuration_errors_surface_on_use
    [of "[Some 0]" "[Some onlyTeacher]" "[Some onlyRoom]" "[Some onlySlot]" tinyStarted
        "\<lparr>Genes = []\<rparr>" firstTimetable 0 weightsHtml tinyPopulation "- 1" "- 1" firstTimetable]
  from a have "initializeRandomTimetable [Some 0] [Some onlyTeacher] [] [Some onlySlot] tinyState =
     Inl InvalidIntnArgument"
    by simp
  moreover from b have
    "crossover \<lparr>Genes = []\<rparr> firstTimetable tinyStarted = Inl InvalidIntnArgument"
    "TournamentSelection weightsHtml tinyPopulation 0 [Some 0] tinyStarted = Inl IndexOutOfRange"
    "CreateNewGeneration weightsHtml tinyPopulation 0 (- 1) [Some 0] [Some onlyTeacher]
       [Some onlyRoom] [Some onlySlot] 2 tinyStarted = Inr (\<lparr>Timetables = []\<rparr>, tinyStarted)"
    "mutate firstTimetable [Some onlyTeacher] [Some onlyRoom] [Some onlySlot] 2 tinyStarted =
       mutate firstTimetable [Some onlyTeacher] [Some onlyRoom] [Some onlySlot] 1 tinyStarted"
    by simp_all
  moreover from c have
    "mutate firstTimetable [Some onlyTeacher] [Some onlyRoom] [Some onlySlot] (- 1) tinyStarted =
       mutate firstTimetable [Some onlyTeacher] [Some onlyRoom] [Some onlySlot] 0 tinyStarted"
    by simp
  ultimately show ?thesis
    by simp
qed

text \<open>
  Three configuration errors that are not rejected. With a population size of 0 the
  whole run goes through, two generations of nobody. With a tournament size of 0 both
  chromosomes of the initial population are built, objects allocated, before the first
  selection panics. With a mutation rate of 2 the run ends with a best timetable.
\<close>

theorem configuration_errors_not_rejected:
  "mainHtml [Some 0] [Some onlyTeacher] [Some onlyRoom] [Some onlySlot] 0 2 3 (1 / 20) tinyState =
     Inr \<lparr>individuals = \<lparr>Timetables = []\<rparr>, bestFitnessAllGenerations = - 100000000,
          bestTimetable = \<lparr>Timetable = \<lparr>Genes = []\<rparr>, FitnessScore = 0\<rparr>,
          trace = [Produced 0, Produced 1], world = tinyState\<rparr> \<and>
   initialPopulationLoop [Some 0] [Some onlyTeacher] [Some onlyRoom] [Some onlySlot] 2 0
     \<lparr>Timetables = []\<rparr> tinyState = Inr (tinyPopulation, tinyStarted) \<and>
   mainHtml [Some 0] [Some onlyTeacher] [Some onlyRoom] [Some onlySlot] 2 5 0 (1 / 20) tinyState =
     Inl (IndexOutOfRange, []) \<and>
   mainHtml [Some 0] [Some onlyTeacher] [Some onlyRoom] [Some onlySlot] 2 5 3 2 tinyState =
     Inr \<lparr>individuals = tinyNext, bestFitnessAllGenerations = 0,
          bestTimetable = \<lparr>Timetable = firstTimetable, FitnessScore = 0\<rparr>,
          trace = [Produced 0, Evaluated 0 0 0], world = tinyStarted\<rparr>"
  using tiny_run [of 2] by (simp add: tiny_run_without_population tiny_initial
      tiny_run_without_tournament)

end
